theory Spec2Isabelle
  imports Complex_Main
begin

section \<open>gospeak: text-to-speech through OpenAI, ElevenLabs or Deepgram\<close>

text \<open>
  The development follows the three-provider version of \<^verbatim>\<open>main.go\<close> (the last of the
  versions in the file, from \<^verbatim>\<open>const defaultOpenAIVoice\<close> to \<^verbatim>\<open>playAudio\<close>).
  The program is one long \<^verbatim>\<open>main\<close> function with seven helpers. The helpers keep their
  names; \<^verbatim>\<open>main\<close> is cut into the blocks that its comments mark (set defaults, get
  API key, validate speed, get text input, handle the all flag, synthesize speech, save
  to file, play audio), one definition for each, and \<open>main\<close> puts them together in the
  order of the source. What the program does to the outside (standard error, HTTP, the
  audio device, the file system, sleeping) is recorded as a chronological list of events,
  and what the outside answers is a parameter, the \<open>world\<close>.
\<close>

subsection \<open>Strings\<close>

text \<open>
  Go strings are byte sequences, here \<open>string\<close>. \<^verbatim>\<open>strings.Join\<close> works on the
  bytes and is the function \<open>join\<close>. \<^verbatim>\<open>strings.ToLower\<close> and \<^verbatim>\<open>strings.TrimSpace\<close>
  read the string as UTF-8 and follow the Unicode tables of the Go library: the lower
  case of U+0130 and of U+212A are the letters \<open>i\<close> and \<open>k\<close>, and U+0085, U+00A0 and
  U+2003 are white space as much as the ASCII blanks are. These tables are not part of
  the program, so the two functions are not defined here: they are parameters of the
  model, the fields \<open>strings_ToLower\<close> and \<open>strings_TrimSpace\<close> of the world below, and
  whatever is proved holds for the functions of the library.
\<close>

type_synonym bytes = string

fun join :: "string \<Rightarrow> string list \<Rightarrow> string" where
  "join sep [] = []"
| "join sep [x] = x"
| "join sep (x # y # ys) = x @ sep @ join sep (y # ys)"

subsection \<open>Floating-point flags\<close>

text \<open>
  A \<^verbatim>\<open>float64\<close> flag is a number, an infinity or NaN (\<^verbatim>\<open>flag.Float64Var\<close> parses
  \<^verbatim>\<open>NaN\<close> and \<^verbatim>\<open>Inf\<close>). The program only compares such values with constants and
  copies them into requests, so a finite value is modelled by the real number that it is
  exactly. Comparisons follow IEEE 754: every ordered comparison with NaN is false, and
  NaN differs from everything.

  A decimal literal of the source is the \<^verbatim>\<open>float64\<close> nearest to it. The literals
  \<^verbatim>\<open>0.25\<close>, \<^verbatim>\<open>0.5\<close>, \<^verbatim>\<open>0.75\<close>, \<^verbatim>\<open>1.0\<close> and \<^verbatim>\<open>4.0\<close> are such values themselves.
  \<^verbatim>\<open>0.7\<close> and \<^verbatim>\<open>1.2\<close> are not: as a \<^verbatim>\<open>float64\<close>, \<^verbatim>\<open>0.7\<close> is
  \<^verbatim>\<open>0x1.6666666666666p-1\<close> (0.69999999999999995559...) and \<^verbatim>\<open>1.2\<close> is
  \<^verbatim>\<open>0x1.3333333333333p+0\<close> (1.19999999999999995559...). These are also the values
  that \<^verbatim>\<open>--speed 0.7\<close> and \<^verbatim>\<open>--speed 1.2\<close> are parsed to.
\<close>

datatype float64 = NaN | NegInf | Fin real | PosInf

fun f64_lt :: "float64 \<Rightarrow> float64 \<Rightarrow> bool" where
  "f64_lt NaN _ = False"
| "f64_lt _ NaN = False"
| "f64_lt _ NegInf = False"
| "f64_lt NegInf _ = True"
| "f64_lt PosInf _ = False"
| "f64_lt (Fin a) PosInf = True"
| "f64_lt (Fin a) (Fin b) = (a < b)"

definition f64_gt :: "float64 \<Rightarrow> float64 \<Rightarrow> bool" where
  "f64_gt a b = f64_lt b a"

definition f64_ne :: "float64 \<Rightarrow> float64 \<Rightarrow> bool" where
  "f64_ne a b = (a = NaN \<or> b = NaN \<or> a \<noteq> b)"

definition float64_0_7 :: real where
  "float64_0_7 = 3152519739159347 / 2 ^ 52"

definition float64_1_2 :: real where
  "float64_1_2 = 5404319552844595 / 2 ^ 52"

subsection \<open>Constants and preset tables\<close>

definition defaultOpenAIVoice :: string where "defaultOpenAIVoice = ''alloy''"
definition defaultOpenAIModel :: string where "defaultOpenAIModel = ''tts-1-hd''"
definition openAIAPIURL :: string where "openAIAPIURL = ''https://api.openai.com/v1/audio/speech''"

definition defaultElevenLabsVoice :: string where "defaultElevenLabsVoice = ''rachel''"
definition defaultElevenLabsModel :: string where "defaultElevenLabsModel = ''eleven_multilingual_v2''"
definition elevenLabsAPIURL :: string where
  "elevenLabsAPIURL = ''https://api.elevenlabs.io/v1/text-to-speech''"

definition defaultDeepgramVoice :: string where "defaultDeepgramVoice = ''aura-asteria-en''"
definition deepgramAPIURL :: string where "deepgramAPIURL = ''https://api.deepgram.com/v1/speak''"

definition defaultSpeed :: float64 where "defaultSpeed = Fin 1.0"
definition defaultProvider :: string where "defaultProvider = ''openai''"

definition openAIVoices :: "string list" where
  "openAIVoices = [''alloy'', ''echo'', ''fable'', ''onyx'', ''nova'', ''shimmer'']"

text \<open>The two Go maps are association lists with distinct keys, read with \<open>map_of\<close>.\<close>

definition elevenLabsVoices :: "(string \<times> string) list" where
  "elevenLabsVoices =
    [(''rachel'', ''21m00Tcm4TlvDq8ikWAM''),
     (''domi'', ''AZnzlk1XvdvUeBnXmlld''),
     (''bella'', ''EXAVITQu4vr4xnSDxMaL''),
     (''antoni'', ''ErXwobaYiN019PkySvjV''),
     (''elli'', ''MF3mGyEYCl7XYWbV9V6O''),
     (''josh'', ''TxGEqnHWrfWFTfGW9XjX''),
     (''arnold'', ''VR6AewLTigWG4xSOukaG''),
     (''adam'', ''pNInz6obpgDQGcFmaJgB''),
     (''sam'', ''yoZ06aMxZJJ28mfd3POQ''),
     (''george'', ''JBFqnCBsd6RMkjVDRZzb''),
     (''charlie'', ''IKne3meq5aSn9XLyUdCD''),
     (''emily'', ''LcfcDJNUP1GQjkzn1xUU''),
     (''lily'', ''pFZP5JQG7iQjIQuC4Bku''),
     (''michael'', ''flq6f7yk4E4fJM5XTYuZ'')]"

definition deepgramVoices :: "(string \<times> string) list" where
  "deepgramVoices =
    [(''asteria'', ''aura-asteria-en''),
     (''luna'', ''aura-luna-en''),
     (''stella'', ''aura-stella-en''),
     (''athena'', ''aura-athena-en''),
     (''hera'', ''aura-hera-en''),
     (''orion'', ''aura-orion-en''),
     (''arcas'', ''aura-arcas-en''),
     (''perseus'', ''aura-perseus-en''),
     (''angus'', ''aura-angus-en''),
     (''orpheus'', ''aura-orpheus-en''),
     (''helios'', ''aura-helios-en''),
     (''zeus'', ''aura-zeus-en''),
     (''thalia'', ''aura-2-thalia-en''),
     (''andromeda'', ''aura-2-andromeda-en''),
     (''helena'', ''aura-2-helena-en''),
     (''jason'', ''aura-2-jason-en''),
     (''apollo'', ''aura-2-apollo-en''),
     (''ares'', ''aura-2-ares-en'')]"

subsection \<open>Requests\<close>

text \<open>
  The request bodies are the three structs of the source; \<^verbatim>\<open>json.Marshal\<close> turns a struct
  into a JSON object with one member per field, named by the field's tag, in the order of
  declaration. It fails on a float that is not finite, and only then. A field tagged
  \<^verbatim>\<open>omitempty\<close> is left out when it is zero (a nil pointer, the number 0). The body of
  a request is kept as this JSON value, not as its text.
\<close>

datatype json = JString string | JNumber real | JObject "(string \<times> json) list"

record OpenAITTSRequest =
  oa_Model :: string
  oa_Input :: string
  oa_Voice :: string
  oa_ResponseFormat :: string
  oa_Speed :: float64

record ElevenLabsVoiceSettings =
  vs_Stability :: float64
  vs_SimilarityBoost :: float64
  vs_Style :: float64
  vs_Speed :: float64

record ElevenLabsTTSRequest =
  el_Text :: string
  el_ModelID :: string
  el_VoiceSettings :: "ElevenLabsVoiceSettings option"

record DeepgramTTSRequest =
  dg_Text :: string

fun marshalFloat :: "string \<Rightarrow> float64 \<Rightarrow> (string \<times> json) list option" where
  "marshalFloat tag (Fin r) = Some [(tag, JNumber r)]"
| "marshalFloat tag _ = None"

definition marshalFloatOmitEmpty :: "string \<Rightarrow> float64 \<Rightarrow> (string \<times> json) list option" where
  "marshalFloatOmitEmpty tag x = (if x = Fin 0 then Some [] else marshalFloat tag x)"

definition marshalOpenAI :: "OpenAITTSRequest \<Rightarrow> json option" where
  "marshalOpenAI r =
     (case marshalFloat ''speed'' (oa_Speed r) of
        None \<Rightarrow> None
      | Some speed \<Rightarrow>
          Some (JObject ([(''model'', JString (oa_Model r)),
                          (''input'', JString (oa_Input r)),
                          (''voice'', JString (oa_Voice r)),
                          (''response_format'', JString (oa_ResponseFormat r))] @ speed)))"

definition marshalVoiceSettings :: "ElevenLabsVoiceSettings \<Rightarrow> json option" where
  "marshalVoiceSettings v =
     (case (marshalFloat ''stability'' (vs_Stability v),
            marshalFloat ''similarity_boost'' (vs_SimilarityBoost v),
            marshalFloatOmitEmpty ''style'' (vs_Style v),
            marshalFloatOmitEmpty ''speed'' (vs_Speed v)) of
        (Some a, Some b, Some c, Some d) \<Rightarrow> Some (JObject (a @ b @ c @ d))
      | _ \<Rightarrow> None)"

definition marshalElevenLabs :: "ElevenLabsTTSRequest \<Rightarrow> json option" where
  "marshalElevenLabs r =
     (case el_VoiceSettings r of
        None \<Rightarrow> Some (JObject [(''text'', JString (el_Text r)), (''model_id'', JString (el_ModelID r))])
      | Some v \<Rightarrow>
          (case marshalVoiceSettings v of
             None \<Rightarrow> None
           | Some settings \<Rightarrow>
               Some (JObject [(''text'', JString (el_Text r)),
                              (''model_id'', JString (el_ModelID r)),
                              (''voice_settings'', settings)])))"

definition marshalDeepgram :: "DeepgramTTSRequest \<Rightarrow> json option" where
  "marshalDeepgram r = Some (JObject [(''text'', JString (dg_Text r))])"

text \<open>
  What is handed to \<^verbatim>\<open>net/http\<close>: the arguments of \<^verbatim>\<open>http.NewRequest\<close> and the headers
  set on the request before \<^verbatim>\<open>client.Do\<close>.
\<close>

record request =
  req_method :: string
  req_url :: string
  req_headers :: "(string \<times> string) list"
  req_body :: json

subsection \<open>Errors, events and the world\<close>

text \<open>
  A Go error is either one that a library returned (its text) or one made by
  \<^verbatim>\<open>fmt.Errorf\<close>, kept as the format string with its arguments. Messages are kept the
  same way.
\<close>

datatype goerror = External string | Errorf string "arg list"
  and arg = S string | D int | E goerror

datatype event =
    Fprintf string "arg list"
  | Fprintln string
  | Usage
  | Call_synthesizeOpenAI string string string string float64
  | Call_synthesizeElevenLabs string string string string float64 float64 float64
  | Call_synthesizeDeepgram string string string
  | HttpPost request
  | PlayAudio bytes
  | WriteFile string bytes
  | Sleep nat

text \<open>
  \<open>Fprintf\<close> and \<open>Fprintln\<close> write to standard error, \<open>Usage\<close> is \<^verbatim>\<open>flag.Usage()\<close>
  (the help text, to standard error). The three \<open>Call\<close> events mark the entry into a
  synthesis function with its arguments. \<open>HttpPost\<close> is the request given to the HTTP
  library, \<open>PlayAudio\<close> the entry into \<^verbatim>\<open>playAudio\<close>, \<open>WriteFile\<close> is
  \<^verbatim>\<open>os.WriteFile\<close>, and \<open>Sleep\<close> is \<^verbatim>\<open>time.Sleep\<close> in milliseconds.
\<close>

datatype http_result =
    NewRequestFailed string
  | DoFailed string
  | Response int bytes "string option"

text \<open>
  The answer of the HTTP library to a request: \<^verbatim>\<open>http.NewRequest\<close> fails, or
  \<^verbatim>\<open>client.Do\<close> fails (which includes the 60 second timeout), or there is a response with
  a status code, the body read by \<^verbatim>\<open>io.ReadAll\<close> and the error of that read, if any.
\<close>

datatype play_result = DecodeFailed string | ContextFailed string | Played

datatype stdin_state = StatFailed | Terminal | Piped bytes "string option"

text \<open>
  Standard input: \<^verbatim>\<open>os.Stdin.Stat()\<close> fails (its error is dropped and the nil result is
  dereferenced), or standard input is a character device, or it is not, and
  \<^verbatim>\<open>io.ReadAll\<close> gives the bytes read and possibly an error.
\<close>

record world =
  getenv :: "string \<Rightarrow> string"
  stdin :: stdin_state
  http :: "nat \<Rightarrow> request \<Rightarrow> http_result"
  audio :: "nat \<Rightarrow> bytes \<Rightarrow> play_result"
  fileWrite :: "string \<Rightarrow> bytes \<Rightarrow> string option"
  strings_ToLower :: "string \<Rightarrow> string"
  strings_TrimSpace :: "string \<Rightarrow> string"

text \<open>
  \<open>http w k r\<close> is the answer to request \<open>r\<close> when \<open>k\<close> requests have been made before,
  \<open>audio w k a\<close> the outcome of playing \<open>a\<close> after \<open>k\<close> earlier playbacks, and
  \<open>fileWrite w path a\<close> the error of \<^verbatim>\<open>os.WriteFile\<close>, if any. The last two fields
  are the two functions of package \<^verbatim>\<open>strings\<close> that depend on the Unicode tables.
\<close>

fun isHttpPost :: "event \<Rightarrow> bool" where
  "isHttpPost (HttpPost r) = True"
| "isHttpPost _ = False"

fun isPlayAudio :: "event \<Rightarrow> bool" where
  "isPlayAudio (PlayAudio a) = True"
| "isPlayAudio _ = False"

fun isWriteFile :: "event \<Rightarrow> bool" where
  "isWriteFile (WriteFile p a) = True"
| "isWriteFile _ = False"

fun isCall :: "event \<Rightarrow> bool" where
  "isCall (Call_synthesizeOpenAI k m v t s) = True"
| "isCall (Call_synthesizeElevenLabs k m v t s st si) = True"
| "isCall (Call_synthesizeDeepgram k v t) = True"
| "isCall _ = False"

subsection \<open>Voice validation and resolution\<close>

text \<open>\<^verbatim>\<open>isValidOpenAIVoice\<close>: a linear search with \<^verbatim>\<open>==\<close>, so the match is exact.\<close>

definition isValidOpenAIVoice :: "string \<Rightarrow> bool" where
  "isValidOpenAIVoice voice = (voice \<in> set openAIVoices)"

text \<open>
  The two resolvers look the lower-cased name up in the table; the extra argument is the
  world, for \<^verbatim>\<open>strings.ToLower\<close>.
\<close>

definition resolveElevenLabsVoice :: "world \<Rightarrow> string \<Rightarrow> string" where
  "resolveElevenLabsVoice w voice =
     (case map_of elevenLabsVoices (strings_ToLower w voice) of
        Some ident \<Rightarrow> ident
      | None \<Rightarrow> voice)"

definition resolveDeepgramVoice :: "world \<Rightarrow> string \<Rightarrow> string" where
  "resolveDeepgramVoice w voice =
     (case map_of deepgramVoices (strings_ToLower w voice) of
        Some model \<Rightarrow> model
      | None \<Rightarrow> voice)"

subsection \<open>Synthesis and playback\<close>

text \<open>
  The part common to the three synthesis functions, from \<^verbatim>\<open>http.NewRequest\<close> to the
  final \<^verbatim>\<open>io.ReadAll\<close>: the request is made, and the answer is turned into the audio
  bytes or an error.
\<close>

definition roundTrip :: "world \<Rightarrow> event list \<Rightarrow> request \<Rightarrow> (goerror + bytes) \<times> event list" where
  "roundTrip w tr r =
     (case http w (length (filter isHttpPost tr)) r of
        NewRequestFailed e \<Rightarrow> Inl (Errorf ''failed to create request: %w'' [E (External e)])
      | DoFailed e \<Rightarrow> Inl (Errorf ''failed to make request: %w'' [E (External e)])
      | Response status body readErr \<Rightarrow>
          if status \<noteq> 200 then Inl (Errorf ''API error (%d): %s'' [D status, S body])
          else (case readErr of None \<Rightarrow> Inr body | Some e \<Rightarrow> Inl (External e)),
      tr @ [HttpPost r])"

definition synthesizeOpenAI ::
  "world \<Rightarrow> event list \<Rightarrow> string \<Rightarrow> string \<Rightarrow> string \<Rightarrow> string \<Rightarrow> float64
     \<Rightarrow> (goerror + bytes) \<times> event list" where
  "synthesizeOpenAI w tr apiKey model voice text speed =
     (let tr1 = tr @ [Call_synthesizeOpenAI apiKey model voice text speed];
          reqBody = \<lparr>oa_Model = model, oa_Input = text, oa_Voice = voice,
                     oa_ResponseFormat = ''mp3'', oa_Speed = speed\<rparr>
      in case marshalOpenAI reqBody of
           None \<Rightarrow> (Inl (Errorf ''failed to marshal request: %w''
                            [E (External ''json: unsupported value'')]), tr1)
         | Some jsonData \<Rightarrow>
             roundTrip w tr1
               \<lparr>req_method = ''POST'', req_url = openAIAPIURL,
                req_headers = [(''Content-Type'', ''application/json''),
                               (''Authorization'', ''Bearer '' @ apiKey)],
                req_body = jsonData\<rparr>)"

definition synthesizeElevenLabs ::
  "world \<Rightarrow> event list \<Rightarrow> string \<Rightarrow> string \<Rightarrow> string \<Rightarrow> string \<Rightarrow> float64 \<Rightarrow> float64 \<Rightarrow> float64
     \<Rightarrow> (goerror + bytes) \<times> event list" where
  "synthesizeElevenLabs w tr apiKey model voiceID text speed stability similarityBoost =
     (let tr1 = tr @ [Call_synthesizeElevenLabs apiKey model voiceID text speed stability
                        similarityBoost];
          reqBody = \<lparr>el_Text = text, el_ModelID = model,
                     el_VoiceSettings =
                       Some \<lparr>vs_Stability = stability, vs_SimilarityBoost = similarityBoost,
                             vs_Style = Fin 0, vs_Speed = speed\<rparr>\<rparr>
      in case marshalElevenLabs reqBody of
           None \<Rightarrow> (Inl (Errorf ''failed to marshal request: %w''
                            [E (External ''json: unsupported value'')]), tr1)
         | Some jsonData \<Rightarrow>
             roundTrip w tr1
               \<lparr>req_method = ''POST'',
                req_url = elevenLabsAPIURL @ ''/'' @ voiceID @ ''?output_format=mp3_44100_128'',
                req_headers = [(''Content-Type'', ''application/json''),
                               (''xi-api-key'', apiKey)],
                req_body = jsonData\<rparr>)"

definition synthesizeDeepgram ::
  "world \<Rightarrow> event list \<Rightarrow> string \<Rightarrow> string \<Rightarrow> string \<Rightarrow> (goerror + bytes) \<times> event list" where
  "synthesizeDeepgram w tr apiKey voiceModel text =
     (let tr1 = tr @ [Call_synthesizeDeepgram apiKey voiceModel text];
          reqBody = \<lparr>dg_Text = text\<rparr>
      in case marshalDeepgram reqBody of
           None \<Rightarrow> (Inl (Errorf ''failed to marshal request: %w''
                            [E (External ''json: unsupported value'')]), tr1)
         | Some jsonData \<Rightarrow>
             roundTrip w tr1
               \<lparr>req_method = ''POST'',
                req_url = deepgramAPIURL @ ''?model='' @ voiceModel @ ''&encoding=mp3'',
                req_headers = [(''Content-Type'', ''application/json''),
                               (''Authorization'', ''Token '' @ apiKey)],
                req_body = jsonData\<rparr>)"

text \<open>
  \<^verbatim>\<open>playAudio\<close> decodes the MP3 data, opens the audio device and waits until the player
  has finished; decoder and device are libraries, and their outcome is the world's.
\<close>

definition playAudio :: "world \<Rightarrow> event list \<Rightarrow> bytes \<Rightarrow> goerror option \<times> event list" where
  "playAudio w tr audioData =
     (case audio w (length (filter isPlayAudio tr)) audioData of
        DecodeFailed e \<Rightarrow> Some (Errorf ''failed to decode MP3: %w'' [E (External e)])
      | ContextFailed e \<Rightarrow> Some (Errorf ''failed to create audio context: %w'' [E (External e)])
      | Played \<Rightarrow> None,
      tr @ [PlayAudio audioData])"

subsection \<open>The main function\<close>

text \<open>
  The model starts after \<^verbatim>\<open>flag.Parse()\<close>: the flags have their parsed values (or their
  defaults) and \<open>args\<close> is \<^verbatim>\<open>flag.Args()\<close>. A run ends with \<^verbatim>\<open>os.Exit(n)\<close>
  (\<open>Exit n\<close>), by returning from \<^verbatim>\<open>main\<close> (\<open>Exit 0\<close>) or in a panic of the runtime
  (\<open>Panic\<close>; the process then ends with a non-zero status). The result of a run is its
  status and its trace.
\<close>

record flags =
  fl_provider :: string
  fl_voice :: string
  fl_model :: string
  fl_output :: string
  fl_speed :: float64
  fl_speak :: bool
  fl_token :: string
  fl_help :: bool
  fl_all :: bool
  fl_stability :: float64
  fl_similarityBoost :: float64

datatype status = Exit int | Panic

text \<open>Set defaults based on provider.\<close>

definition defaultVoice :: "string \<Rightarrow> string \<Rightarrow> string" where
  "defaultVoice provider voice =
     (if voice = '''' then
        (if provider = ''openai'' then defaultOpenAIVoice
         else if provider = ''elevenlabs'' then defaultElevenLabsVoice
         else if provider = ''deepgram'' then defaultDeepgramVoice
         else voice)
      else voice)"

definition defaultModel :: "string \<Rightarrow> string \<Rightarrow> string" where
  "defaultModel provider model =
     (if model = '''' then
        (if provider = ''openai'' then defaultOpenAIModel
         else if provider = ''elevenlabs'' then defaultElevenLabsModel
         else if provider = ''deepgram'' then ''''
         else model)
      else model)"

text \<open>Get API key.\<close>

definition getAPIKey :: "world \<Rightarrow> string \<Rightarrow> string \<Rightarrow> string" where
  "getAPIKey w provider token =
     (if token = '''' then
        (if provider = ''openai'' then getenv w ''OPENAI_API_KEY''
         else if provider = ''elevenlabs'' then getenv w ''ELEVENLABS_API_KEY''
         else if provider = ''deepgram'' then getenv w ''DEEPGRAM_API_KEY''
         else token)
      else token)"

definition envVars :: "string \<Rightarrow> string" where
  "envVars provider =
     (case map_of [(''openai'', ''OPENAI_API_KEY''),
                   (''elevenlabs'', ''ELEVENLABS_API_KEY''),
                   (''deepgram'', ''DEEPGRAM_API_KEY'')] provider of
        Some name \<Rightarrow> name
      | None \<Rightarrow> '''')"

text \<open>
  Validate speed based on provider: \<open>Inl\<close> is the message before \<^verbatim>\<open>os.Exit(1)\<close>,
  \<open>Inr\<close> the messages printed when the run goes on. The constants are the
  \<^verbatim>\<open>float64\<close> values of the literals.
\<close>

definition validateSpeed :: "string \<Rightarrow> float64 \<Rightarrow> event + event list" where
  "validateSpeed provider speed =
     (if provider = ''openai'' then
        (if f64_lt speed (Fin 0.25) \<or> f64_gt speed (Fin 4.0)
         then Inl (Fprintln ''Error: Speed must be between 0.25 and 4.0 for OpenAI'')
         else Inr [])
      else if provider = ''elevenlabs'' then
        (if f64_lt speed (Fin float64_0_7) \<or> f64_gt speed (Fin float64_1_2)
         then Inl (Fprintln ''Error: Speed must be between 0.7 and 1.2 for ElevenLabs'')
         else Inr [])
      else if provider = ''deepgram'' then
        (if f64_ne speed defaultSpeed
         then Inr [Fprintln ''Warning: Speed adjustment is not supported for Deepgram, ignoring'']
         else Inr [])
      else Inr [])"

text \<open>Get text input: \<open>Inl\<close> is a run that ends here.\<close>

definition getText :: "world \<Rightarrow> string list \<Rightarrow> (status \<times> event list) + string" where
  "getText w args =
     (if args \<noteq> [] then Inr (join '' '' args)
      else case stdin w of
             StatFailed \<Rightarrow> Inl (Panic, [])
           | Terminal \<Rightarrow> Inr ''''
           | Piped data (Some e) \<Rightarrow>
               Inl (Exit 1, [Fprintf ''Error reading stdin: %v\<newline>'' [E (External e)]])
           | Piped data None \<Rightarrow> Inr (strings_TrimSpace w data))"

text \<open>
  The body of the loop over \<^verbatim>\<open>openAIVoices\<close> for one voice \<open>v\<close>; every \<^verbatim>\<open>continue\<close>
  is a branch that returns the trace so far.
\<close>

definition speakVoice ::
  "world \<Rightarrow> string \<Rightarrow> string \<Rightarrow> string \<Rightarrow> float64 \<Rightarrow> string \<Rightarrow> event list \<Rightarrow> event list" where
  "speakVoice w apiKey model text speed v tr =
     (case synthesizeOpenAI w (tr @ [Fprintf ''Speaking with voice: %s\<newline>'' [S v]])
             apiKey model v v speed of
        (Inl err, tr1) \<Rightarrow>
          tr1 @ [Fprintf ''Error synthesizing voice announcement: %v\<newline>'' [E err]]
      | (Inr audioData, tr1) \<Rightarrow>
          (case playAudio w tr1 audioData of
             (Some err, tr2) \<Rightarrow> tr2 @ [Fprintf ''Error playing audio: %v\<newline>'' [E err]]
           | (None, tr2) \<Rightarrow>
               (case synthesizeOpenAI w (tr2 @ [Sleep 500]) apiKey model v text speed of
                  (Inl err, tr3) \<Rightarrow> tr3 @ [Fprintf ''Error synthesizing: %v\<newline>'' [E err]]
                | (Inr audioData2, tr3) \<Rightarrow>
                    (case playAudio w tr3 audioData2 of
                       (Some err, tr4) \<Rightarrow>
                         tr4 @ [Fprintf ''Error playing audio: %v\<newline>'' [E err], Sleep 1000]
                     | (None, tr4) \<Rightarrow> tr4 @ [Sleep 1000]))))"

fun speakAll ::
  "world \<Rightarrow> string \<Rightarrow> string \<Rightarrow> string \<Rightarrow> float64 \<Rightarrow> string list \<Rightarrow> event list \<Rightarrow> event list" where
  "speakAll w apiKey model text speed [] tr = tr"
| "speakAll w apiKey model text speed (v # vs) tr =
     speakAll w apiKey model text speed vs (speakVoice w apiKey model text speed v tr)"

text \<open>
  Synthesize speech: the switch on the provider. \<open>Inl\<close> is the trace of a run that exits
  with status 1 at the voice check, \<open>Inr\<close> the result of the synthesis function.
\<close>

definition dispatch ::
  "world \<Rightarrow> event list \<Rightarrow> string \<Rightarrow> string \<Rightarrow> string \<Rightarrow> string \<Rightarrow> string \<Rightarrow> float64 \<Rightarrow> float64
     \<Rightarrow> float64 \<Rightarrow> event list + ((goerror + bytes) \<times> event list)" where
  "dispatch w tr provider apiKey model voice text speed stability similarityBoost =
     (if provider = ''openai'' then
        (if \<not> isValidOpenAIVoice voice
         then Inl (tr @ [Fprintf ''Error: Invalid OpenAI voice '%s'. Valid voices: %s\<newline>''
                           [S voice, S (join '', '' openAIVoices)]])
         else Inr (synthesizeOpenAI w tr apiKey model voice text speed))
      else if provider = ''elevenlabs'' then
        Inr (synthesizeElevenLabs w tr apiKey model (resolveElevenLabsVoice w voice) text speed
               stability similarityBoost)
      else if provider = ''deepgram'' then
        Inr (synthesizeDeepgram w tr apiKey (resolveDeepgramVoice w voice) text)
      else Inr (Inr [], tr))"

text \<open>Save to file if requested: \<open>Inl\<close> is the trace of a run that exits with status 1.\<close>

definition saveOutput :: "world \<Rightarrow> event list \<Rightarrow> string \<Rightarrow> bytes \<Rightarrow> event list + event list" where
  "saveOutput w tr output audioData =
     (if output \<noteq> '''' then
        (case fileWrite w output audioData of
           Some e \<Rightarrow> Inl (tr @ [WriteFile output audioData,
                               Fprintf ''Error saving file: %v\<newline>'' [E (External e)]])
         | None \<Rightarrow> Inr (tr @ [WriteFile output audioData,
                              Fprintf ''Saved to %s\<newline>'' [S output]]))
      else Inr tr)"

text \<open>Play audio if no output file or if the speak flag is set.\<close>

definition playOutput :: "world \<Rightarrow> event list \<Rightarrow> string \<Rightarrow> bool \<Rightarrow> bytes \<Rightarrow> status \<times> event list" where
  "playOutput w tr output speak audioData =
     (if output = '''' \<or> speak then
        (case playAudio w tr audioData of
           (Some err, tr1) \<Rightarrow> (Exit 1, tr1 @ [Fprintf ''Error playing audio: %v\<newline>'' [E err]])
         | (None, tr1) \<Rightarrow> (Exit 0, tr1))
      else (Exit 0, tr))"

definition speakOnce ::
  "world \<Rightarrow> event list \<Rightarrow> string \<Rightarrow> string \<Rightarrow> string \<Rightarrow> string \<Rightarrow> string \<Rightarrow> float64 \<Rightarrow> float64
     \<Rightarrow> float64 \<Rightarrow> string \<Rightarrow> bool \<Rightarrow> status \<times> event list" where
  "speakOnce w tr provider apiKey model voice text speed stability similarityBoost output speak =
     (case dispatch w tr provider apiKey model voice text speed stability similarityBoost of
        Inl tr1 \<Rightarrow> (Exit 1, tr1)
      | Inr (Inl err, tr1) \<Rightarrow>
          (Exit 1, tr1 @ [Fprintf ''Error synthesizing speech: %v\<newline>'' [E err]])
      | Inr (Inr audioData, tr1) \<Rightarrow>
          (case saveOutput w tr1 output audioData of
             Inl tr2 \<Rightarrow> (Exit 1, tr2)
           | Inr tr2 \<Rightarrow> playOutput w tr2 output speak audioData))"

text \<open>Everything after the text has been read: the demo of all voices, or one utterance.\<close>

definition run ::
  "world \<Rightarrow> flags \<Rightarrow> event list \<Rightarrow> string \<Rightarrow> string \<Rightarrow> string \<Rightarrow> string \<Rightarrow> string
     \<Rightarrow> status \<times> event list" where
  "run w fl tr provider apiKey model voice text =
     (if fl_all fl then
        (if provider \<noteq> ''openai''
         then (Exit 1, tr @ [Fprintln ''Error: --all flag is only supported for OpenAI provider''])
         else (Exit 0, speakAll w apiKey model text (fl_speed fl) openAIVoices tr))
      else speakOnce w tr provider apiKey model voice text (fl_speed fl) (fl_stability fl)
             (fl_similarityBoost fl) (fl_output fl) (fl_speak fl))"

definition main :: "world \<Rightarrow> flags \<Rightarrow> string list \<Rightarrow> status \<times> event list" where
  "main w fl args =
     (if fl_help fl then (Exit 0, [Usage])
      else
        let provider = strings_ToLower w (fl_provider fl) in
        if provider \<noteq> ''openai'' \<and> provider \<noteq> ''elevenlabs'' \<and> provider \<noteq> ''deepgram''
        then (Exit 1,
              [Fprintf ''Error: Invalid provider '%s'. Use 'openai', 'elevenlabs', or 'deepgram'\<newline>''
                 [S provider]])
        else
          let voice = defaultVoice provider (fl_voice fl);
              model = defaultModel provider (fl_model fl);
              apiKey = getAPIKey w provider (fl_token fl)
          in
          if apiKey = ''''
          then (Exit 1,
                [Fprintf ''Error: %s environment variable not set and --token not provided\<newline>''
                   [S (envVars provider)]])
          else
            case validateSpeed provider (fl_speed fl) of
              Inl msg \<Rightarrow> (Exit 1, [msg])
            | Inr tr \<Rightarrow>
                (case getText w args of
                   Inl (st, msgs) \<Rightarrow> (st, tr @ msgs)
                 | Inr text \<Rightarrow>
                     if text = ''''
                     then (Exit 1, tr @ [Fprintln ''Error: No text provided'', Usage])
                     else run w fl tr provider apiKey model voice text))"

subsection \<open>Notions used to state the properties\<close>

text \<open>
  In the demo of all voices, the announcement of a voice \<open>v\<close> has succeeded when its
  synthesis returned audio data and the playback of that data returned no error; these are
  the two tests of the loop body before its first \<^verbatim>\<open>time.Sleep\<close>.
\<close>

definition announced :: "world \<Rightarrow> string \<Rightarrow> string \<Rightarrow> float64 \<Rightarrow> string \<Rightarrow> event list \<Rightarrow> bool" where
  "announced w apiKey model speed v tr =
     (case synthesizeOpenAI w (tr @ [Fprintf ''Speaking with voice: %s\<newline>'' [S v]])
             apiKey model v v speed of
        (Inl err, tr1) \<Rightarrow> False
      | (Inr audioData, tr1) \<Rightarrow> fst (playAudio w tr1 audioData) = None)"

text \<open>
  The synthesis calls for one voice: the announcement (the text is the voice's name), then
  the utterance if \<open>b\<close> holds.
\<close>

definition voiceCalls :: "string \<Rightarrow> string \<Rightarrow> string \<Rightarrow> float64 \<Rightarrow> string \<Rightarrow> bool \<Rightarrow> event list" where
  "voiceCalls apiKey model text speed v b =
     Call_synthesizeOpenAI apiKey model v v speed
       # (if b then [Call_synthesizeOpenAI apiKey model v text speed] else [])"

subsection \<open>Example runs\<close>

text \<open>
  The example runs below are on strings of ASCII characters. On these,
  \<^verbatim>\<open>strings.ToLower\<close> maps the letters \<open>A\<close> to \<open>Z\<close> to \<open>a\<close> to \<open>z\<close> and leaves
  every other character, and \<^verbatim>\<open>strings.TrimSpace\<close> removes leading and trailing tab,
  line feed, vertical tab, form feed, carriage return and space. The example worlds have
  these two functions; on other strings they are not the functions of the library, and
  no example uses them there.
\<close>

definition asciiLowerChar :: "char \<Rightarrow> char" where
  "asciiLowerChar c =
     (case map_of (zip ''ABCDEFGHIJKLMNOPQRSTUVWXYZ'' ''abcdefghijklmnopqrstuvwxyz'') c of
        Some l \<Rightarrow> l
      | None \<Rightarrow> c)"

definition asciiToLower :: "string \<Rightarrow> string" where
  "asciiToLower s = map asciiLowerChar s"

definition asciiIsSpace :: "char \<Rightarrow> bool" where
  "asciiIsSpace c = (c \<in> set [CHR 0x09, CHR 0x0A, CHR 0x0B, CHR 0x0C, CHR 0x0D, CHR '' ''])"

definition asciiTrimSpace :: "string \<Rightarrow> string" where
  "asciiTrimSpace s = rev (dropWhile asciiIsSpace (rev (dropWhile asciiIsSpace s)))"

text \<open>
  The flags as \<^verbatim>\<open>flag.Parse()\<close> leaves them when the command line sets none, a world in
  which every request is answered with audio data and everything else works, and a world
  in which only the first request fails.
\<close>

definition defaultFlags :: flags where
  "defaultFlags =
     \<lparr>fl_provider = defaultProvider, fl_voice = '''', fl_model = '''', fl_output = '''',
      fl_speed = defaultSpeed, fl_speak = False, fl_token = '''', fl_help = False,
      fl_all = False, fl_stability = Fin 0.5, fl_similarityBoost = Fin 0.75\<rparr>"

definition demoFlags :: flags where
  "demoFlags = defaultFlags\<lparr>fl_token := ''sk-test'', fl_all := True\<rparr>"

definition okWorld :: world where
  "okWorld =
     \<lparr>getenv = (\<lambda>name. ''''), stdin = Terminal,
      http = (\<lambda>k r. Response 200 ''mp3-data'' None),
      audio = (\<lambda>k a. Played), fileWrite = (\<lambda>p a. None),
      strings_ToLower = asciiToLower, strings_TrimSpace = asciiTrimSpace\<rparr>"

definition flakyWorld :: world where
  "flakyWorld =
     okWorld\<lparr>http := (\<lambda>k r. if k = 0 then DoFailed ''connection reset''
                               else Response 200 ''mp3-data'' None)\<rparr>"

text \<open>A preset name of OpenAI in capitals.\<close>

definition shoutFlags :: flags where
  "shoutFlags = defaultFlags\<lparr>fl_token := ''sk-test'', fl_voice := ''ALLOY''\<rparr>"

text \<open>
  Deepgram with a preset name in mixed case and a speed of 2, a run with a token and no
  other flag, and a world whose environment holds a credential under every name.
\<close>

definition deepgramFlags :: flags where
  "deepgramFlags =
     defaultFlags\<lparr>fl_provider := ''deepgram'', fl_token := ''dg-test'', fl_voice := ''Luna'',
                  fl_speed := Fin 2\<rparr>"

definition tokenFlags :: flags where
  "tokenFlags = defaultFlags\<lparr>fl_token := ''sk-test''\<rparr>"

definition envWorld :: world where
  "envWorld = okWorld\<lparr>getenv := (\<lambda>name. ''key-from-environment'')\<rparr>"

text \<open>
  Deepgram with \<^verbatim>\<open>--all\<close>, and OpenAI with an output file, without and with
  \<^verbatim>\<open>--speak\<close>.
\<close>

definition deepgramAllFlags :: flags where
  "deepgramAllFlags = deepgramFlags\<lparr>fl_all := True\<rparr>"

definition saveFlags :: flags where
  "saveFlags = tokenFlags\<lparr>fl_output := ''out.mp3''\<rparr>"


text \<open>
  The events that the loop over the voices can add to the trace, the messages that report
  an error (their text starts with \<open>Error\<close>), and the events that write to standard
  error.
\<close>

fun loopEvent :: "event \<Rightarrow> bool" where
  "loopEvent (Fprintf f xs) =
     (f \<in> set [''Speaking with voice: %s\<newline>'',
                ''Error synthesizing voice announcement: %v\<newline>'',
                ''Error playing audio: %v\<newline>'',
                ''Error synthesizing: %v\<newline>''])"
| "loopEvent (Call_synthesizeOpenAI k m v t s) = True"
| "loopEvent (HttpPost r) = True"
| "loopEvent (PlayAudio a) = True"
| "loopEvent (Sleep n) = True"
| "loopEvent _ = False"

fun isErrorMsg :: "event \<Rightarrow> bool" where
  "isErrorMsg (Fprintf f xs) = (take 5 f = ''Error'')"
| "isErrorMsg (Fprintln s) = (take 5 s = ''Error'')"
| "isErrorMsg _ = False"

fun isStderr :: "event \<Rightarrow> bool" where
  "isStderr (Fprintf f xs) = True"
| "isStderr (Fprintln s) = True"
| "isStderr Usage = True"
| "isStderr _ = False"

text \<open>The demo of all voices with a voice that OpenAI does not have.\<close>

definition demoVoiceFlags :: flags where
  "demoVoiceFlags = demoFlags\<lparr>fl_voice := ''no-such-voice''\<rparr>"

text \<open>The events of a synthesis function: its entry and the request.\<close>

definition isNet :: "event \<Rightarrow> bool" where
  "isNet e = (isCall e \<or> isHttpPost e)"

text \<open>
  A world without network, and a world whose standard input cannot be examined.
\<close>

definition offlineWorld :: world where
  "offlineWorld = okWorld\<lparr>http := (\<lambda>k r. DoFailed ''no route to host'')\<rparr>"

definition closedStdinWorld :: world where
  "closedStdinWorld = okWorld\<lparr>stdin := StatFailed\<rparr>"

text \<open>
  One utterance with a voice that is in no preset table, for each of the three providers.
\<close>

definition customVoiceFlags :: "string \<Rightarrow> flags" where
  "customVoiceFlags provider =
     tokenFlags\<lparr>fl_provider := provider, fl_voice := ''nonexistent-preset''\<rparr>"

text \<open>
  A provider that the program does not know, a world whose piped standard input breaks
  while it is read, one whose disk is full, and one whose audio device cannot be opened.
\<close>

definition azureFlags :: flags where
  "azureFlags = tokenFlags\<lparr>fl_provider := ''Azure''\<rparr>"

definition brokenPipeWorld :: world where
  "brokenPipeWorld = okWorld\<lparr>stdin := Piped ''Hel'' (Some ''read error'')\<rparr>"

definition diskFullWorld :: world where
  "diskFullWorld = okWorld\<lparr>fileWrite := (\<lambda>p a. Some ''no space left on device'')\<rparr>"

definition noDeviceWorld :: world where
  "noDeviceWorld = okWorld\<lparr>audio := (\<lambda>k a. ContextFailed ''no audio device'')\<rparr>"

text \<open>
  A world that also knows one name outside ASCII: \<open>DOM\<close> followed by U+0130, the capital
  I with a dot, which is the bytes \<open>C4 B0\<close> in UTF-8. \<^verbatim>\<open>strings.ToLower\<close> maps
  U+0130 to the letter \<open>i\<close>.
\<close>

definition dottedWorld :: world where
  "dottedWorld =
     okWorld\<lparr>strings_ToLower :=
       (\<lambda>s. if s = ''DOM'' @ [CHR 0xC4, CHR 0xB0] then ''domi'' else asciiToLower s)\<rparr>"

section \<open>Properties\<close>

subsection \<open>What each function adds to the trace\<close>

lemma example_strings:
  "strings_ToLower okWorld = asciiToLower" "strings_TrimSpace okWorld = asciiTrimSpace"
  "strings_ToLower flakyWorld = asciiToLower" "strings_ToLower envWorld = asciiToLower"
  "strings_ToLower offlineWorld = asciiToLower" "strings_ToLower closedStdinWorld = asciiToLower"
  "strings_ToLower brokenPipeWorld = asciiToLower" "strings_ToLower diskFullWorld = asciiToLower"
  "strings_ToLower noDeviceWorld = asciiToLower"
  by (simp_all add: okWorld_def flakyWorld_def envWorld_def offlineWorld_def
        closedStdinWorld_def brokenPipeWorld_def diskFullWorld_def noDeviceWorld_def)

lemma float64_literals:
  "float64_0_7 < 1" "1 < float64_1_2" "0 < float64_0_7" "float64_0_7 < float64_1_2"
  "float64_0_7 \<le> 7 / 10" "7 / 10 < float64_0_7 + 1 / 2 ^ 53"
  "float64_1_2 \<le> 12 / 10" "12 / 10 < float64_1_2 + 1 / 2 ^ 52"
  by (simp_all add: float64_0_7_def float64_1_2_def)

lemma asciiToLower_providers:
  "asciiToLower ''openai'' = ''openai''" "asciiToLower ''elevenlabs'' = ''elevenlabs''"
  "asciiToLower ''deepgram'' = ''deepgram''"
  by (simp_all add: asciiToLower_def asciiLowerChar_def)

lemma roundTrip_trace: "snd (roundTrip w tr r) = tr @ [HttpPost r]"
  by (simp add: roundTrip_def)

lemma playAudio_trace: "snd (playAudio w tr a) = tr @ [PlayAudio a]"
  by (simp add: playAudio_def)

lemma playAudio_traceD: "playAudio w tr a = (p, tr') \<Longrightarrow> tr' = tr @ [PlayAudio a]"
  by (auto simp add: playAudio_def)

lemma synthesizeOpenAI_trace:
  "snd (synthesizeOpenAI w tr k m v t s) = tr @ [Call_synthesizeOpenAI k m v t s]
   \<or> (\<exists>r. snd (synthesizeOpenAI w tr k m v t s) = tr @ [Call_synthesizeOpenAI k m v t s, HttpPost r])"
  by (simp add: synthesizeOpenAI_def roundTrip_def Let_def split: option.splits)

lemma synthesizeElevenLabs_trace:
  "snd (synthesizeElevenLabs w tr k m v t s st si) = tr @ [Call_synthesizeElevenLabs k m v t s st si]
   \<or> (\<exists>r. snd (synthesizeElevenLabs w tr k m v t s st si)
         = tr @ [Call_synthesizeElevenLabs k m v t s st si, HttpPost r])"
  by (simp add: synthesizeElevenLabs_def roundTrip_def Let_def split: option.splits)

lemma synthesizeDeepgram_trace:
  "snd (synthesizeDeepgram w tr k v t) =
     tr @ [Call_synthesizeDeepgram k v t,
           HttpPost \<lparr>req_method = ''POST'',
                     req_url = deepgramAPIURL @ ''?model='' @ v @ ''&encoding=mp3'',
                     req_headers = [(''Content-Type'', ''application/json''),
                                    (''Authorization'', ''Token '' @ k)],
                     req_body = JObject [(''text'', JString t)]\<rparr>]"
  by (simp add: synthesizeDeepgram_def roundTrip_def marshalDeepgram_def Let_def)

lemma synthesizeOpenAI_calls:
  "filter isCall (snd (synthesizeOpenAI w tr k m v t s))
     = filter isCall tr @ [Call_synthesizeOpenAI k m v t s]"
  using synthesizeOpenAI_trace [of w tr k m v t s] by auto

lemma synthesizeOpenAI_callsD:
  "synthesizeOpenAI w tr k m v t s = (r, tr')
     \<Longrightarrow> filter isCall tr' = filter isCall tr @ [Call_synthesizeOpenAI k m v t s]"
  using synthesizeOpenAI_calls [of w tr k m v t s] by simp

subsection \<open>The run after the checks of the configuration\<close>

lemma main_run:
  assumes "\<not> fl_help fl" and "strings_ToLower w (fl_provider fl) = p"
    and "p = ''openai'' \<or> p = ''elevenlabs'' \<or> p = ''deepgram''"
    and "getAPIKey w p (fl_token fl) = k" and "k \<noteq> ''''"
    and "validateSpeed p (fl_speed fl) = Inr msgs"
    and "getText w args = Inr text" and "text \<noteq> ''''"
  shows "main w fl args
           = run w fl msgs p k (defaultModel p (fl_model fl)) (defaultVoice p (fl_voice fl)) text"
  using assms by (auto simp add: main_def Let_def)

lemma openai_speed_finite:
  assumes "validateSpeed ''openai'' s = Inr msgs" and "s \<noteq> NaN"
  shows "\<exists>x. s = Fin x"
  using assms by (cases s) (auto simp add: validateSpeed_def f64_gt_def split: if_splits)

subsection \<open>The demo of all voices\<close>

lemma speakVoice_calls:
  "filter isCall (speakVoice w k m text s v tr)
     = filter isCall tr @ voiceCalls k m text s v (announced w k m s v tr)"
  by (auto simp add: speakVoice_def announced_def voiceCalls_def
        split: prod.splits sum.splits option.splits
        dest!: synthesizeOpenAI_callsD playAudio_traceD)

lemma speakAll_calls:
  "\<exists>bs. length bs = length vs \<and>
     filter isCall (speakAll w k m text s vs tr)
       = filter isCall tr @ concat (map2 (voiceCalls k m text s) vs bs)"
proof (induction vs arbitrary: tr)
  case Nil
  then show ?case by simp
next
  case (Cons v vs)
  obtain bs where bs: "length bs = length vs"
    "filter isCall (speakAll w k m text s vs (speakVoice w k m text s v tr))
       = filter isCall (speakVoice w k m text s v tr) @ concat (map2 (voiceCalls k m text s) vs bs)"
    using Cons.IH by blast
  have "length (announced w k m s v tr # bs) = length (v # vs) \<and>
     filter isCall (speakAll w k m text s (v # vs) tr)
       = filter isCall tr
           @ concat (map2 (voiceCalls k m text s) (v # vs) (announced w k m s v tr # bs))"
    using bs by (simp add: speakVoice_calls)
  then show ?case by blast
qed

lemma synthesizeOpenAI_ok:
  assumes "\<forall>n r. \<exists>a. http w n r = Response 200 a None"
  shows "\<exists>a tr'. synthesizeOpenAI w tr k m v t (Fin x) = (Inr a, tr')"
proof -
  let ?r = "\<lparr>req_method = ''POST'', req_url = openAIAPIURL,
             req_headers = [(''Content-Type'', ''application/json''),
                            (''Authorization'', ''Bearer '' @ k)],
             req_body = JObject [(''model'', JString m), (''input'', JString t),
                                 (''voice'', JString v), (''response_format'', JString ''mp3''),
                                 (''speed'', JNumber x)]\<rparr>"
  obtain a where
    "http w (length (filter isHttpPost (tr @ [Call_synthesizeOpenAI k m v t (Fin x)]))) ?r
       = Response 200 a None"
    using assms by blast
  then show ?thesis
    by (simp add: synthesizeOpenAI_def marshalOpenAI_def roundTrip_def Let_def)
qed

lemma announced_ok:
  assumes "\<forall>n r. \<exists>a. http w n r = Response 200 a None" and "\<forall>n a. audio w n a = Played"
  shows "announced w k m (Fin x) v tr"
proof -
  obtain a tr' where
    "synthesizeOpenAI w (tr @ [Fprintf ''Speaking with voice: %s\<newline>'' [S v]]) k m v v (Fin x)
       = (Inr a, tr')"
    using synthesizeOpenAI_ok [OF assms(1)] by blast
  then show ?thesis using assms(2)
    by (simp add: announced_def playAudio_def)
qed

lemma speakAll_calls_ok:
  assumes "\<forall>n r. \<exists>a. http w n r = Response 200 a None" and "\<forall>n a. audio w n a = Played"
  shows "filter isCall (speakAll w k m text (Fin x) vs tr)
           = filter isCall tr @ concat (map (\<lambda>v. voiceCalls k m text (Fin x) v True) vs)"
  by (induction vs arbitrary: tr) (simp_all add: speakVoice_calls announced_ok [OF assms])

subsection \<open>The preset tables\<close>

lemma elevenLabsVoices_distinct: "distinct (map fst elevenLabsVoices)"
  by (simp add: elevenLabsVoices_def)

lemma deepgramVoices_distinct: "distinct (map fst deepgramVoices)"
  by (simp add: deepgramVoices_def)

subsection \<open>Credentials, text input and the Deepgram request\<close>

lemma getAPIKey_env:
  "p = ''openai'' \<or> p = ''elevenlabs'' \<or> p = ''deepgram''
     \<Longrightarrow> getAPIKey w p '''' = getenv w (envVars p)"
  by (auto simp add: getAPIKey_def envVars_def)

lemma getText_InlD:
  "getText w args = Inl (st, msgs) \<Longrightarrow>
     (st = Panic \<and> msgs = [])
     \<or> (\<exists>e. st = Exit 1 \<and> msgs = [Fprintf ''Error reading stdin: %v\<newline>'' [E (External e)]])"
  by (auto simp add: getText_def split: if_splits stdin_state.splits option.splits)

lemma synthesizeDeepgram_traceD:
  "synthesizeDeepgram w tr k v t = (r, tr') \<Longrightarrow>
     tr' = tr @ [Call_synthesizeDeepgram k v t,
                 HttpPost \<lparr>req_method = ''POST'',
                     req_url = deepgramAPIURL @ ''?model='' @ v @ ''&encoding=mp3'',
                     req_headers = [(''Content-Type'', ''application/json''),
                                    (''Authorization'', ''Token '' @ k)],
                     req_body = JObject [(''text'', JString t)]\<rparr>]"
  using synthesizeDeepgram_trace [of w tr k v t] by simp

lemma speakOnce_deepgram_posts:
  assumes "HttpPost r \<in> set (snd (speakOnce w tr ''deepgram'' k m v t s st si out sp))"
    and "filter isHttpPost tr = []"
  shows "r = \<lparr>req_method = ''POST'',
              req_url = deepgramAPIURL @ ''?model='' @ resolveDeepgramVoice w v @ ''&encoding=mp3'',
              req_headers = [(''Content-Type'', ''application/json''),
                             (''Authorization'', ''Token '' @ k)],
              req_body = JObject [(''text'', JString t)]\<rparr>"
proof -
  have "HttpPost r \<notin> set tr"
    using assms(2) by (metis filter_empty_conv isHttpPost.simps(1))
  then show ?thesis
    using assms(1)
    by (auto simp add: speakOnce_def dispatch_def saveOutput_def playOutput_def
          split: sum.splits prod.splits option.splits if_splits
          dest!: synthesizeDeepgram_traceD playAudio_traceD)
qed

subsection \<open>The environment is read for the credential only\<close>

lemma roundTrip_getenv: "roundTrip (w\<lparr>getenv := g\<rparr>) tr r = roundTrip w tr r"
  by (simp add: roundTrip_def)

lemma playAudio_getenv: "playAudio (w\<lparr>getenv := g\<rparr>) tr a = playAudio w tr a"
  by (simp add: playAudio_def)

lemma synthesizeOpenAI_getenv:
  "synthesizeOpenAI (w\<lparr>getenv := g\<rparr>) tr k m v t s = synthesizeOpenAI w tr k m v t s"
  by (simp add: synthesizeOpenAI_def roundTrip_getenv Let_def split: option.splits)

lemma synthesizeElevenLabs_getenv:
  "synthesizeElevenLabs (w\<lparr>getenv := g\<rparr>) tr k m v t s st si
     = synthesizeElevenLabs w tr k m v t s st si"
  by (simp add: synthesizeElevenLabs_def roundTrip_getenv Let_def split: option.splits)

lemma synthesizeDeepgram_getenv:
  "synthesizeDeepgram (w\<lparr>getenv := g\<rparr>) tr k v t = synthesizeDeepgram w tr k v t"
  by (simp add: synthesizeDeepgram_def roundTrip_getenv Let_def split: option.splits)

lemma speakVoice_getenv:
  "speakVoice (w\<lparr>getenv := g\<rparr>) k m t s v tr = speakVoice w k m t s v tr"
  by (simp add: speakVoice_def synthesizeOpenAI_getenv playAudio_getenv
        cong: prod.case_cong sum.case_cong option.case_cong)

lemma speakAll_getenv:
  "speakAll (w\<lparr>getenv := g\<rparr>) k m t s vs tr = speakAll w k m t s vs tr"
  by (induction vs arbitrary: tr) (simp_all add: speakVoice_getenv)

lemma speakOnce_getenv:
  "speakOnce (w\<lparr>getenv := g\<rparr>) tr p k m v t s st si out sp
     = speakOnce w tr p k m v t s st si out sp"
  by (simp add: speakOnce_def dispatch_def saveOutput_def playOutput_def
        resolveElevenLabsVoice_def resolveDeepgramVoice_def
        synthesizeOpenAI_getenv synthesizeElevenLabs_getenv synthesizeDeepgram_getenv
        playAudio_getenv
        cong: prod.case_cong sum.case_cong option.case_cong if_cong)

lemma run_getenv: "run (w\<lparr>getenv := g\<rparr>) fl tr p k m v t = run w fl tr p k m v t"
  by (simp add: run_def speakAll_getenv speakOnce_getenv)

lemma getText_getenv: "getText (w\<lparr>getenv := g\<rparr>) args = getText w args"
  by (simp add: getText_def split: stdin_state.splits option.splits)

subsection \<open>One utterance\<close>

lemma synthesizeOpenAI_traceD:
  "synthesizeOpenAI w tr k m v t s = (r, tr')
     \<Longrightarrow> tr' = tr @ [Call_synthesizeOpenAI k m v t s]
         \<or> (\<exists>q. tr' = tr @ [Call_synthesizeOpenAI k m v t s, HttpPost q])"
  using synthesizeOpenAI_trace [of w tr k m v t s] by simp

lemma synthesizeElevenLabs_traceD:
  "synthesizeElevenLabs w tr k m v t s st si = (r, tr')
     \<Longrightarrow> tr' = tr @ [Call_synthesizeElevenLabs k m v t s st si]
         \<or> (\<exists>q. tr' = tr @ [Call_synthesizeElevenLabs k m v t s st si, HttpPost q])"
  using synthesizeElevenLabs_trace [of w tr k m v t s st si] by simp

lemma dispatch_Inr_trace:
  assumes "dispatch w tr p k m v t s st si = Inr (r, tr1)"
  shows "filter isWriteFile tr1 = filter isWriteFile tr
       \<and> filter isPlayAudio tr1 = filter isPlayAudio tr"
  using assms
  by (auto simp add: dispatch_def split: if_splits
        dest!: synthesizeOpenAI_traceD synthesizeElevenLabs_traceD synthesizeDeepgram_traceD)

lemma dispatch_no_answer:
  assumes "\<forall>q b. http w (length (filter isHttpPost tr)) q \<noteq> Response 200 b None"
    and "dispatch w tr p k m v t s st si = Inr (r, tr1)"
    and "p = ''openai'' \<or> p = ''elevenlabs'' \<or> p = ''deepgram''"
  shows "\<exists>err. r = Inl err"
proof -
  have rt: "\<exists>err. fst (roundTrip w (tr @ [c]) q) = Inl err" if "\<not> isHttpPost c" for c q
    using assms(1) that
    by (auto simp add: roundTrip_def split: http_result.splits option.splits)
  have "\<exists>err. fst (synthesizeOpenAI w tr k m v t s) = Inl err"
    "\<exists>err. fst (synthesizeElevenLabs w tr k m v' t s st si) = Inl err"
    "\<exists>err. fst (synthesizeDeepgram w tr k v' t) = Inl err" for v'
    using rt
    by (simp_all add: synthesizeOpenAI_def synthesizeElevenLabs_def synthesizeDeepgram_def
          Let_def split: option.splits)
  then show ?thesis
    using assms(2,3) by (auto simp add: dispatch_def split: if_splits) (metis fst_conv)+
qed


lemma validateSpeed_Inr_msgs:
  "validateSpeed p s = Inr msgs \<Longrightarrow>
     msgs = [] \<or> msgs = [Fprintln ''Warning: Speed adjustment is not supported for Deepgram, ignoring'']"
  by (auto simp add: validateSpeed_def split: if_splits)

subsection \<open>The ways a run can go\<close>

lemma validateSpeed_InlD:
  "validateSpeed p s = Inl msg \<Longrightarrow>
     msg = Fprintln ''Error: Speed must be between 0.25 and 4.0 for OpenAI''
     \<or> msg = Fprintln ''Error: Speed must be between 0.7 and 1.2 for ElevenLabs''"
  by (auto simp add: validateSpeed_def split: if_splits)

lemma main_cases:
  obtains
    (c_help) "fl_help fl" "main w fl args = (Exit 0, [Usage])"
  | (c_provider) p where "\<not> fl_help fl" "p = strings_ToLower w (fl_provider fl)"
      "p \<noteq> ''openai''" "p \<noteq> ''elevenlabs''" "p \<noteq> ''deepgram''"
      "main w fl args
         = (Exit 1, [Fprintf ''Error: Invalid provider '%s'. Use 'openai', 'elevenlabs', or 'deepgram'\<newline>''
                       [S p]])"
  | (c_key) p where "\<not> fl_help fl" "p = strings_ToLower w (fl_provider fl)"
      "p = ''openai'' \<or> p = ''elevenlabs'' \<or> p = ''deepgram''"
      "getAPIKey w p (fl_token fl) = ''''"
      "main w fl args
         = (Exit 1, [Fprintf ''Error: %s environment variable not set and --token not provided\<newline>''
                       [S (envVars p)]])"
  | (c_speed) p msg where "\<not> fl_help fl" "p = strings_ToLower w (fl_provider fl)"
      "p = ''openai'' \<or> p = ''elevenlabs'' \<or> p = ''deepgram''"
      "getAPIKey w p (fl_token fl) \<noteq> ''''"
      "validateSpeed p (fl_speed fl) = Inl msg"
      "main w fl args = (Exit 1, [msg])"
  | (c_input) p msgs st evs where "\<not> fl_help fl" "p = strings_ToLower w (fl_provider fl)"
      "p = ''openai'' \<or> p = ''elevenlabs'' \<or> p = ''deepgram''"
      "getAPIKey w p (fl_token fl) \<noteq> ''''"
      "validateSpeed p (fl_speed fl) = Inr msgs"
      "getText w args = Inl (st, evs)"
      "main w fl args = (st, msgs @ evs)"
  | (c_no_text) p msgs where "\<not> fl_help fl" "p = strings_ToLower w (fl_provider fl)"
      "p = ''openai'' \<or> p = ''elevenlabs'' \<or> p = ''deepgram''"
      "getAPIKey w p (fl_token fl) \<noteq> ''''"
      "validateSpeed p (fl_speed fl) = Inr msgs"
      "getText w args = Inr ''''"
      "main w fl args = (Exit 1, msgs @ [Fprintln ''Error: No text provided'', Usage])"
  | (c_run) p msgs t where "\<not> fl_help fl" "p = strings_ToLower w (fl_provider fl)"
      "p = ''openai'' \<or> p = ''elevenlabs'' \<or> p = ''deepgram''"
      "getAPIKey w p (fl_token fl) \<noteq> ''''"
      "validateSpeed p (fl_speed fl) = Inr msgs"
      "getText w args = Inr t" "t \<noteq> ''''"
      "main w fl args
         = run w fl msgs p (getAPIKey w p (fl_token fl)) (defaultModel p (fl_model fl))
             (defaultVoice p (fl_voice fl)) t"
proof (cases "fl_help fl")
  case True
  then show ?thesis using c_help by (simp add: main_def)
next
  case nohelp: False
  define p where "p = strings_ToLower w (fl_provider fl)"
  show ?thesis
  proof (cases "p = ''openai'' \<or> p = ''elevenlabs'' \<or> p = ''deepgram''")
    case False
    then show ?thesis
      using c_provider [of p] nohelp p_def by (simp add: main_def Let_def)
  next
    case valid: True
    show ?thesis
    proof (cases "getAPIKey w p (fl_token fl) = ''''")
      case True
      then show ?thesis
        using c_key [of p] nohelp p_def valid by (auto simp add: main_def Let_def)
    next
      case haskey: False
      show ?thesis
      proof (cases "validateSpeed p (fl_speed fl)")
        case (Inl msg)
        then show ?thesis
          using c_speed [of p msg] nohelp p_def valid haskey by (auto simp add: main_def Let_def)
      next
        case (Inr msgs)
        show ?thesis
        proof (cases "getText w args")
          case (Inl a)
          obtain st evs where "a = (st, evs)" by (cases a)
          then show ?thesis
            using c_input [of p msgs st evs] nohelp p_def valid haskey Inr Inl
            by (auto simp add: main_def Let_def)
        next
          case tx: (Inr t)
          show ?thesis
          proof (cases "t = ''''")
            case True
            then show ?thesis
              using c_no_text [of p msgs] nohelp p_def valid haskey Inr tx
              by (auto simp add: main_def Let_def)
          next
            case False
            then show ?thesis
              using c_run [of p msgs t] nohelp p_def valid haskey Inr tx
              by (auto simp add: main_def Let_def)
          qed
        qed
      qed
    qed
  qed
qed

lemma dispatch_InrD:
  assumes "dispatch w tr p k m v t s st si = Inr (r, tr1)"
  shows "\<exists>evs. tr1 = tr @ evs \<and> list_all isNet evs"
  using assms
  by (auto simp add: dispatch_def isNet_def split: if_splits
        dest!: synthesizeOpenAI_traceD synthesizeElevenLabs_traceD synthesizeDeepgram_traceD)

lemma dispatch_InlD:
  assumes "dispatch w tr p k m v t s st si = Inl tr1"
  shows "p = ''openai'' \<and> \<not> isValidOpenAIVoice v
       \<and> tr1 = tr @ [Fprintf ''Error: Invalid OpenAI voice '%s'. Valid voices: %s\<newline>''
                        [S v, S (join '', '' openAIVoices)]]"
  using assms by (auto simp add: dispatch_def split: if_splits)

lemma speakOnce_cases:
  obtains
    (c_voice) "p = ''openai''" "\<not> isValidOpenAIVoice v"
      "speakOnce w tr p k m v t s st si out sp
         = (Exit 1, tr @ [Fprintf ''Error: Invalid OpenAI voice '%s'. Valid voices: %s\<newline>''
                            [S v, S (join '', '' openAIVoices)]])"
  | (c_synth) err evs where "dispatch w tr p k m v t s st si = Inr (Inl err, tr @ evs)"
      "list_all isNet evs"
      "speakOnce w tr p k m v t s st si out sp
         = (Exit 1, tr @ evs @ [Fprintf ''Error synthesizing speech: %v\<newline>'' [E err]])"
  | (c_save) audioData evs e where "dispatch w tr p k m v t s st si = Inr (Inr audioData, tr @ evs)"
      "list_all isNet evs" "out \<noteq> ''''" "fileWrite w out audioData = Some e"
      "speakOnce w tr p k m v t s st si out sp
         = (Exit 1, tr @ evs @ [WriteFile out audioData,
                                Fprintf ''Error saving file: %v\<newline>'' [E (External e)]])"
  | (c_play) audioData evs err where "dispatch w tr p k m v t s st si = Inr (Inr audioData, tr @ evs)"
      "list_all isNet evs" "out = '''' \<or> sp"
      "out \<noteq> '''' \<longrightarrow> fileWrite w out audioData = None"
      "speakOnce w tr p k m v t s st si out sp
         = (Exit 1, tr @ evs
                    @ (if out \<noteq> '''' then [WriteFile out audioData,
                                              Fprintf ''Saved to %s\<newline>'' [S out]] else [])
                    @ [PlayAudio audioData, Fprintf ''Error playing audio: %v\<newline>'' [E err]])"
  | (c_ok) audioData evs where "dispatch w tr p k m v t s st si = Inr (Inr audioData, tr @ evs)"
      "list_all isNet evs"
      "out \<noteq> '''' \<longrightarrow> fileWrite w out audioData = None"
      "speakOnce w tr p k m v t s st si out sp
         = (Exit 0, tr @ evs
                    @ (if out \<noteq> '''' then [WriteFile out audioData,
                                              Fprintf ''Saved to %s\<newline>'' [S out]] else [])
                    @ (if out = '''' \<or> sp then [PlayAudio audioData] else []))"
proof (cases "dispatch w tr p k m v t s st si")
  case (Inl tr1)
  then show ?thesis
    using c_voice dispatch_InlD [OF Inl] by (simp add: speakOnce_def)
next
  case (Inr a)
  obtain r tr1 where a: "a = (r, tr1)" by (cases a)
  obtain evs where evs: "tr1 = tr @ evs" "list_all isNet evs"
    using dispatch_InrD [of w tr p k m v t s st si r tr1] Inr a by blast
  show ?thesis
  proof (cases r)
    case (Inl err)
    then show ?thesis
      using c_synth [of err evs] Inr a evs by (simp add: speakOnce_def)
  next
    case ok: (Inr audioData)
    show ?thesis
    proof (cases "out \<noteq> '''' \<and> fileWrite w out audioData \<noteq> None")
      case True
      then obtain e where "fileWrite w out audioData = Some e" by blast
      then show ?thesis
        using c_save [of audioData evs e] True Inr a evs ok
        by (simp add: speakOnce_def saveOutput_def)
    next
      case saved: False
      let ?tr2 = "tr @ evs @ (if out \<noteq> '''' then [WriteFile out audioData,
                                              Fprintf ''Saved to %s\<newline>'' [S out]] else [])"
      have sv: "saveOutput w tr1 out audioData = Inr ?tr2"
        using saved evs by (auto simp add: saveOutput_def)
      show ?thesis
      proof (cases "out = '''' \<or> sp")
        case False
        then show ?thesis
          using c_ok [of audioData evs] saved Inr a evs ok sv
          by (auto simp add: speakOnce_def playOutput_def)
      next
        case play: True
        show ?thesis
        proof (cases "fst (playAudio w ?tr2 audioData)")
          case None
          then have "playAudio w ?tr2 audioData = (None, ?tr2 @ [PlayAudio audioData])"
            using playAudio_trace [of w ?tr2 audioData] by (metis prod.collapse)
          then show ?thesis
            using c_ok [of audioData evs] saved Inr a evs ok sv play
            by (auto simp add: speakOnce_def playOutput_def)
        next
          case (Some err)
          then have "playAudio w ?tr2 audioData = (Some err, ?tr2 @ [PlayAudio audioData])"
            using playAudio_trace [of w ?tr2 audioData] by (metis prod.collapse)
          then show ?thesis
            using c_play [of audioData evs err] saved Inr a evs ok sv play
            by (auto simp add: speakOnce_def playOutput_def)
        qed
      qed
    qed
  qed
qed

subsection \<open>The events of the loop over the voices\<close>

lemma speakVoice_events:
  "\<exists>evs. speakVoice w k m t s v tr = tr @ evs \<and> list_all loopEvent evs"
  by (auto simp add: speakVoice_def split: prod.splits sum.splits option.splits
        dest!: synthesizeOpenAI_traceD playAudio_traceD)

lemma speakAll_events:
  "\<exists>evs. speakAll w k m t s vs tr = tr @ evs \<and> list_all loopEvent evs"
proof (induction vs arbitrary: tr)
  case Nil
  then show ?case by simp
next
  case (Cons v vs)
  obtain e1 where e1: "speakVoice w k m t s v tr = tr @ e1" "list_all loopEvent e1"
    using speakVoice_events by blast
  obtain e2 where e2: "speakAll w k m t s vs (tr @ e1) = (tr @ e1) @ e2" "list_all loopEvent e2"
    using Cons.IH by blast
  have "speakAll w k m t s (v # vs) tr = tr @ (e1 @ e2) \<and> list_all loopEvent (e1 @ e2)"
    using e1 e2 by simp
  then show ?case by blast
qed

lemma speakAll_Fprintf:
  assumes "Fprintf f xs \<in> set (speakAll w k m t s vs tr)"
  shows "Fprintf f xs \<in> set tr \<or> loopEvent (Fprintf f xs)"
proof -
  obtain evs where "speakAll w k m t s vs tr = tr @ evs" "list_all loopEvent evs"
    using speakAll_events by blast
  then show ?thesis using assms by (auto simp add: list_all_iff)
qed

lemma speakAll_announces:
  assumes "v \<in> set vs"
  shows "Call_synthesizeOpenAI k m v v s \<in> set (speakAll w k m t s vs tr)"
  using assms
proof (induction vs arbitrary: tr)
  case Nil
  then show ?case by simp
next
  case (Cons x vs)
  show ?case
  proof (cases "v = x")
    case True
    obtain bs where
      "filter isCall (speakAll w k m t s vs (speakVoice w k m t s x tr))
         = filter isCall (speakVoice w k m t s x tr) @ concat (map2 (voiceCalls k m t s) vs bs)"
      using speakAll_calls by blast
    then have "Call_synthesizeOpenAI k m v v s
                 \<in> set (filter isCall (speakAll w k m t s vs (speakVoice w k m t s x tr)))"
      using True by (simp add: speakVoice_calls voiceCalls_def)
    then show ?thesis by simp
  next
    case False
    then show ?thesis using Cons by simp
  qed
qed

subsection \<open>Error messages and the exit status\<close>

lemma isNet_not_error: "list_all isNet evs \<Longrightarrow> e \<in> set evs \<Longrightarrow> \<not> isErrorMsg e"
  by (cases e) (auto simp add: list_all_iff isNet_def)

lemma warning_not_error:
  "validateSpeed p s = Inr msgs \<Longrightarrow> e \<in> set msgs \<Longrightarrow> \<not> isErrorMsg e"
  by (auto dest!: validateSpeed_Inr_msgs)

lemma speakOnce_exit:
  assumes "\<forall>e \<in> set tr. \<not> isErrorMsg e"
  shows "(fst (speakOnce w tr p k m v t s st si out sp) = Exit 0
          \<or> fst (speakOnce w tr p k m v t s st si out sp) = Exit 1)
       \<and> (fst (speakOnce w tr p k m v t s st si out sp) = Exit 1
            \<longleftrightarrow> (\<exists>e \<in> set (snd (speakOnce w tr p k m v t s st si out sp)). isErrorMsg e))
       \<and> (fst (speakOnce w tr p k m v t s st si out sp) = Exit 1
            \<longrightarrow> snd (speakOnce w tr p k m v t s st si out sp) \<noteq> []
                \<and> isStderr (last (snd (speakOnce w tr p k m v t s st si out sp))))"
proof (cases rule: speakOnce_cases [of p v w tr k m t s st si out sp])
  case c_voice
  then show ?thesis by simp
next
  case (c_synth err evs)
  then show ?thesis by simp
next
  case (c_save audioData evs e)
  then show ?thesis by simp
next
  case (c_play audioData evs err)
  then show ?thesis by simp
next
  case (c_ok audioData evs)
  have "\<not> isErrorMsg e" if "e \<in> set evs" for e
    using isNet_not_error [OF c_ok(2) that] .
  then show ?thesis
    using c_ok(4) assms by auto
qed

subsection \<open>Deepgram and the speed\<close>

lemma speakOnce_deepgram_prefix:
  assumes "\<not> isHttpPost e" and "\<not> isPlayAudio e"
  shows "speakOnce w [e] ''deepgram'' k m v t s st si out sp
           = (fst (speakOnce w [] ''deepgram'' k m v t s' st si out sp),
              e # snd (speakOnce w [] ''deepgram'' k m v t s' st si out sp))"
  using assms
  by (simp add: speakOnce_def dispatch_def synthesizeDeepgram_def marshalDeepgram_def
        roundTrip_def saveOutput_def playOutput_def playAudio_def Let_def
        split: http_result.splits option.splits play_result.splits)

lemma deepgram_body:
  assumes "strings_ToLower w (fl_provider fl) = ''deepgram''"
    and "HttpPost r \<in> set (snd (main w fl args))"
  shows "\<exists>t. req_body r = JObject [(''text'', JString t)]"
proof (cases rule: main_cases [of fl w args])
  case c_help
  then show ?thesis using assms(2) by simp
next
  case (c_provider p)
  then show ?thesis using assms(2) by simp
next
  case (c_key p)
  then show ?thesis using assms(2) by simp
next
  case (c_speed p msg)
  then show ?thesis using assms(2) validateSpeed_InlD [of p "fl_speed fl" msg] by auto
next
  case (c_input p msgs st evs)
  then show ?thesis
    using assms(2) validateSpeed_Inr_msgs [of p "fl_speed fl" msgs]
      getText_InlD [of w args st evs]
    by auto
next
  case (c_no_text p msgs)
  then show ?thesis
    using assms(2) validateSpeed_Inr_msgs [of p "fl_speed fl" msgs] by auto
next
  case (c_run p msgs t)
  have nil: "filter isHttpPost msgs = []"
    using validateSpeed_Inr_msgs [OF c_run(5)] by auto
  have p: "p = ''deepgram''" using c_run(2) assms(1) by simp
  show ?thesis
  proof (cases "fl_all fl")
    case True
    then show ?thesis
      using c_run(8) assms(2) p nil
      by (auto simp add: run_def filter_empty_conv)
  next
    case False
    then have "HttpPost r \<in> set (snd (speakOnce w msgs ''deepgram'' (getAPIKey w p (fl_token fl))
                        (defaultModel p (fl_model fl)) (defaultVoice p (fl_voice fl)) t
                        (fl_speed fl) (fl_stability fl) (fl_similarityBoost fl) (fl_output fl)
                        (fl_speak fl)))"
      using c_run(8) assms(2) p by (simp add: run_def)
    then show ?thesis
      using speakOnce_deepgram_posts [OF _ nil] by fastforce
  qed
qed

subsection \<open>The request of one utterance\<close>

lemma speakOnce_extends:
  assumes "dispatch w tr p k m v t s st si = Inr (r, tr1)"
  shows "\<exists>evs. snd (speakOnce w tr p k m v t s st si out sp) = tr1 @ evs"
proof (cases rule: speakOnce_cases [of p v w tr k m t s st si out sp])
  case c_voice
  then show ?thesis using assms by (simp add: dispatch_def)
next
  case (c_synth err evs)
  then show ?thesis using assms by simp
next
  case (c_save audioData evs e)
  then show ?thesis using assms by simp
next
  case (c_play audioData evs err)
  then show ?thesis using assms by simp
next
  case (c_ok audioData evs)
  then show ?thesis using assms by simp
qed

lemma synthesizeElevenLabs_request:
  "\<exists>body. snd (synthesizeElevenLabs w tr k m v t (Fin a) (Fin b) (Fin c))
     = tr @ [Call_synthesizeElevenLabs k m v t (Fin a) (Fin b) (Fin c),
             HttpPost \<lparr>req_method = ''POST'',
                       req_url = elevenLabsAPIURL @ ''/'' @ v @ ''?output_format=mp3_44100_128'',
                       req_headers = [(''Content-Type'', ''application/json''),
                                      (''xi-api-key'', k)],
                       req_body = body\<rparr>]"
  by (simp add: synthesizeElevenLabs_def marshalElevenLabs_def marshalVoiceSettings_def
        marshalFloatOmitEmpty_def roundTrip_def Let_def)

section \<open>The claims\<close>

subsection \<open>C1: the synthesis attempts of the demo of all voices\<close>

text \<open>
  Claim C1, as amended. In demo-all mode with OpenAI (the configuration has passed its
  checks: credential, speed, text), the run ends with exit status 0 and goes through the
  preset voices in the order of \<open>openAIVoices\<close>. For each voice it makes one announcement
  attempt, and the attempt for the utterance only if the announcement was synthesized and
  played without error (\<open>announced\<close>); a failure skips the rest of that voice and never the
  voices after it. So the number of synthesis attempts lies between N and 2N for the N
  preset voices, and it is exactly 2N, announcement then utterance for each voice in turn,
  when every request is answered with status 200 and every playback works.
\<close>

theorem demo_all_attempts:
  assumes "\<not> fl_help fl" and "fl_all fl" and "strings_ToLower w (fl_provider fl) = ''openai''"
    and "getAPIKey w ''openai'' (fl_token fl) = k" and "k \<noteq> ''''"
    and "validateSpeed ''openai'' (fl_speed fl) = Inr msgs"
    and "getText w args = Inr text" and "text \<noteq> ''''"
    and "m = defaultModel ''openai'' (fl_model fl)" and "s = fl_speed fl"
  shows "fst (main w fl args) = Exit 0
    \<and> (\<exists>bs. length bs = length openAIVoices
          \<and> filter isCall (snd (main w fl args))
              = concat (map2 (voiceCalls k m text s) openAIVoices bs))
    \<and> filter isCall (speakVoice w k m text s v tr)
          = filter isCall tr @ voiceCalls k m text s v (announced w k m s v tr)
    \<and> length openAIVoices \<le> length (filter isCall (snd (main w fl args)))
    \<and> length (filter isCall (snd (main w fl args))) \<le> 2 * length openAIVoices
    \<and> ((\<forall>n r. \<exists>a. http w n r = Response 200 a None) \<and> (\<forall>n a. audio w n a = Played) \<and> s \<noteq> NaN
        \<longrightarrow> filter isCall (snd (main w fl args))
              = concat (map (\<lambda>v. [Call_synthesizeOpenAI k m v v s,
                                  Call_synthesizeOpenAI k m v text s]) openAIVoices))"
proof -
  have run: "main w fl args = (Exit 0, speakAll w k m text s openAIVoices msgs)"
    using main_run [OF assms(1) assms(3) _ assms(4-8)] assms(2,9,10)
    by (simp add: run_def)
  have msgs: "msgs = []"
    using assms(6) by (auto simp add: validateSpeed_def split: if_splits)
  obtain bs where bs: "length bs = length openAIVoices"
    "filter isCall (speakAll w k m text s openAIVoices msgs)
       = filter isCall msgs @ concat (map2 (voiceCalls k m text s) openAIVoices bs)"
    using speakAll_calls by blast
  have calls: "filter isCall (snd (main w fl args))
                 = concat (map2 (voiceCalls k m text s) openAIVoices bs)"
    using run bs(2) msgs by simp
  have len: "length bs = 6" using bs(1) by (simp add: openAIVoices_def)
  then obtain b1 b2 b3 b4 b5 b6 where "bs = [b1, b2, b3, b4, b5, b6]"
    by (auto simp add: length_Suc_conv numeral_eq_Suc)
  then have bounds: "length openAIVoices \<le> length (filter isCall (snd (main w fl args)))
    \<and> length (filter isCall (snd (main w fl args))) \<le> 2 * length openAIVoices"
    unfolding calls by (simp add: openAIVoices_def voiceCalls_def)
  have ok: "filter isCall (snd (main w fl args))
              = concat (map (\<lambda>v. [Call_synthesizeOpenAI k m v v s,
                                  Call_synthesizeOpenAI k m v text s]) openAIVoices)"
    if h: "\<forall>n r. \<exists>a. http w n r = Response 200 a None" "\<forall>n a. audio w n a = Played" "s \<noteq> NaN"
  proof -
    obtain x where x: "s = Fin x"
      using openai_speed_finite [of s msgs] assms(6,10) h(3) by blast
    show ?thesis
      using speakAll_calls_ok [OF h(1,2), of k m "text" x openAIVoices msgs] run msgs x
      by (simp add: voiceCalls_def)
  qed
  have st: "fst (main w fl args) = Exit 0"
    using run by simp
  have ex: "\<exists>bs. length bs = length openAIVoices
          \<and> filter isCall (snd (main w fl args))
              = concat (map2 (voiceCalls k m text s) openAIVoices bs)"
    using calls bs(1) by blast
  have ok': "(\<forall>n r. \<exists>a. http w n r = Response 200 a None) \<and> (\<forall>n a. audio w n a = Played)
        \<and> s \<noteq> NaN
        \<longrightarrow> filter isCall (snd (main w fl args))
              = concat (map (\<lambda>v. [Call_synthesizeOpenAI k m v v s,
                                  Call_synthesizeOpenAI k m v text s]) openAIVoices)"
    using ok by blast
  show ?thesis
    using st ex bounds ok' by (simp only: speakVoice_calls simp_thms)
qed

text \<open>
  The theorem at the default flags with a token and \<^verbatim>\<open>--all\<close>, the text \<open>Hi\<close> and a
  world where everything works: twelve attempts.
\<close>

theorem demo_all_attempts_witness:
  "\<not> fl_help demoFlags \<and> fl_all demoFlags \<and> strings_ToLower okWorld (fl_provider demoFlags) = ''openai''
   \<and> getAPIKey okWorld ''openai'' (fl_token demoFlags) = ''sk-test''
   \<and> validateSpeed ''openai'' (fl_speed demoFlags) = Inr []
   \<and> getText okWorld [''Hi''] = Inr ''Hi''
   \<and> fst (main okWorld demoFlags [''Hi'']) = Exit 0
   \<and> length (filter isCall (snd (main okWorld demoFlags [''Hi'']))) = 12"
proof -
  have h1: "\<not> fl_help demoFlags" and h2: "fl_all demoFlags"
    and h3: "strings_ToLower okWorld (fl_provider demoFlags) = ''openai''"
    by (simp_all add: demoFlags_def defaultFlags_def defaultProvider_def example_strings
          asciiToLower_providers)
  have h4: "getAPIKey okWorld ''openai'' (fl_token demoFlags) = ''sk-test''"
    and h5: "''sk-test'' \<noteq> ''''"
    by (simp_all add: getAPIKey_def demoFlags_def defaultFlags_def)
  have h6: "validateSpeed ''openai'' (fl_speed demoFlags) = Inr []"
    by (simp add: validateSpeed_def demoFlags_def defaultFlags_def defaultSpeed_def f64_gt_def)
  have h7: "getText okWorld [''Hi''] = Inr ''Hi''" and h8: "''Hi'' \<noteq> ''''"
    by (simp_all add: getText_def)
  have w1: "\<forall>n r. \<exists>a. http okWorld n r = Response 200 a None"
    and w2: "\<forall>n a. audio okWorld n a = Played"
    and w3: "fl_speed demoFlags \<noteq> NaN"
    by (simp_all add: okWorld_def demoFlags_def defaultFlags_def defaultSpeed_def)
  show ?thesis
    using demo_all_attempts [OF h1 h2 h3 h4 h5 h6 h7 h8 refl refl, of "''alloy''" "[]"]
      w1 w2 w3 h1 h2 h3 h4 h6 h7
    by (simp add: openAIVoices_def)
qed

text \<open>
  The claim as it is written (exactly 2N attempts, and no failure prevents a later
  attempt) fails when only the first request fails: the utterance for \<open>alloy\<close> is never
  attempted, and there are eleven attempts, not twelve.
\<close>

theorem demo_all_attempts_counterexample:
  "length (filter isCall (snd (main flakyWorld demoFlags [''Hi'']))) = 11
   \<and> 2 * length openAIVoices = 12
   \<and> Call_synthesizeOpenAI ''sk-test'' ''tts-1-hd'' ''alloy'' ''Hi'' (Fin 1)
        \<notin> set (snd (main flakyWorld demoFlags [''Hi'']))"
  by code_simp

subsection \<open>C2: the speed\<close>

text \<open>
  Claim C2. In a run that has got past \<^verbatim>\<open>--help\<close> and has a credential, the speed is
  checked next. For OpenAI a speed below 0.25 or above 4.0 ends the run with the error
  message for the OpenAI range and exit status 1, before the text is read and before any
  synthesis function is entered; a speed in the closed interval from 0.25 to 4.0 passes
  the check without a message, and the run goes on to the synthesis with that speed. The
  same holds for ElevenLabs with the closed interval from 0.7 to 1.2, where the two bounds
  are the \<^verbatim>\<open>float64\<close> values of these literals, \<open>float64_0_7\<close> and \<open>float64_1_2\<close>:
  the values that the program compares with, and the values of the flags
  \<^verbatim>\<open>--speed 0.7\<close> and \<^verbatim>\<open>--speed 1.2\<close>, which are therefore accepted. Each of them
  lies below the decimal number by less than half a unit in the last place
  (\<open>1 / 2 ^ 54\<close> and \<open>1 / 2 ^ 53\<close>). For Deepgram a speed
  other than the default 1.0 only adds a warning: the run is the run with the default speed
  with the warning printed first (same exit status, same requests), and the body of every
  request of the run has the text as its only member, so there is no speed in it.
\<close>

theorem speed_validation:
  assumes "\<not> fl_help fl" and "p = strings_ToLower w (fl_provider fl)"
    and "k = getAPIKey w p (fl_token fl)" and "k \<noteq> ''''" and "s = fl_speed fl"
  shows "(p = ''openai'' \<and> (f64_lt s (Fin 0.25) \<or> f64_gt s (Fin 4.0))
          \<longrightarrow> main w fl args
                = (Exit 1, [Fprintln ''Error: Speed must be between 0.25 and 4.0 for OpenAI'']))
    \<and> (p = ''openai'' \<and> s = Fin x \<and> 0.25 \<le> x \<and> x \<le> 4.0
          \<longrightarrow> validateSpeed p s = Inr []
              \<and> (getText w args = Inr text \<and> text \<noteq> ''''
                  \<longrightarrow> main w fl args
                        = run w fl [] p k (defaultModel p (fl_model fl))
                            (defaultVoice p (fl_voice fl)) text))
    \<and> (p = ''elevenlabs'' \<and> (f64_lt s (Fin float64_0_7) \<or> f64_gt s (Fin float64_1_2))
          \<longrightarrow> main w fl args
                = (Exit 1, [Fprintln ''Error: Speed must be between 0.7 and 1.2 for ElevenLabs'']))
    \<and> (p = ''elevenlabs'' \<and> s = Fin x \<and> float64_0_7 \<le> x \<and> x \<le> float64_1_2
          \<longrightarrow> validateSpeed p s = Inr []
              \<and> (getText w args = Inr text \<and> text \<noteq> ''''
                  \<longrightarrow> main w fl args
                        = run w fl [] p k (defaultModel p (fl_model fl))
                            (defaultVoice p (fl_voice fl)) text))
    \<and> (p = ''deepgram'' \<and> f64_ne s defaultSpeed
          \<longrightarrow> main w fl args
                = (fst (main w (fl\<lparr>fl_speed := defaultSpeed\<rparr>) args),
                   Fprintln ''Warning: Speed adjustment is not supported for Deepgram, ignoring''
                     # snd (main w (fl\<lparr>fl_speed := defaultSpeed\<rparr>) args))
              \<and> (\<forall>r. HttpPost r \<in> set (snd (main w fl args))
                       \<longrightarrow> (\<exists>t. req_body r = JObject [(''text'', JString t)])))
    \<and> (float64_0_7 \<le> 7 / 10 \<and> 7 / 10 < float64_0_7 + 1 / 2 ^ 54
        \<and> float64_1_2 \<le> 12 / 10 \<and> 12 / 10 < float64_1_2 + 1 / 2 ^ 53)"
proof -
  have rej_oa: "main w fl args
                = (Exit 1, [Fprintln ''Error: Speed must be between 0.25 and 4.0 for OpenAI''])"
    if "p = ''openai''" "f64_lt s (Fin 0.25) \<or> f64_gt s (Fin 4.0)"
    using that assms by (auto simp add: main_def Let_def validateSpeed_def)
  have rej_el: "main w fl args
                = (Exit 1, [Fprintln ''Error: Speed must be between 0.7 and 1.2 for ElevenLabs''])"
    if "p = ''elevenlabs''" "f64_lt s (Fin float64_0_7) \<or> f64_gt s (Fin float64_1_2)"
    using that assms by (auto simp add: main_def Let_def validateSpeed_def)
  have acc_oa: "validateSpeed p s = Inr []" if "p = ''openai''" "s = Fin x" "0.25 \<le> x" "x \<le> 4.0"
    using that by (simp add: validateSpeed_def f64_gt_def)
  have acc_el: "validateSpeed p s = Inr []" if "p = ''elevenlabs''" "s = Fin x" "float64_0_7 \<le> x" "x \<le> float64_1_2"
    using that by (simp add: validateSpeed_def f64_gt_def)
  have go: "main w fl args
              = run w fl [] p k (defaultModel p (fl_model fl)) (defaultVoice p (fl_voice fl)) text"
    if "p = ''openai'' \<or> p = ''elevenlabs''" "validateSpeed p s = Inr []"
       "getText w args = Inr text" "text \<noteq> ''''"
    using main_run [OF assms(1) assms(2) [symmetric] _ assms(3) [symmetric] assms(4) _ that(3,4),
        of "[]"] that(1,2) assms(5)
    by auto
  have dg1: "main w fl args
                = (fst (main w (fl\<lparr>fl_speed := defaultSpeed\<rparr>) args),
                   Fprintln ''Warning: Speed adjustment is not supported for Deepgram, ignoring''
                     # snd (main w (fl\<lparr>fl_speed := defaultSpeed\<rparr>) args))"
    if "p = ''deepgram''" "f64_ne s defaultSpeed"
  proof -
    let ?warn = "Fprintln ''Warning: Speed adjustment is not supported for Deepgram, ignoring''"
    have w1: "validateSpeed ''deepgram'' (fl_speed fl) = Inr [?warn]"
      and w2: "validateSpeed ''deepgram'' defaultSpeed = Inr []"
      using that(2) assms(5) by (simp_all add: validateSpeed_def f64_ne_def defaultSpeed_def)
    show ?thesis
      using that(1) assms(1-4) w1 w2
      by (auto simp add: main_def Let_def run_def
            speakOnce_deepgram_prefix [of ?warn, where s' = defaultSpeed]
            split: sum.splits prod.splits)
  qed
  have dg2: "\<exists>t. req_body r = JObject [(''text'', JString t)]"
    if "p = ''deepgram''" "HttpPost r \<in> set (snd (main w fl args))" for r
    using deepgram_body [of w fl r args] that assms(2) by simp
  have c1: "p = ''openai'' \<and> (f64_lt s (Fin 0.25) \<or> f64_gt s (Fin 4.0))
          \<longrightarrow> main w fl args
                = (Exit 1, [Fprintln ''Error: Speed must be between 0.25 and 4.0 for OpenAI''])"
    using rej_oa by blast
  have c2: "p = ''openai'' \<and> s = Fin x \<and> 0.25 \<le> x \<and> x \<le> 4.0
          \<longrightarrow> validateSpeed p s = Inr []
              \<and> (getText w args = Inr text \<and> text \<noteq> []
                  \<longrightarrow> main w fl args
                        = run w fl [] p k (defaultModel p (fl_model fl))
                            (defaultVoice p (fl_voice fl)) text)"
    using acc_oa go by blast
  have c3: "p = ''elevenlabs'' \<and> (f64_lt s (Fin float64_0_7) \<or> f64_gt s (Fin float64_1_2))
          \<longrightarrow> main w fl args
                = (Exit 1, [Fprintln ''Error: Speed must be between 0.7 and 1.2 for ElevenLabs''])"
    using rej_el by blast
  have c4: "p = ''elevenlabs'' \<and> s = Fin x \<and> float64_0_7 \<le> x \<and> x \<le> float64_1_2
          \<longrightarrow> validateSpeed p s = Inr []
              \<and> (getText w args = Inr text \<and> text \<noteq> []
                  \<longrightarrow> main w fl args
                        = run w fl [] p k (defaultModel p (fl_model fl))
                            (defaultVoice p (fl_voice fl)) text)"
    using acc_el go by blast
  have c5: "p = ''deepgram'' \<and> f64_ne s defaultSpeed
          \<longrightarrow> main w fl args
                = (fst (main w (fl\<lparr>fl_speed := defaultSpeed\<rparr>) args),
                   Fprintln ''Warning: Speed adjustment is not supported for Deepgram, ignoring''
                     # snd (main w (fl\<lparr>fl_speed := defaultSpeed\<rparr>) args))
              \<and> (\<forall>r. HttpPost r \<in> set (snd (main w fl args))
                       \<longrightarrow> (\<exists>t. req_body r = JObject [(''text'', JString t)]))"
    using dg1 dg2 by blast
  have c6: "float64_0_7 \<le> 7 / 10 \<and> 7 / 10 < float64_0_7 + 1 / 2 ^ 54
        \<and> float64_1_2 \<le> 12 / 10 \<and> 12 / 10 < float64_1_2 + 1 / 2 ^ 53"
    by (simp add: float64_0_7_def float64_1_2_def)
  show ?thesis
    by (rule conjI [OF c1 conjI [OF c2 conjI [OF c3 conjI [OF c4 conjI [OF c5 c6]]]]])
qed

text \<open>
  The theorem at speeds outside and on the bounds of both intervals, and at Deepgram with
  a speed of 2.
\<close>

theorem speed_validation_witness:
  "main okWorld (tokenFlags\<lparr>fl_speed := Fin 4.5\<rparr>) [''Hi'']
     = (Exit 1, [Fprintln ''Error: Speed must be between 0.25 and 4.0 for OpenAI''])
   \<and> main okWorld (tokenFlags\<lparr>fl_speed := Fin 0.125\<rparr>) [''Hi'']
     = (Exit 1, [Fprintln ''Error: Speed must be between 0.25 and 4.0 for OpenAI''])
   \<and> validateSpeed ''openai'' (Fin 0.25) = Inr []
   \<and> validateSpeed ''openai'' (Fin 4.0) = Inr []
   \<and> getText okWorld [''Hi''] = Inr ''Hi''
   \<and> main okWorld (tokenFlags\<lparr>fl_speed := Fin 4.0\<rparr>) [''Hi'']
     = run okWorld (tokenFlags\<lparr>fl_speed := Fin 4.0\<rparr>) [] ''openai'' ''sk-test''
         (defaultModel ''openai'' (fl_model (tokenFlags\<lparr>fl_speed := Fin 4.0\<rparr>)))
         (defaultVoice ''openai'' (fl_voice (tokenFlags\<lparr>fl_speed := Fin 4.0\<rparr>))) ''Hi''
   \<and> main okWorld (tokenFlags\<lparr>fl_provider := ''elevenlabs'', fl_speed := Fin 1.5\<rparr>) [''Hi'']
     = (Exit 1, [Fprintln ''Error: Speed must be between 0.7 and 1.2 for ElevenLabs''])
   \<and> validateSpeed ''elevenlabs'' (Fin float64_0_7) = Inr []
   \<and> validateSpeed ''elevenlabs'' (Fin float64_1_2) = Inr []
   \<and> f64_ne (fl_speed deepgramFlags) defaultSpeed
   \<and> main okWorld deepgramFlags [''Hi'']
     = (fst (main okWorld (deepgramFlags\<lparr>fl_speed := defaultSpeed\<rparr>) [''Hi'']),
        Fprintln ''Warning: Speed adjustment is not supported for Deepgram, ignoring''
          # snd (main okWorld (deepgramFlags\<lparr>fl_speed := defaultSpeed\<rparr>) [''Hi'']))
   \<and> fst (main okWorld deepgramFlags [''Hi'']) = Exit 0
   \<and> HttpPost \<lparr>req_method = ''POST'',
               req_url = ''https://api.deepgram.com/v1/speak?model=aura-luna-en&encoding=mp3'',
               req_headers = [(''Content-Type'', ''application/json''),
                              (''Authorization'', ''Token dg-test'')],
               req_body = JObject [(''text'', JString ''Hi'')]\<rparr>
        \<in> set (snd (main okWorld deepgramFlags [''Hi'']))
   \<and> main okWorld (tokenFlags\<lparr>fl_provider := ''elevenlabs'', fl_speed := Fin float64_1_2\<rparr>) [''Hi'']
     = run okWorld (tokenFlags\<lparr>fl_provider := ''elevenlabs'', fl_speed := Fin float64_1_2\<rparr>) []
         ''elevenlabs'' ''sk-test''
         (defaultModel ''elevenlabs''
            (fl_model (tokenFlags\<lparr>fl_provider := ''elevenlabs'', fl_speed := Fin float64_1_2\<rparr>)))
         (defaultVoice ''elevenlabs''
            (fl_voice (tokenFlags\<lparr>fl_provider := ''elevenlabs'', fl_speed := Fin float64_1_2\<rparr>)))
         ''Hi''"
proof -
  have lo: "strings_ToLower okWorld ''openai'' = ''openai''"
    "strings_ToLower okWorld ''elevenlabs'' = ''elevenlabs''"
    "strings_ToLower okWorld ''deepgram'' = ''deepgram''"
    by (simp_all add: example_strings asciiToLower_providers)
  have oa: "\<not> fl_help (tokenFlags\<lparr>fl_speed := y\<rparr>)"
    "''openai'' = strings_ToLower okWorld (fl_provider (tokenFlags\<lparr>fl_speed := y\<rparr>))"
    "''sk-test'' = getAPIKey okWorld ''openai'' (fl_token (tokenFlags\<lparr>fl_speed := y\<rparr>))"
    "''sk-test'' \<noteq> ''''"
    "y = fl_speed (tokenFlags\<lparr>fl_speed := y\<rparr>)" for y
    by (simp_all add: tokenFlags_def defaultFlags_def defaultProvider_def lo getAPIKey_def)
  have el: "\<not> fl_help (tokenFlags\<lparr>fl_provider := ''elevenlabs'', fl_speed := y\<rparr>)"
    "''elevenlabs''
       = strings_ToLower okWorld (fl_provider (tokenFlags\<lparr>fl_provider := ''elevenlabs'', fl_speed := y\<rparr>))"
    "''sk-test''
       = getAPIKey okWorld ''elevenlabs''
           (fl_token (tokenFlags\<lparr>fl_provider := ''elevenlabs'', fl_speed := y\<rparr>))"
    "y = fl_speed (tokenFlags\<lparr>fl_provider := ''elevenlabs'', fl_speed := y\<rparr>)" for y
    by (simp_all add: tokenFlags_def defaultFlags_def lo getAPIKey_def)
  have dg: "\<not> fl_help deepgramFlags" "''deepgram'' = strings_ToLower okWorld (fl_provider deepgramFlags)"
    "''dg-test'' = getAPIKey okWorld ''deepgram'' (fl_token deepgramFlags)"
    "''dg-test'' \<noteq> ''''" "Fin 2 = fl_speed deepgramFlags"
    by (simp_all add: deepgramFlags_def defaultFlags_def lo getAPIKey_def)
  have tx: "getText okWorld [''Hi''] = Inr ''Hi''"
    by (simp add: getText_def)
  have a: "main okWorld (tokenFlags\<lparr>fl_speed := Fin 4.5\<rparr>) [''Hi'']
     = (Exit 1, [Fprintln ''Error: Speed must be between 0.25 and 4.0 for OpenAI''])"
    using speed_validation [OF oa, THEN conjunct1, of "Fin 4.5" "[''Hi'']"]
    by (simp add: f64_gt_def)
  have b: "main okWorld (tokenFlags\<lparr>fl_speed := Fin 0.125\<rparr>) [''Hi'']
     = (Exit 1, [Fprintln ''Error: Speed must be between 0.25 and 4.0 for OpenAI''])"
    using speed_validation [OF oa, THEN conjunct1, of "Fin 0.125" "[''Hi'']"]
    by (simp add: f64_gt_def)
  have c: "validateSpeed ''openai'' (Fin 0.25) = Inr []"
    using speed_validation [OF oa, THEN conjunct2, THEN conjunct1, of "Fin 0.25" "0.25"]
    by simp
  have d: "validateSpeed ''openai'' (Fin 4.0) = Inr []
    \<and> main okWorld (tokenFlags\<lparr>fl_speed := Fin 4.0\<rparr>) [''Hi'']
     = run okWorld (tokenFlags\<lparr>fl_speed := Fin 4.0\<rparr>) [] ''openai'' ''sk-test''
         (defaultModel ''openai'' (fl_model (tokenFlags\<lparr>fl_speed := Fin 4.0\<rparr>)))
         (defaultVoice ''openai'' (fl_voice (tokenFlags\<lparr>fl_speed := Fin 4.0\<rparr>))) ''Hi''"
    using speed_validation [OF oa, THEN conjunct2, THEN conjunct1, of "Fin 4.0" "4.0"
        "[''Hi'']" "''Hi''"] tx
    by simp
  have e: "main okWorld (tokenFlags\<lparr>fl_provider := ''elevenlabs'', fl_speed := Fin 1.5\<rparr>) [''Hi'']
     = (Exit 1, [Fprintln ''Error: Speed must be between 0.7 and 1.2 for ElevenLabs''])"
    using speed_validation [OF el(1,2,3) oa(4) el(4), THEN conjunct2, THEN conjunct2,
        THEN conjunct1, of "Fin 1.5" "[''Hi'']"]
    by (simp add: f64_gt_def float64_1_2_def)
  have f: "validateSpeed ''elevenlabs'' (Fin float64_0_7) = Inr []"
    using speed_validation [OF el(1,2,3) oa(4) el(4), THEN conjunct2, THEN conjunct2,
        THEN conjunct2, THEN conjunct1, of "Fin float64_0_7" float64_0_7]
    by (simp add: float64_literals less_imp_le)
  have g: "validateSpeed ''elevenlabs'' (Fin float64_1_2) = Inr []"
    using speed_validation [OF el(1,2,3) oa(4) el(4), THEN conjunct2, THEN conjunct2,
        THEN conjunct2, THEN conjunct1, of "Fin float64_1_2" float64_1_2]
    by (simp add: float64_literals less_imp_le)
  have h0: "f64_ne (fl_speed deepgramFlags) defaultSpeed"
    by (simp add: deepgramFlags_def defaultFlags_def defaultSpeed_def f64_ne_def)
  have h0': "f64_ne (Fin 2) defaultSpeed"
    by (simp add: defaultSpeed_def f64_ne_def)
  have h: "main okWorld deepgramFlags [''Hi'']
     = (fst (main okWorld (deepgramFlags\<lparr>fl_speed := defaultSpeed\<rparr>) [''Hi'']),
        Fprintln ''Warning: Speed adjustment is not supported for Deepgram, ignoring''
          # snd (main okWorld (deepgramFlags\<lparr>fl_speed := defaultSpeed\<rparr>) [''Hi'']))"
    using speed_validation [OF dg, THEN conjunct2, THEN conjunct2, THEN conjunct2,
        THEN conjunct2, THEN conjunct1, of "[''Hi'']"] h0'
    by blast
  have i: "fst (main okWorld deepgramFlags [''Hi'']) = Exit 0"
    by code_simp
  have j: "HttpPost \<lparr>req_method = ''POST'',
               req_url = ''https://api.deepgram.com/v1/speak?model=aura-luna-en&encoding=mp3'',
               req_headers = [(''Content-Type'', ''application/json''),
                              (''Authorization'', ''Token dg-test'')],
               req_body = JObject [(''text'', JString ''Hi'')]\<rparr>
        \<in> set (snd (main okWorld deepgramFlags [''Hi'']))"
    by code_simp
  have "\<exists>t. req_body \<lparr>req_method = ''POST'',
               req_url = ''https://api.deepgram.com/v1/speak?model=aura-luna-en&encoding=mp3'',
               req_headers = [(''Content-Type'', ''application/json''),
                              (''Authorization'', ''Token dg-test'')],
               req_body = JObject [(''text'', JString ''Hi'')]\<rparr>
            = JObject [(''text'', JString t)]"
    using speed_validation [OF dg, THEN conjunct2, THEN conjunct2, THEN conjunct2,
        THEN conjunct2, THEN conjunct1, of "[''Hi'']"] h0' j
    by blast
  have l: "main okWorld (tokenFlags\<lparr>fl_provider := ''elevenlabs'', fl_speed := Fin float64_1_2\<rparr>) [''Hi'']
     = run okWorld (tokenFlags\<lparr>fl_provider := ''elevenlabs'', fl_speed := Fin float64_1_2\<rparr>) []
         ''elevenlabs'' ''sk-test''
         (defaultModel ''elevenlabs''
            (fl_model (tokenFlags\<lparr>fl_provider := ''elevenlabs'', fl_speed := Fin float64_1_2\<rparr>)))
         (defaultVoice ''elevenlabs''
            (fl_voice (tokenFlags\<lparr>fl_provider := ''elevenlabs'', fl_speed := Fin float64_1_2\<rparr>)))
         ''Hi''"
    using speed_validation [OF el(1,2,3) oa(4) el(4), THEN conjunct2, THEN conjunct2,
        THEN conjunct2, THEN conjunct1, of "Fin float64_1_2" float64_1_2 "[''Hi'']" "''Hi''"] tx
    by (simp add: float64_literals less_imp_le)
  show ?thesis
    using a b c d tx e f g h0 h i j l by (simp only: simp_thms)
qed

text \<open>
  NaN is neither inside an interval nor below or above it: both comparisons of the check
  are false, so the check lets it pass, and \<^verbatim>\<open>json.Marshal\<close> refuses it when the
  request is built.
\<close>

lemma speed_NaN:
  "validateSpeed ''openai'' NaN = Inr [] \<and> validateSpeed ''elevenlabs'' NaN = Inr []
   \<and> fst (synthesizeOpenAI w tr k m v t NaN)
       = Inl (Errorf ''failed to marshal request: %w'' [E (External ''json: unsupported value'')])"
  by (simp add: validateSpeed_def f64_gt_def synthesizeOpenAI_def marshalOpenAI_def)

subsection \<open>C3: voice resolution\<close>

text \<open>
  Claim C3, as amended. For ElevenLabs and for Deepgram, a voice whose lower-case form
  (what \<^verbatim>\<open>strings.ToLower\<close> returns for it) is a name of the provider's preset table
  resolves to the identifier the table gives for that name, so two voices with the same
  lower-case form resolve alike and the lookup does not depend on case; a voice whose
  lower-case form is not in the table resolves to itself. The switch on the provider sends
  the resolved voice to the synthesis function. For OpenAI there is no lookup: a voice that
  is literally one of the preset names is passed on as it is. All of this holds whatever
  function the world has for \<^verbatim>\<open>strings.ToLower\<close>, so it holds for the function of the
  library, on ASCII and on every other string.
\<close>

theorem voice_resolution:
  "((name1, ident1) \<in> set elevenLabsVoices \<and> strings_ToLower w v1 = name1
      \<longrightarrow> resolveElevenLabsVoice w v1 = ident1)
   \<and> (strings_ToLower w v2 \<notin> fst ` set elevenLabsVoices \<longrightarrow> resolveElevenLabsVoice w v2 = v2)
   \<and> ((name3, ident3) \<in> set deepgramVoices \<and> strings_ToLower w v3 = name3
      \<longrightarrow> resolveDeepgramVoice w v3 = ident3)
   \<and> (strings_ToLower w v4 \<notin> fst ` set deepgramVoices \<longrightarrow> resolveDeepgramVoice w v4 = v4)
   \<and> dispatch w tr ''elevenlabs'' k m v5 text s st si
        = Inr (synthesizeElevenLabs w tr k m (resolveElevenLabsVoice w v5) text s st si)
   \<and> dispatch w tr ''deepgram'' k m v5 text s st si
        = Inr (synthesizeDeepgram w tr k (resolveDeepgramVoice w v5) text)
   \<and> (v6 \<in> set openAIVoices
      \<longrightarrow> dispatch w tr ''openai'' k m v6 text s st si
            = Inr (synthesizeOpenAI w tr k m v6 text s))
   \<and> (strings_ToLower w v7 = strings_ToLower w v8
        \<and> strings_ToLower w v7 \<in> fst ` set elevenLabsVoices
      \<longrightarrow> resolveElevenLabsVoice w v7 = resolveElevenLabsVoice w v8)
   \<and> (strings_ToLower w v7 = strings_ToLower w v8
        \<and> strings_ToLower w v7 \<in> fst ` set deepgramVoices
      \<longrightarrow> resolveDeepgramVoice w v7 = resolveDeepgramVoice w v8)"
proof -
  have a: "resolveElevenLabsVoice w v1 = ident1"
    if "(name1, ident1) \<in> set elevenLabsVoices" "strings_ToLower w v1 = name1"
    using map_of_is_SomeI [OF elevenLabsVoices_distinct that(1)] that(2)
    by (simp add: resolveElevenLabsVoice_def)
  have b: "resolveElevenLabsVoice w v2 = v2"
    if "strings_ToLower w v2 \<notin> fst ` set elevenLabsVoices"
    using that by (simp add: resolveElevenLabsVoice_def map_of_eq_None_iff [THEN iffD2])
  have c: "resolveDeepgramVoice w v3 = ident3"
    if "(name3, ident3) \<in> set deepgramVoices" "strings_ToLower w v3 = name3"
    using map_of_is_SomeI [OF deepgramVoices_distinct that(1)] that(2)
    by (simp add: resolveDeepgramVoice_def)
  have d: "resolveDeepgramVoice w v4 = v4"
    if "strings_ToLower w v4 \<notin> fst ` set deepgramVoices"
    using that by (simp add: resolveDeepgramVoice_def map_of_eq_None_iff [THEN iffD2])
  have e: "resolveElevenLabsVoice w v7 = resolveElevenLabsVoice w v8"
    if "strings_ToLower w v7 = strings_ToLower w v8"
       "strings_ToLower w v7 \<in> fst ` set elevenLabsVoices"
    using that
    by (cases "map_of elevenLabsVoices (strings_ToLower w v8)")
      (simp_all add: resolveElevenLabsVoice_def map_of_eq_None_iff)
  have f: "resolveDeepgramVoice w v7 = resolveDeepgramVoice w v8"
    if "strings_ToLower w v7 = strings_ToLower w v8"
       "strings_ToLower w v7 \<in> fst ` set deepgramVoices"
    using that
    by (cases "map_of deepgramVoices (strings_ToLower w v8)")
      (simp_all add: resolveDeepgramVoice_def map_of_eq_None_iff)
  have g: "dispatch w tr ''elevenlabs'' k m v5 text s st si
        = Inr (synthesizeElevenLabs w tr k m (resolveElevenLabsVoice w v5) text s st si)"
    "dispatch w tr ''deepgram'' k m v5 text s st si
        = Inr (synthesizeDeepgram w tr k (resolveDeepgramVoice w v5) text)"
    "v6 \<in> set openAIVoices
      \<Longrightarrow> dispatch w tr ''openai'' k m v6 text s st si
            = Inr (synthesizeOpenAI w tr k m v6 text s)"
    by (simp_all add: dispatch_def isValidOpenAIVoice_def)
  show ?thesis
    using a b c d e f g by blast
qed

text \<open>
  The theorem in a world with the lower-casing of ASCII, at \<open>Rachel\<close> and an unknown name
  for ElevenLabs, at \<open>THALIA\<close> and a full model name for Deepgram, at \<open>nova\<close> for OpenAI,
  and at \<open>DOMI\<close> and \<open>Domi\<close>; and in a world that lower-cases U+0130, at \<open>DOM\<close>
  followed by that letter.
\<close>

theorem voice_resolution_witness:
  "(''rachel'', ''21m00Tcm4TlvDq8ikWAM'') \<in> set elevenLabsVoices
   \<and> strings_ToLower okWorld ''Rachel'' = ''rachel''
   \<and> resolveElevenLabsVoice okWorld ''Rachel'' = ''21m00Tcm4TlvDq8ikWAM''
   \<and> strings_ToLower okWorld ''nonexistent-preset'' \<notin> fst ` set elevenLabsVoices
   \<and> resolveElevenLabsVoice okWorld ''nonexistent-preset'' = ''nonexistent-preset''
   \<and> (''thalia'', ''aura-2-thalia-en'') \<in> set deepgramVoices
   \<and> strings_ToLower okWorld ''THALIA'' = ''thalia''
   \<and> resolveDeepgramVoice okWorld ''THALIA'' = ''aura-2-thalia-en''
   \<and> strings_ToLower okWorld ''aura-asteria-en'' \<notin> fst ` set deepgramVoices
   \<and> resolveDeepgramVoice okWorld ''aura-asteria-en'' = ''aura-asteria-en''
   \<and> ''nova'' \<in> set openAIVoices
   \<and> dispatch okWorld [] ''openai'' ''sk-test'' ''tts-1'' ''nova'' ''Hi'' (Fin 1) (Fin 0.5) (Fin 0.75)
        = Inr (synthesizeOpenAI okWorld [] ''sk-test'' ''tts-1'' ''nova'' ''Hi'' (Fin 1))
   \<and> strings_ToLower okWorld ''DOMI'' = strings_ToLower okWorld ''Domi''
   \<and> strings_ToLower okWorld ''DOMI'' \<in> fst ` set elevenLabsVoices
   \<and> resolveElevenLabsVoice okWorld ''DOMI'' = resolveElevenLabsVoice okWorld ''Domi''
   \<and> (''domi'', ''AZnzlk1XvdvUeBnXmlld'') \<in> set elevenLabsVoices
   \<and> strings_ToLower dottedWorld (''DOM'' @ [CHR 0xC4, CHR 0xB0]) = ''domi''
   \<and> resolveElevenLabsVoice dottedWorld (''DOM'' @ [CHR 0xC4, CHR 0xB0]) = ''AZnzlk1XvdvUeBnXmlld''"
proof -
  have h1: "(''rachel'', ''21m00Tcm4TlvDq8ikWAM'') \<in> set elevenLabsVoices"
    by (simp add: elevenLabsVoices_def)
  have h2: "strings_ToLower okWorld ''Rachel'' = ''rachel''"
    by (simp add: example_strings asciiToLower_def asciiLowerChar_def)
  have h3: "strings_ToLower okWorld ''nonexistent-preset'' \<notin> fst ` set elevenLabsVoices"
    by (simp add: example_strings asciiToLower_def asciiLowerChar_def elevenLabsVoices_def)
  have h4: "(''thalia'', ''aura-2-thalia-en'') \<in> set deepgramVoices"
    by (simp add: deepgramVoices_def)
  have h5: "strings_ToLower okWorld ''THALIA'' = ''thalia''"
    by (simp add: example_strings asciiToLower_def asciiLowerChar_def)
  have h6: "strings_ToLower okWorld ''aura-asteria-en'' \<notin> fst ` set deepgramVoices"
    by (simp add: example_strings asciiToLower_def asciiLowerChar_def deepgramVoices_def)
  have h7: "''nova'' \<in> set openAIVoices"
    by (simp add: openAIVoices_def)
  have h8: "strings_ToLower okWorld ''DOMI'' = strings_ToLower okWorld ''Domi''"
    by (simp add: example_strings asciiToLower_def asciiLowerChar_def)
  have h9: "strings_ToLower okWorld ''DOMI'' \<in> fst ` set elevenLabsVoices"
    by (simp add: example_strings asciiToLower_def asciiLowerChar_def elevenLabsVoices_def)
  note t = voice_resolution [of "''rachel''" "''21m00Tcm4TlvDq8ikWAM''" okWorld "''Rachel''"
        "''nonexistent-preset''" "''thalia''" "''aura-2-thalia-en''" "''THALIA''"
        "''aura-asteria-en''" "[]" "''sk-test''" "''tts-1''" "''nova''" "''Hi''" "Fin 1"
        "Fin 0.5" "Fin 0.75" "''nova''" "''DOMI''" "''Domi''"]
  have a: "resolveElevenLabsVoice okWorld ''Rachel'' = ''21m00Tcm4TlvDq8ikWAM''"
    using t [THEN conjunct1] h1 h2 by blast
  have b: "resolveElevenLabsVoice okWorld ''nonexistent-preset'' = ''nonexistent-preset''"
    using t [THEN conjunct2, THEN conjunct1] h3 by blast
  have c: "resolveDeepgramVoice okWorld ''THALIA'' = ''aura-2-thalia-en''"
    using t [THEN conjunct2, THEN conjunct2, THEN conjunct1] h4 h5 by blast
  have d: "resolveDeepgramVoice okWorld ''aura-asteria-en'' = ''aura-asteria-en''"
    using t [THEN conjunct2, THEN conjunct2, THEN conjunct2, THEN conjunct1] h6 by blast
  have e: "dispatch okWorld [] ''openai'' ''sk-test'' ''tts-1'' ''nova'' ''Hi'' (Fin 1) (Fin 0.5)
             (Fin 0.75)
        = Inr (synthesizeOpenAI okWorld [] ''sk-test'' ''tts-1'' ''nova'' ''Hi'' (Fin 1))"
    using t [THEN conjunct2, THEN conjunct2, THEN conjunct2, THEN conjunct2, THEN conjunct2,
        THEN conjunct2, THEN conjunct1] h7 by blast
  have f: "resolveElevenLabsVoice okWorld ''DOMI'' = resolveElevenLabsVoice okWorld ''Domi''"
    using t [THEN conjunct2, THEN conjunct2, THEN conjunct2, THEN conjunct2, THEN conjunct2,
        THEN conjunct2, THEN conjunct2, THEN conjunct1] h8 h9 by blast
  have i1: "(''domi'', ''AZnzlk1XvdvUeBnXmlld'') \<in> set elevenLabsVoices"
    by (simp add: elevenLabsVoices_def)
  have i2: "strings_ToLower dottedWorld (''DOM'' @ [CHR 0xC4, CHR 0xB0]) = ''domi''"
    by (simp add: dottedWorld_def)
  have i: "resolveElevenLabsVoice dottedWorld (''DOM'' @ [CHR 0xC4, CHR 0xB0])
             = ''AZnzlk1XvdvUeBnXmlld''"
    using voice_resolution [of "''domi''" "''AZnzlk1XvdvUeBnXmlld''" dottedWorld
        "''DOM'' @ [CHR 0xC4, CHR 0xB0]", THEN conjunct1] i1 i2
    by blast
  show ?thesis
    using h1 h2 a h3 b h4 h5 c h6 d h7 e h8 h9 f i1 i2 i by (simp only: simp_thms)
qed

text \<open>
  The claim as it is written speaks of every provider. For OpenAI the lookup is not
  case-insensitive: \<open>ALLOY\<close> is a preset name in capitals, and the run stops with the
  message for an invalid voice.
\<close>

theorem voice_resolution_counterexample:
  "strings_ToLower okWorld ''ALLOY'' = ''alloy'' \<and> ''alloy'' \<in> set openAIVoices
   \<and> \<not> isValidOpenAIVoice ''ALLOY''
   \<and> main okWorld shoutFlags [''Hi'']
       = (Exit 1, [Fprintf ''Error: Invalid OpenAI voice '%s'. Valid voices: %s\<newline>''
                     [S ''ALLOY'', S ''alloy, echo, fable, onyx, nova, shimmer'']])"
  by code_simp

subsection \<open>C4: only OpenAI checks the voice\<close>

text \<open>
  Claim C4. In a run for one utterance (no \<^verbatim>\<open>--help\<close>, no \<^verbatim>\<open>--all\<close>) with OpenAI,
  a voice that has been given and is not one of the preset names makes the run fail: it
  never ends with exit status 0, no synthesis function is entered and no request is made;
  when credential, speed and text pass their checks, the run prints the message for an
  invalid OpenAI voice and exits with status 1. (An empty voice flag stands for the
  default voice, which is a preset name.) With ElevenLabs and with Deepgram no voice is
  refused: whatever the voice flag holds, once credential, speed and text pass their
  checks the synthesis function is entered with the resolved voice. For Deepgram the
  request with that voice is always made; for ElevenLabs it is made whenever speed,
  stability and similarity are finite numbers, so that the body can be built.
\<close>

theorem voice_validation:
  assumes "\<not> fl_help fl" and "\<not> fl_all fl" and "p = strings_ToLower w (fl_provider fl)"
    and "v = defaultVoice p (fl_voice fl)" and "m = defaultModel p (fl_model fl)"
  shows "(p = ''openai'' \<and> fl_voice fl \<noteq> '''' \<and> fl_voice fl \<notin> set openAIVoices
          \<longrightarrow> (fst (main w fl args) = Exit 1 \<or> fst (main w fl args) = Panic)
              \<and> filter isNet (snd (main w fl args)) = []
              \<and> (getAPIKey w p (fl_token fl) \<noteq> ''''
                  \<and> validateSpeed p (fl_speed fl) = Inr msgs
                  \<and> getText w args = Inr text \<and> text \<noteq> ''''
                  \<longrightarrow> main w fl args
                        = (Exit 1,
                           msgs @ [Fprintf ''Error: Invalid OpenAI voice '%s'. Valid voices: %s\<newline>''
                                     [S (fl_voice fl), S (join '', '' openAIVoices)]])))
    \<and> (p = ''elevenlabs'' \<and> getAPIKey w p (fl_token fl) = k \<and> k \<noteq> ''''
        \<and> validateSpeed p (fl_speed fl) = Inr msgs
        \<and> getText w args = Inr text \<and> text \<noteq> ''''
          \<longrightarrow> (\<exists>evs. snd (main w fl args)
                        = msgs @ Call_synthesizeElevenLabs k m (resolveElevenLabsVoice w v) text
                                   (fl_speed fl) (fl_stability fl) (fl_similarityBoost fl) # evs)
              \<and> (fl_speed fl = Fin a \<and> fl_stability fl = Fin b \<and> fl_similarityBoost fl = Fin c
                  \<longrightarrow> (\<exists>body evs. snd (main w fl args)
                        = msgs @ [Call_synthesizeElevenLabs k m (resolveElevenLabsVoice w v) text
                                    (Fin a) (Fin b) (Fin c),
                                  HttpPost \<lparr>req_method = ''POST'',
                                     req_url = elevenLabsAPIURL @ ''/'' @ resolveElevenLabsVoice w v
                                                 @ ''?output_format=mp3_44100_128'',
                                     req_headers = [(''Content-Type'', ''application/json''),
                                                    (''xi-api-key'', k)],
                                     req_body = body\<rparr>] @ evs)))
    \<and> (p = ''deepgram'' \<and> getAPIKey w p (fl_token fl) = k \<and> k \<noteq> ''''
        \<and> validateSpeed p (fl_speed fl) = Inr msgs
        \<and> getText w args = Inr text \<and> text \<noteq> ''''
          \<longrightarrow> (\<exists>evs. snd (main w fl args)
                        = msgs @ [Call_synthesizeDeepgram k (resolveDeepgramVoice w v) text,
                                  HttpPost \<lparr>req_method = ''POST'',
                                     req_url = deepgramAPIURL @ ''?model=''
                                                 @ resolveDeepgramVoice w v @ ''&encoding=mp3'',
                                     req_headers = [(''Content-Type'', ''application/json''),
                                                    (''Authorization'', ''Token '' @ k)],
                                     req_body = JObject [(''text'', JString text)]\<rparr>] @ evs))"
proof -
  let ?bad = "Fprintf ''Error: Invalid OpenAI voice '%s'. Valid voices: %s\<newline>''
                [S (fl_voice fl), S (join '', '' openAIVoices)]"
  have once: "main w fl args
                = speakOnce w msgs' p k' m v t (fl_speed fl) (fl_stability fl)
                    (fl_similarityBoost fl) (fl_output fl) (fl_speak fl)"
    if "p = ''openai'' \<or> p = ''elevenlabs'' \<or> p = ''deepgram''"
       "getAPIKey w p (fl_token fl) = k'" "k' \<noteq> ''''"
       "validateSpeed p (fl_speed fl) = Inr msgs'" "getText w args = Inr t" "t \<noteq> ''''"
    for msgs' k' t
    using main_run [OF assms(1) assms(3) [symmetric] that] assms(2,4,5) by (simp add: run_def)
  have oa1: "(fst (main w fl args) = Exit 1 \<or> fst (main w fl args) = Panic)
              \<and> filter isNet (snd (main w fl args)) = []"
    if h: "p = ''openai''" "fl_voice fl \<noteq> ''''" "fl_voice fl \<notin> set openAIVoices"
  proof (cases rule: main_cases [of fl w args])
    case c_help
    then show ?thesis using assms(1) by simp
  next
    case (c_provider q)
    then show ?thesis by (simp add: isNet_def)
  next
    case (c_key q)
    then show ?thesis by (simp add: isNet_def)
  next
    case (c_speed q msg)
    then show ?thesis
      using validateSpeed_InlD [of q "fl_speed fl" msg] by (auto simp add: isNet_def)
  next
    case (c_input q msgs' st evs)
    then show ?thesis
      using validateSpeed_Inr_msgs [of q "fl_speed fl" msgs'] getText_InlD [of w args st evs]
      by (auto simp add: isNet_def)
  next
    case (c_no_text q msgs')
    then show ?thesis
      using validateSpeed_Inr_msgs [of q "fl_speed fl" msgs'] by (auto simp add: isNet_def)
  next
    case (c_run q msgs' t)
    have q: "q = ''openai''" using c_run(2) assms(3) h(1) by simp
    have "main w fl args = (Exit 1, msgs' @ [?bad])"
      using c_run(8) assms(2) q h(2,3)
      by (simp add: run_def speakOnce_def dispatch_def isValidOpenAIVoice_def defaultVoice_def)
    then show ?thesis
      using validateSpeed_Inr_msgs [of q "fl_speed fl" msgs'] c_run(5)
      by (auto simp add: isNet_def)
  qed
  have oa2: "main w fl args = (Exit 1, msgs @ [?bad])"
    if h: "p = ''openai''" "fl_voice fl \<noteq> ''''" "fl_voice fl \<notin> set openAIVoices"
      "getAPIKey w p (fl_token fl) \<noteq> ''''" "validateSpeed p (fl_speed fl) = Inr msgs"
      "getText w args = Inr text" "text \<noteq> ''''"
    using once [OF _ refl h(4,5,6,7)] h(1,2,3) assms(4)
    by (simp add: speakOnce_def dispatch_def isValidOpenAIVoice_def defaultVoice_def)
  have el1: "\<exists>evs. snd (main w fl args)
                        = msgs @ Call_synthesizeElevenLabs k m (resolveElevenLabsVoice w v) text
                                   (fl_speed fl) (fl_stability fl) (fl_similarityBoost fl) # evs"
    if h: "p = ''elevenlabs''" "getAPIKey w p (fl_token fl) = k" "k \<noteq> ''''"
      "validateSpeed p (fl_speed fl) = Inr msgs" "getText w args = Inr text" "text \<noteq> ''''"
  proof -
    let ?call = "Call_synthesizeElevenLabs k m (resolveElevenLabsVoice w v) text
                   (fl_speed fl) (fl_stability fl) (fl_similarityBoost fl)"
    obtain r tr1 where s: "synthesizeElevenLabs w msgs k m (resolveElevenLabsVoice w v) text
                   (fl_speed fl) (fl_stability fl) (fl_similarityBoost fl) = (r, tr1)"
      by (metis prod.collapse)
    then have d: "dispatch w msgs p k m v text (fl_speed fl) (fl_stability fl)
                    (fl_similarityBoost fl) = Inr (r, tr1)"
      using h(1) by (simp add: dispatch_def)
    obtain evs where e: "snd (speakOnce w msgs p k m v text (fl_speed fl) (fl_stability fl)
                    (fl_similarityBoost fl) (fl_output fl) (fl_speak fl)) = tr1 @ evs"
      using speakOnce_extends [OF d] by blast
    have "tr1 = msgs @ [?call] \<or> (\<exists>q. tr1 = msgs @ [?call, HttpPost q])"
      using synthesizeElevenLabs_traceD [OF s] .
    then have "\<exists>evs'. tr1 @ evs = msgs @ ?call # evs'" by auto
    then show ?thesis
      using once [OF _ h(2,3,4,5,6)] h(1) e by simp
  qed
  have el2: "\<exists>body evs. snd (main w fl args)
                        = msgs @ [Call_synthesizeElevenLabs k m (resolveElevenLabsVoice w v) text
                                    (Fin a) (Fin b) (Fin c),
                                  HttpPost \<lparr>req_method = ''POST'',
                                     req_url = elevenLabsAPIURL @ ''/'' @ resolveElevenLabsVoice w v
                                                 @ ''?output_format=mp3_44100_128'',
                                     req_headers = [(''Content-Type'', ''application/json''),
                                                    (''xi-api-key'', k)],
                                     req_body = body\<rparr>] @ evs"
    if h: "p = ''elevenlabs''" "getAPIKey w p (fl_token fl) = k" "k \<noteq> ''''"
      "validateSpeed p (fl_speed fl) = Inr msgs" "getText w args = Inr text" "text \<noteq> ''''"
      "fl_speed fl = Fin a" "fl_stability fl = Fin b" "fl_similarityBoost fl = Fin c"
  proof -
    obtain body where b: "snd (synthesizeElevenLabs w msgs k m (resolveElevenLabsVoice w v) text
                                 (Fin a) (Fin b) (Fin c))
         = msgs @ [Call_synthesizeElevenLabs k m (resolveElevenLabsVoice w v) text
                     (Fin a) (Fin b) (Fin c),
                   HttpPost \<lparr>req_method = ''POST'',
                       req_url = elevenLabsAPIURL @ ''/'' @ resolveElevenLabsVoice w v
                                   @ ''?output_format=mp3_44100_128'',
                       req_headers = [(''Content-Type'', ''application/json''),
                                      (''xi-api-key'', k)],
                       req_body = body\<rparr>]"
      using synthesizeElevenLabs_request by blast
    obtain r tr1 where s: "synthesizeElevenLabs w msgs k m (resolveElevenLabsVoice w v) text
                   (Fin a) (Fin b) (Fin c) = (r, tr1)"
      by (metis prod.collapse)
    then have d: "dispatch w msgs p k m v text (fl_speed fl) (fl_stability fl)
                    (fl_similarityBoost fl) = Inr (r, tr1)"
      using h(1,7,8,9) by (simp add: dispatch_def)
    obtain evs where e: "snd (speakOnce w msgs p k m v text (fl_speed fl) (fl_stability fl)
                    (fl_similarityBoost fl) (fl_output fl) (fl_speak fl)) = tr1 @ evs"
      using speakOnce_extends [OF d] by blast
    have "snd (main w fl args) = tr1 @ evs"
      using once [OF _ h(2,3,4,5,6)] h(1) e by simp
    then show ?thesis
      using b s by auto
  qed
  have dg: "\<exists>evs. snd (main w fl args)
                        = msgs @ [Call_synthesizeDeepgram k (resolveDeepgramVoice w v) text,
                                  HttpPost \<lparr>req_method = ''POST'',
                                     req_url = deepgramAPIURL @ ''?model=''
                                                 @ resolveDeepgramVoice w v @ ''&encoding=mp3'',
                                     req_headers = [(''Content-Type'', ''application/json''),
                                                    (''Authorization'', ''Token '' @ k)],
                                     req_body = JObject [(''text'', JString text)]\<rparr>] @ evs"
    if h: "p = ''deepgram''" "getAPIKey w p (fl_token fl) = k" "k \<noteq> ''''"
      "validateSpeed p (fl_speed fl) = Inr msgs" "getText w args = Inr text" "text \<noteq> ''''"
  proof -
    obtain r tr1 where s: "synthesizeDeepgram w msgs k (resolveDeepgramVoice w v) text = (r, tr1)"
      by (metis prod.collapse)
    then have d: "dispatch w msgs p k m v text (fl_speed fl) (fl_stability fl)
                    (fl_similarityBoost fl) = Inr (r, tr1)"
      using h(1) by (simp add: dispatch_def)
    obtain evs where e: "snd (speakOnce w msgs p k m v text (fl_speed fl) (fl_stability fl)
                    (fl_similarityBoost fl) (fl_output fl) (fl_speak fl)) = tr1 @ evs"
      using speakOnce_extends [OF d] by blast
    have "snd (main w fl args) = tr1 @ evs"
      using once [OF _ h(2,3,4,5,6)] h(1) e by simp
    then show ?thesis
      using synthesizeDeepgram_traceD [OF s] by auto
  qed
  have c1: "p = ''openai'' \<and> fl_voice fl \<noteq> '''' \<and> fl_voice fl \<notin> set openAIVoices
          \<longrightarrow> (fst (main w fl args) = Exit 1 \<or> fst (main w fl args) = Panic)
              \<and> filter isNet (snd (main w fl args)) = []
              \<and> (getAPIKey w p (fl_token fl) \<noteq> ''''
                  \<and> validateSpeed p (fl_speed fl) = Inr msgs
                  \<and> getText w args = Inr text \<and> text \<noteq> ''''
                  \<longrightarrow> main w fl args = (Exit 1, msgs @ [?bad]))"
    using oa1 oa2 by blast
  have c2: "p = ''elevenlabs'' \<and> getAPIKey w p (fl_token fl) = k \<and> k \<noteq> ''''
        \<and> validateSpeed p (fl_speed fl) = Inr msgs
        \<and> getText w args = Inr text \<and> text \<noteq> ''''
          \<longrightarrow> (\<exists>evs. snd (main w fl args)
                        = msgs @ Call_synthesizeElevenLabs k m (resolveElevenLabsVoice w v) text
                                   (fl_speed fl) (fl_stability fl) (fl_similarityBoost fl) # evs)
              \<and> (fl_speed fl = Fin a \<and> fl_stability fl = Fin b \<and> fl_similarityBoost fl = Fin c
                  \<longrightarrow> (\<exists>body evs. snd (main w fl args)
                        = msgs @ [Call_synthesizeElevenLabs k m (resolveElevenLabsVoice w v) text
                                    (Fin a) (Fin b) (Fin c),
                                  HttpPost \<lparr>req_method = ''POST'',
                                     req_url = elevenLabsAPIURL @ ''/'' @ resolveElevenLabsVoice w v
                                                 @ ''?output_format=mp3_44100_128'',
                                     req_headers = [(''Content-Type'', ''application/json''),
                                                    (''xi-api-key'', k)],
                                     req_body = body\<rparr>] @ evs))"
    using el1 el2 by blast
  have c3: "p = ''deepgram'' \<and> getAPIKey w p (fl_token fl) = k \<and> k \<noteq> ''''
        \<and> validateSpeed p (fl_speed fl) = Inr msgs
        \<and> getText w args = Inr text \<and> text \<noteq> ''''
          \<longrightarrow> (\<exists>evs. snd (main w fl args)
                        = msgs @ [Call_synthesizeDeepgram k (resolveDeepgramVoice w v) text,
                                  HttpPost \<lparr>req_method = ''POST'',
                                     req_url = deepgramAPIURL @ ''?model=''
                                                 @ resolveDeepgramVoice w v @ ''&encoding=mp3'',
                                     req_headers = [(''Content-Type'', ''application/json''),
                                                    (''Authorization'', ''Token '' @ k)],
                                     req_body = JObject [(''text'', JString text)]\<rparr>] @ evs)"
    using dg by blast
  show ?thesis
    by (rule conjI [OF c1 conjI [OF c2 c3]])
qed

text \<open>
  The theorem at the voice \<open>nonexistent-preset\<close> for each provider: OpenAI refuses it,
  ElevenLabs and Deepgram put it into the URL of the request.
\<close>

theorem voice_validation_witness:
  "\<not> fl_help (customVoiceFlags ''openai'') \<and> \<not> fl_all (customVoiceFlags ''openai'')
   \<and> fl_voice (customVoiceFlags ''openai'') \<notin> set openAIVoices
   \<and> main okWorld (customVoiceFlags ''openai'') [''Hi'']
       = (Exit 1, [Fprintf ''Error: Invalid OpenAI voice '%s'. Valid voices: %s\<newline>''
                     [S ''nonexistent-preset'', S ''alloy, echo, fable, onyx, nova, shimmer'']])
   \<and> filter isNet (snd (main okWorld (customVoiceFlags ''openai'') [''Hi''])) = []
   \<and> take 1 (snd (main okWorld (customVoiceFlags ''elevenlabs'') [''Hi'']))
       = [Call_synthesizeElevenLabs ''sk-test'' ''eleven_multilingual_v2'' ''nonexistent-preset''
            ''Hi'' (Fin 1) (Fin 0.5) (Fin 0.75)]
   \<and> (case snd (main okWorld (customVoiceFlags ''elevenlabs'') [''Hi'']) ! 1 of
         HttpPost r \<Rightarrow> req_url r
       | _ \<Rightarrow> '''')
       = ''https://api.elevenlabs.io/v1/text-to-speech/nonexistent-preset?output_format=mp3_44100_128''
   \<and> take 2 (snd (main okWorld (customVoiceFlags ''deepgram'') [''Hi'']))
       = [Call_synthesizeDeepgram ''sk-test'' ''nonexistent-preset'' ''Hi'',
          HttpPost \<lparr>req_method = ''POST'',
             req_url = ''https://api.deepgram.com/v1/speak?model=nonexistent-preset&encoding=mp3'',
             req_headers = [(''Content-Type'', ''application/json''),
                            (''Authorization'', ''Token sk-test'')],
             req_body = JObject [(''text'', JString ''Hi'')]\<rparr>]"
proof -
  have lo: "strings_ToLower okWorld ''openai'' = ''openai''"
    "strings_ToLower okWorld ''elevenlabs'' = ''elevenlabs''"
    "strings_ToLower okWorld ''deepgram'' = ''deepgram''"
    by (simp_all add: example_strings asciiToLower_providers)
  have low: "strings_ToLower okWorld ''nonexistent-preset'' = ''nonexistent-preset''"
    by (simp add: example_strings asciiToLower_def asciiLowerChar_def)
  have fl: "\<not> fl_help (customVoiceFlags q)" "\<not> fl_all (customVoiceFlags q)"
    "fl_provider (customVoiceFlags q) = q" "fl_voice (customVoiceFlags q) = ''nonexistent-preset''"
    "fl_token (customVoiceFlags q) = ''sk-test''" "fl_speed (customVoiceFlags q) = Fin 1"
    "fl_stability (customVoiceFlags q) = Fin 0.5"
    "fl_similarityBoost (customVoiceFlags q) = Fin 0.75"
    "fl_model (customVoiceFlags q) = ''''" for q
    by (simp_all add: customVoiceFlags_def tokenFlags_def defaultFlags_def defaultSpeed_def)
  have key: "getAPIKey okWorld q ''sk-test'' = ''sk-test''" "''sk-test'' \<noteq> ''''" for q
    by (simp_all add: getAPIKey_def)
  have sp: "validateSpeed ''openai'' (Fin 1) = Inr []" "validateSpeed ''elevenlabs'' (Fin 1) = Inr []"
    "validateSpeed ''deepgram'' (Fin 1) = Inr []"
    by (simp_all add: validateSpeed_def f64_gt_def f64_ne_def defaultSpeed_def
          float64_literals not_less less_imp_le)
  have tx: "getText okWorld [''Hi''] = Inr ''Hi''" "''Hi'' \<noteq> ''''"
    by (simp_all add: getText_def)
  have bad: "''nonexistent-preset'' \<notin> set openAIVoices" "''nonexistent-preset'' \<noteq> ''''"
    by (simp_all add: openAIVoices_def)
  have res: "resolveElevenLabsVoice okWorld ''nonexistent-preset'' = ''nonexistent-preset''"
    "resolveDeepgramVoice okWorld ''nonexistent-preset'' = ''nonexistent-preset''"
    by (simp_all add: resolveElevenLabsVoice_def resolveDeepgramVoice_def low
          elevenLabsVoices_def deepgramVoices_def)
  have dv: "defaultVoice q ''nonexistent-preset'' = ''nonexistent-preset''" for q
    by (simp add: defaultVoice_def)
  have dm: "defaultModel ''elevenlabs'' '''' = ''eleven_multilingual_v2''"
    by (simp add: defaultModel_def defaultElevenLabsModel_def)
  have jn: "join '', '' openAIVoices = ''alloy, echo, fable, onyx, nova, shimmer''"
    by (simp add: openAIVoices_def)
  have oa: "main okWorld (customVoiceFlags ''openai'') [''Hi'']
       = (Exit 1, [Fprintf ''Error: Invalid OpenAI voice '%s'. Valid voices: %s\<newline>''
                     [S ''nonexistent-preset'', S ''alloy, echo, fable, onyx, nova, shimmer'']])
     \<and> filter isNet (snd (main okWorld (customVoiceFlags ''openai'') [''Hi''])) = []"
    using voice_validation [of "customVoiceFlags ''openai''" _ okWorld _ _ "[''Hi'']" "[]"
        "''Hi''", OF fl(1) fl(2) refl refl refl, THEN conjunct1]
      bad key sp tx
    by (simp add: fl lo jn isNet_def)
  have el: "take 1 (snd (main okWorld (customVoiceFlags ''elevenlabs'') [''Hi'']))
       = [Call_synthesizeElevenLabs ''sk-test'' ''eleven_multilingual_v2'' ''nonexistent-preset''
            ''Hi'' (Fin 1) (Fin 0.5) (Fin 0.75)]
     \<and> (case snd (main okWorld (customVoiceFlags ''elevenlabs'') [''Hi'']) ! 1 of
         HttpPost r \<Rightarrow> req_url r
       | _ \<Rightarrow> '''')
       = ''https://api.elevenlabs.io/v1/text-to-speech/nonexistent-preset?output_format=mp3_44100_128''"
    using voice_validation [of "customVoiceFlags ''elevenlabs''" _ okWorld _ _ "[''Hi'']" "[]"
        "''Hi''" "''sk-test''" 1 "0.5" "0.75", OF fl(1) fl(2) refl refl refl,
        THEN conjunct2, THEN conjunct1]
      key sp tx
    by (auto simp add: fl lo res dv dm elevenLabsAPIURL_def)
  have dg: "take 2 (snd (main okWorld (customVoiceFlags ''deepgram'') [''Hi'']))
       = [Call_synthesizeDeepgram ''sk-test'' ''nonexistent-preset'' ''Hi'',
          HttpPost \<lparr>req_method = ''POST'',
             req_url = ''https://api.deepgram.com/v1/speak?model=nonexistent-preset&encoding=mp3'',
             req_headers = [(''Content-Type'', ''application/json''),
                            (''Authorization'', ''Token sk-test'')],
             req_body = JObject [(''text'', JString ''Hi'')]\<rparr>]"
    using voice_validation [of "customVoiceFlags ''deepgram''" _ okWorld _ _ "[''Hi'']" "[]"
        "''Hi''" "''sk-test''", OF fl(1) fl(2) refl refl refl, THEN conjunct2, THEN conjunct2]
      key sp tx
    by (auto simp add: fl lo res dv deepgramAPIURL_def)
  have b1: "fl_voice (customVoiceFlags ''openai'') \<notin> set openAIVoices"
    using bad(1) by (simp add: fl)
  show ?thesis
    by (rule conjI [OF fl(1) conjI [OF fl(2) conjI [OF b1 conjI [OF oa [THEN conjunct1]
          conjI [OF oa [THEN conjunct2] conjI [OF el [THEN conjunct1]
          conjI [OF el [THEN conjunct2] dg]]]]]]])
qed

subsection \<open>C5: writing and playing the audio\<close>



subsection \<open>C6: the credential\<close>

text \<open>
  Claim C6. When no token is given and the environment variable of the selected provider
  is unset or empty (\<^verbatim>\<open>os.Getenv\<close> returns the empty string in both cases), a run that
  does not ask for help ends with exit status 1, and all it has done is to print the
  message that names the variable of that provider: \<open>OPENAI_API_KEY\<close>,
  \<open>ELEVENLABS_API_KEY\<close> or \<open>DEEPGRAM_API_KEY\<close>, the variable that was read. A token that
  is given is the key, and the run is then the same whatever the environment holds.
\<close>

theorem missing_credential:
  assumes "\<not> fl_help fl" and "p = strings_ToLower w (fl_provider fl)"
    and "p = ''openai'' \<or> p = ''elevenlabs'' \<or> p = ''deepgram''"
  shows "(fl_token fl = '''' \<and> getenv w (envVars p) = ''''
          \<longrightarrow> main w fl args
                = (Exit 1, [Fprintf ''Error: %s environment variable not set and --token not provided\<newline>''
                              [S (envVars p)]]))
    \<and> envVars ''openai'' = ''OPENAI_API_KEY''
    \<and> envVars ''elevenlabs'' = ''ELEVENLABS_API_KEY''
    \<and> envVars ''deepgram'' = ''DEEPGRAM_API_KEY''
    \<and> (fl_token fl = '''' \<longrightarrow> getAPIKey w p (fl_token fl) = getenv w (envVars p))
    \<and> (fl_token fl \<noteq> '''' \<longrightarrow> getAPIKey w p (fl_token fl) = fl_token fl
                                 \<and> main (w\<lparr>getenv := g\<rparr>) fl args = main w fl args)"
proof -
  have a: "main w fl args
                = (Exit 1, [Fprintf ''Error: %s environment variable not set and --token not provided\<newline>''
                              [S (envVars p)]])"
    if "fl_token fl = ''''" "getenv w (envVars p) = ''''"
    using that assms getAPIKey_env [OF assms(3), of w]
    by (auto simp add: main_def Let_def)
  have b: "envVars ''openai'' = ''OPENAI_API_KEY''
    \<and> envVars ''elevenlabs'' = ''ELEVENLABS_API_KEY''
    \<and> envVars ''deepgram'' = ''DEEPGRAM_API_KEY''"
    by (simp add: envVars_def)
  have c: "getAPIKey w p (fl_token fl) = getenv w (envVars p)" if "fl_token fl = ''''"
    using that getAPIKey_env [OF assms(3), of w] by simp
  have d: "getAPIKey w p (fl_token fl) = fl_token fl" if "fl_token fl \<noteq> ''''"
    using that by (simp add: getAPIKey_def)
  have e: "main (w\<lparr>getenv := g\<rparr>) fl args = main w fl args" if "fl_token fl \<noteq> ''''"
    using that by (simp add: main_def getAPIKey_def run_getenv getText_getenv Let_def
          cong: prod.case_cong sum.case_cong if_cong)
  show ?thesis using a b c d e by simp
qed

text \<open>
  The theorem at the default flags in a world with an empty environment, and at a run with
  a token in a world whose environment holds another key.
\<close>

theorem missing_credential_witness:
  "\<not> fl_help defaultFlags \<and> strings_ToLower okWorld (fl_provider defaultFlags) = ''openai''
   \<and> fl_token defaultFlags = '''' \<and> getenv okWorld (envVars ''openai'') = ''''
   \<and> main okWorld defaultFlags [''Hi'']
       = (Exit 1, [Fprintf ''Error: %s environment variable not set and --token not provided\<newline>''
                     [S ''OPENAI_API_KEY'']])
   \<and> \<not> fl_help tokenFlags \<and> strings_ToLower okWorld (fl_provider tokenFlags) = ''openai''
   \<and> fl_token tokenFlags \<noteq> ''''
   \<and> getAPIKey envWorld ''openai'' (fl_token tokenFlags) = ''sk-test''
   \<and> main envWorld tokenFlags [''Hi''] = main okWorld tokenFlags [''Hi'']"
proof -
  have h1: "\<not> fl_help defaultFlags"
    and h2: "''openai'' = strings_ToLower okWorld (fl_provider defaultFlags)"
    and h3: "fl_token defaultFlags = ''''" and h4: "getenv okWorld (envVars ''openai'') = ''''"
    by (simp_all add: defaultFlags_def defaultProvider_def example_strings
          asciiToLower_providers envVars_def)
      (simp add: okWorld_def)
  have k1: "\<not> fl_help tokenFlags"
    and k2: "''openai'' = strings_ToLower okWorld (fl_provider tokenFlags)"
    and k2': "''openai'' = strings_ToLower envWorld (fl_provider tokenFlags)"
    and k3: "fl_token tokenFlags \<noteq> ''''" and k4: "fl_token tokenFlags = ''sk-test''"
    by (simp_all add: tokenFlags_def defaultFlags_def defaultProvider_def example_strings
          asciiToLower_providers)
  have e: "envWorld = okWorld\<lparr>getenv := (\<lambda>name. ''key-from-environment'')\<rparr>"
    by (simp add: envWorld_def)
  have a: "main okWorld defaultFlags [''Hi'']
       = (Exit 1, [Fprintf ''Error: %s environment variable not set and --token not provided\<newline>''
                     [S ''OPENAI_API_KEY'']])"
    using missing_credential [OF h1 h2, of "[''Hi'']"] h3 h4 by simp
  have b: "getAPIKey envWorld ''openai'' (fl_token tokenFlags) = ''sk-test''
     \<and> main envWorld tokenFlags [''Hi''] = main okWorld tokenFlags [''Hi'']"
    using missing_credential [OF k1 k2', of "[''Hi'']"]
      missing_credential [OF k1 k2, of "[''Hi'']" "\<lambda>name. ''key-from-environment''"] k3 k4
    unfolding e by simp
  show ?thesis
    using h1 h2 h3 h4 k1 k2 k3 a b by (simp only: simp_thms)
qed

subsection \<open>C7: the demo of all voices is for OpenAI only\<close>

text \<open>
  Claim C7. A run with \<^verbatim>\<open>--all\<close> and a provider other than OpenAI (and without
  \<^verbatim>\<open>--help\<close>) never ends with exit status 0: it ends with status 1, or in the panic on
  a standard input that cannot be examined. No synthesis function is entered and no
  request is made. When the provider is one of the other two and credential, speed and
  text pass their checks, the run prints the message that \<^verbatim>\<open>--all\<close> is only supported
  for OpenAI and exits with status 1.
\<close>

theorem all_flag_wrong_provider:
  assumes "\<not> fl_help fl" and "fl_all fl" and "strings_ToLower w (fl_provider fl) \<noteq> ''openai''"
  shows "(fst (main w fl args) = Exit 1 \<or> fst (main w fl args) = Panic)
    \<and> filter isCall (snd (main w fl args)) = []
    \<and> filter isHttpPost (snd (main w fl args)) = []
    \<and> (strings_ToLower w (fl_provider fl) = p \<and> (p = ''elevenlabs'' \<or> p = ''deepgram'')
        \<and> getAPIKey w p (fl_token fl) \<noteq> ''''
        \<and> validateSpeed p (fl_speed fl) = Inr msgs
        \<and> getText w args = Inr text \<and> text \<noteq> ''''
        \<longrightarrow> main w fl args
              = (Exit 1, msgs @ [Fprintln ''Error: --all flag is only supported for OpenAI provider'']))"
proof -
  have a: "(fst (main w fl args) = Exit 1 \<or> fst (main w fl args) = Panic)
    \<and> filter isCall (snd (main w fl args)) = []
    \<and> filter isHttpPost (snd (main w fl args)) = []"
    using assms
    by (auto simp add: main_def run_def Let_def validateSpeed_def
          split: sum.splits prod.splits if_splits dest!: getText_InlD)
  have b: "main w fl args
              = (Exit 1, msgs @ [Fprintln ''Error: --all flag is only supported for OpenAI provider''])"
    if "strings_ToLower w (fl_provider fl) = p" "p = ''elevenlabs'' \<or> p = ''deepgram''"
       "getAPIKey w p (fl_token fl) \<noteq> ''''" "validateSpeed p (fl_speed fl) = Inr msgs"
       "getText w args = Inr text" "text \<noteq> ''''"
    using main_run [OF assms(1) that(1) _ refl that(3,4,5,6)] that(2) assms(2)
    by (auto simp add: run_def)
  show ?thesis using a b by blast
qed

text \<open>The theorem at Deepgram with \<^verbatim>\<open>--all\<close>.\<close>

theorem all_flag_wrong_provider_witness:
  "\<not> fl_help deepgramAllFlags \<and> fl_all deepgramAllFlags
   \<and> strings_ToLower okWorld (fl_provider deepgramAllFlags) = ''deepgram''
   \<and> ''deepgram'' \<noteq> ''openai''
   \<and> getAPIKey okWorld ''deepgram'' (fl_token deepgramAllFlags) \<noteq> ''''
   \<and> validateSpeed ''deepgram'' (fl_speed deepgramAllFlags)
       = Inr [Fprintln ''Warning: Speed adjustment is not supported for Deepgram, ignoring'']
   \<and> getText okWorld [''Hi''] = Inr ''Hi''
   \<and> main okWorld deepgramAllFlags [''Hi'']
       = (Exit 1, [Fprintln ''Warning: Speed adjustment is not supported for Deepgram, ignoring'',
                   Fprintln ''Error: --all flag is only supported for OpenAI provider''])
   \<and> filter isCall (snd (main okWorld deepgramAllFlags [''Hi''])) = []
   \<and> filter isHttpPost (snd (main okWorld deepgramAllFlags [''Hi''])) = []"
proof -
  have h1: "\<not> fl_help deepgramAllFlags" and h2: "fl_all deepgramAllFlags"
    by (simp_all add: deepgramAllFlags_def deepgramFlags_def defaultFlags_def)
  have h3: "strings_ToLower okWorld (fl_provider deepgramAllFlags) = ''deepgram''"
    by (simp add: deepgramAllFlags_def deepgramFlags_def defaultFlags_def example_strings
          asciiToLower_providers)
  have h4: "strings_ToLower okWorld (fl_provider deepgramAllFlags) \<noteq> ''openai''"
    using h3 by simp
  have h5: "getAPIKey okWorld ''deepgram'' (fl_token deepgramAllFlags) \<noteq> ''''"
    by (simp add: getAPIKey_def deepgramAllFlags_def deepgramFlags_def defaultFlags_def)
  have h6: "validateSpeed ''deepgram'' (fl_speed deepgramAllFlags)
       = Inr [Fprintln ''Warning: Speed adjustment is not supported for Deepgram, ignoring'']"
    by (simp add: validateSpeed_def f64_ne_def defaultSpeed_def deepgramAllFlags_def
          deepgramFlags_def defaultFlags_def)
  have h7: "getText okWorld [''Hi''] = Inr ''Hi''" and h8: "''Hi'' \<noteq> ''''"
    by (simp_all add: getText_def)
  show ?thesis
    using all_flag_wrong_provider [OF h1 h2 h4, of "[''Hi'']" "''deepgram''"
        "[Fprintln ''Warning: Speed adjustment is not supported for Deepgram, ignoring'']"
        "''Hi''"]
      h1 h2 h3 h5 h6 h7
    by simp
qed

subsection \<open>C8: the Deepgram request\<close>

text \<open>
  Claim C8. The request that \<^verbatim>\<open>synthesizeDeepgram\<close> hands to the HTTP library is a POST
  whose JSON body has the text as its only member (no voice, model or speed), whose URL
  is the Deepgram endpoint followed by the query parameters \<open>model\<close> (the voice model it
  was given, inserted as it is) and \<open>encoding=mp3\<close>, and whose \<open>Authorization\<close> header
  is \<open>Token\<close> followed by the API key. It is a function of the key, the voice model and
  the text alone. In a run of the program with the Deepgram provider every request is this
  one, for the resolved voice, the resolved key and the text of the run.
\<close>

theorem deepgram_request:
  assumes "strings_ToLower w (fl_provider fl) = ''deepgram''"
    and "HttpPost r \<in> set (snd (main w fl args))"
  shows "snd (synthesizeDeepgram w tr apiKey voiceModel text)
           = tr @ [Call_synthesizeDeepgram apiKey voiceModel text,
                   HttpPost \<lparr>req_method = ''POST'',
                     req_url = deepgramAPIURL @ ''?model='' @ voiceModel @ ''&encoding=mp3'',
                     req_headers = [(''Content-Type'', ''application/json''),
                                    (''Authorization'', ''Token '' @ apiKey)],
                     req_body = JObject [(''text'', JString text)]\<rparr>]
    \<and> (\<exists>t. getText w args = Inr t
          \<and> r = \<lparr>req_method = ''POST'',
                  req_url = deepgramAPIURL @ ''?model=''
                              @ resolveDeepgramVoice w (defaultVoice ''deepgram'' (fl_voice fl))
                              @ ''&encoding=mp3'',
                  req_headers = [(''Content-Type'', ''application/json''),
                                 (''Authorization'',
                                  ''Token '' @ getAPIKey w ''deepgram'' (fl_token fl))],
                  req_body = JObject [(''text'', JString t)]\<rparr>)"
proof -
  have "\<exists>t. getText w args = Inr t
          \<and> r = \<lparr>req_method = ''POST'',
                  req_url = deepgramAPIURL @ ''?model=''
                              @ resolveDeepgramVoice w (defaultVoice ''deepgram'' (fl_voice fl))
                              @ ''&encoding=mp3'',
                  req_headers = [(''Content-Type'', ''application/json''),
                                 (''Authorization'',
                                  ''Token '' @ getAPIKey w ''deepgram'' (fl_token fl))],
                  req_body = JObject [(''text'', JString t)]\<rparr>"
    using assms
    by (auto simp add: main_def run_def Let_def validateSpeed_def
          split: sum.splits prod.splits if_splits
          dest!: speakOnce_deepgram_posts getText_InlD)
  then show ?thesis
    by (simp add: synthesizeDeepgram_trace)
qed

text \<open>The theorem at a run with the voice \<open>Luna\<close> and the text \<open>Hi\<close>.\<close>

theorem deepgram_request_witness:
  "strings_ToLower okWorld (fl_provider deepgramFlags) = ''deepgram''
   \<and> HttpPost \<lparr>req_method = ''POST'',
               req_url = ''https://api.deepgram.com/v1/speak?model=aura-luna-en&encoding=mp3'',
               req_headers = [(''Content-Type'', ''application/json''),
                              (''Authorization'', ''Token dg-test'')],
               req_body = JObject [(''text'', JString ''Hi'')]\<rparr>
        \<in> set (snd (main okWorld deepgramFlags [''Hi'']))
   \<and> getText okWorld [''Hi''] = Inr ''Hi''
   \<and> snd (synthesizeDeepgram okWorld [] ''dg-test'' ''aura-luna-en'' ''Hi'')
       = [Call_synthesizeDeepgram ''dg-test'' ''aura-luna-en'' ''Hi'',
          HttpPost \<lparr>req_method = ''POST'',
               req_url = ''https://api.deepgram.com/v1/speak?model=aura-luna-en&encoding=mp3'',
               req_headers = [(''Content-Type'', ''application/json''),
                              (''Authorization'', ''Token dg-test'')],
               req_body = JObject [(''text'', JString ''Hi'')]\<rparr>]"
proof -
  have h1: "strings_ToLower okWorld (fl_provider deepgramFlags) = ''deepgram''"
    by code_simp
  have h2: "HttpPost \<lparr>req_method = ''POST'',
               req_url = ''https://api.deepgram.com/v1/speak?model=aura-luna-en&encoding=mp3'',
               req_headers = [(''Content-Type'', ''application/json''),
                              (''Authorization'', ''Token dg-test'')],
               req_body = JObject [(''text'', JString ''Hi'')]\<rparr>
        \<in> set (snd (main okWorld deepgramFlags [''Hi'']))"
    by code_simp
  have h3: "getText okWorld [''Hi''] = Inr ''Hi''"
    by (simp add: getText_def)
  have c: "snd (synthesizeDeepgram okWorld [] ''dg-test'' ''aura-luna-en'' ''Hi'')
       = [Call_synthesizeDeepgram ''dg-test'' ''aura-luna-en'' ''Hi'',
          HttpPost \<lparr>req_method = ''POST'',
               req_url = ''https://api.deepgram.com/v1/speak?model=aura-luna-en&encoding=mp3'',
               req_headers = [(''Content-Type'', ''application/json''),
                              (''Authorization'', ''Token dg-test'')],
               req_body = JObject [(''text'', JString ''Hi'')]\<rparr>]"
    using deepgram_request [OF h1 h2, of "[]" "''dg-test''" "''aura-luna-en''" "''Hi''",
        THEN conjunct1]
    by (simp add: deepgramAPIURL_def)
  show ?thesis
    using h1 h2 h3 c by (simp only: simp_thms)
qed

subsection \<open>C9: the exit status\<close>

text \<open>
  Claim C9. A run without \<^verbatim>\<open>--help\<close> ends with exit status 0, with exit status 1, or
  in the panic of the runtime on a standard input that cannot be examined and no text
  argument (a non-zero status as well). Whenever it ends with status 1, an error message
  has been printed to standard error, and the last thing the run did was to write to
  standard error. In a run for one utterance the converse holds too: if an error message
  was printed, the status is 1; so a run that ends with status 0 has printed no error. In
  the demo of all voices with OpenAI, once credential, speed and text have passed their
  checks, the status is 0 whatever the world answers, that is, however many attempts fail.

  Every failure ends the run with status 1 and its own message, in the order of the
  checks: a provider that is not one of the three; a missing credential; a speed that
  \<open>validateSpeed\<close> refuses; a standard input that fails while it is read; an empty text;
  and, in a run for one utterance, a voice that OpenAI does not have, a synthesis that
  returns an error, a file that cannot be written, and a playback that returns an error.
  In terms of the world: the status is 1 when the HTTP library does not answer the first
  request with status 200 and a body that could be read, and when audio was synthesized
  and is to be played but the audio device does not play it. A run for one utterance whose
  synthesis returns audio data, whose file (if one is asked for) is written and whose
  playback (if there is one) succeeds ends with status 0. A request yields audio data
  exactly when the answer is status 200 with a body that was read without error, and a
  playback returns no error exactly when the world plays the data.
\<close>

theorem exit_behaviour:
  assumes "\<not> fl_help fl" and "p = strings_ToLower w (fl_provider fl)"
    and "k = getAPIKey w p (fl_token fl)"
    and "m = defaultModel p (fl_model fl)" and "v = defaultVoice p (fl_voice fl)"
  shows "(fst (main w fl args) = Exit 0 \<or> fst (main w fl args) = Exit 1
        \<or> fst (main w fl args) = Panic)
    \<and> (fst (main w fl args) = Panic \<longrightarrow> args = [] \<and> stdin w = StatFailed)
    \<and> (fst (main w fl args) = Exit 1
        \<longrightarrow> snd (main w fl args) \<noteq> [] \<and> isStderr (last (snd (main w fl args)))
            \<and> (\<exists>e \<in> set (snd (main w fl args)). isErrorMsg e))
    \<and> (\<not> fl_all fl \<and> (\<exists>e \<in> set (snd (main w fl args)). isErrorMsg e)
        \<longrightarrow> fst (main w fl args) = Exit 1)
    \<and> (fl_all fl \<and> p = ''openai'' \<and> k \<noteq> ''''
        \<and> validateSpeed p (fl_speed fl) = Inr msgs
        \<and> getText w args = Inr text \<and> text \<noteq> ''''
        \<longrightarrow> fst (main w fl args) = Exit 0)
    \<and> (\<not> (p = ''openai'' \<or> p = ''elevenlabs'' \<or> p = ''deepgram'')
        \<longrightarrow> main w fl args
              = (Exit 1,
                 [Fprintf ''Error: Invalid provider '%s'. Use 'openai', 'elevenlabs', or 'deepgram'\<newline>''
                    [S p]]))
    \<and> ((p = ''openai'' \<or> p = ''elevenlabs'' \<or> p = ''deepgram'') \<and> k = ''''
        \<longrightarrow> main w fl args
              = (Exit 1,
                 [Fprintf ''Error: %s environment variable not set and --token not provided\<newline>''
                    [S (envVars p)]]))
    \<and> ((p = ''openai'' \<or> p = ''elevenlabs'' \<or> p = ''deepgram'') \<and> k \<noteq> ''''
        \<and> validateSpeed p (fl_speed fl) = Inl msg
        \<longrightarrow> main w fl args = (Exit 1, [msg]) \<and> isErrorMsg msg)
    \<and> ((p = ''openai'' \<or> p = ''elevenlabs'' \<or> p = ''deepgram'') \<and> k \<noteq> ''''
        \<and> validateSpeed p (fl_speed fl) = Inr msgs
        \<and> args = [] \<and> stdin w = Piped data (Some e1)
        \<longrightarrow> main w fl args
              = (Exit 1, msgs @ [Fprintf ''Error reading stdin: %v\<newline>'' [E (External e1)]]))
    \<and> ((p = ''openai'' \<or> p = ''elevenlabs'' \<or> p = ''deepgram'') \<and> k \<noteq> ''''
        \<and> validateSpeed p (fl_speed fl) = Inr msgs
        \<and> getText w args = Inr ''''
        \<longrightarrow> main w fl args = (Exit 1, msgs @ [Fprintln ''Error: No text provided'', Usage]))
    \<and> (\<not> fl_all fl
        \<and> (p = ''openai'' \<or> p = ''elevenlabs'' \<or> p = ''deepgram'') \<and> k \<noteq> ''''
        \<and> validateSpeed p (fl_speed fl) = Inr msgs
        \<and> getText w args = Inr text \<and> text \<noteq> ''''
        \<and> p = ''openai'' \<and> v \<notin> set openAIVoices
        \<longrightarrow> main w fl args
              = (Exit 1,
                 msgs @ [Fprintf ''Error: Invalid OpenAI voice '%s'. Valid voices: %s\<newline>''
                           [S v, S (join '', '' openAIVoices)]]))
    \<and> (\<not> fl_all fl
        \<and> (p = ''openai'' \<or> p = ''elevenlabs'' \<or> p = ''deepgram'') \<and> k \<noteq> ''''
        \<and> validateSpeed p (fl_speed fl) = Inr msgs
        \<and> getText w args = Inr text \<and> text \<noteq> ''''
        \<and> dispatch w msgs p k m v text (fl_speed fl) (fl_stability fl)
              (fl_similarityBoost fl) = Inr (Inl err, tr1)
        \<longrightarrow> main w fl args
              = (Exit 1, tr1 @ [Fprintf ''Error synthesizing speech: %v\<newline>'' [E err]]))
    \<and> (\<not> fl_all fl
        \<and> (p = ''openai'' \<or> p = ''elevenlabs'' \<or> p = ''deepgram'') \<and> k \<noteq> ''''
        \<and> validateSpeed p (fl_speed fl) = Inr msgs
        \<and> getText w args = Inr text \<and> text \<noteq> ''''
        \<and> dispatch w msgs p k m v text (fl_speed fl) (fl_stability fl)
              (fl_similarityBoost fl) = Inr (Inr a, tr1)
        \<and> fl_output fl \<noteq> '''' \<and> fileWrite w (fl_output fl) a = Some e2
        \<longrightarrow> main w fl args
              = (Exit 1, tr1 @ [WriteFile (fl_output fl) a,
                               Fprintf ''Error saving file: %v\<newline>'' [E (External e2)]]))
    \<and> (\<not> fl_all fl
        \<and> (p = ''openai'' \<or> p = ''elevenlabs'' \<or> p = ''deepgram'') \<and> k \<noteq> ''''
        \<and> validateSpeed p (fl_speed fl) = Inr msgs
        \<and> getText w args = Inr text \<and> text \<noteq> ''''
        \<and> dispatch w msgs p k m v text (fl_speed fl) (fl_stability fl)
              (fl_similarityBoost fl) = Inr (Inr a, tr1)
        \<and> saveOutput w tr1 (fl_output fl) a = Inr tr2
        \<and> (fl_output fl = '''' \<or> fl_speak fl) \<and> fst (playAudio w tr2 a) = Some err
        \<longrightarrow> main w fl args
              = (Exit 1, tr2 @ [PlayAudio a, Fprintf ''Error playing audio: %v\<newline>'' [E err]]))
    \<and> (\<not> fl_all fl
        \<and> (p = ''openai'' \<or> p = ''elevenlabs'' \<or> p = ''deepgram'') \<and> k \<noteq> ''''
        \<and> validateSpeed p (fl_speed fl) = Inr msgs
        \<and> getText w args = Inr text \<and> text \<noteq> ''''
        \<and> (\<forall>q b. http w 0 q \<noteq> Response 200 b None)
        \<longrightarrow> fst (main w fl args) = Exit 1)
    \<and> (\<not> fl_all fl
        \<and> (p = ''openai'' \<or> p = ''elevenlabs'' \<or> p = ''deepgram'') \<and> k \<noteq> ''''
        \<and> validateSpeed p (fl_speed fl) = Inr msgs
        \<and> getText w args = Inr text \<and> text \<noteq> ''''
        \<and> dispatch w msgs p k m v text (fl_speed fl) (fl_stability fl)
              (fl_similarityBoost fl) = Inr (Inr a, tr1)
        \<and> (fl_output fl = '''' \<or> fl_speak fl) \<and> audio w 0 a \<noteq> Played
        \<longrightarrow> fst (main w fl args) = Exit 1)
    \<and> (\<not> fl_all fl
        \<and> (p = ''openai'' \<or> p = ''elevenlabs'' \<or> p = ''deepgram'') \<and> k \<noteq> ''''
        \<and> validateSpeed p (fl_speed fl) = Inr msgs
        \<and> getText w args = Inr text \<and> text \<noteq> ''''
        \<and> dispatch w msgs p k m v text (fl_speed fl) (fl_stability fl)
              (fl_similarityBoost fl) = Inr (Inr a, tr1)
        \<and> (fl_output fl \<noteq> '''' \<longrightarrow> fileWrite w (fl_output fl) a = None)
        \<and> (fl_output fl = '''' \<or> fl_speak fl \<longrightarrow> audio w 0 a = Played)
        \<longrightarrow> fst (main w fl args) = Exit 0)
    \<and> ((fst (roundTrip w tr q) = Inr a)
        = (http w (length (filter isHttpPost tr)) q = Response 200 a None))
    \<and> ((fst (playAudio w tr a) = None)
        = (audio w (length (filter isPlayAudio tr)) a = Played))"
proof -
  let ?r = "main w fl args"
  have p: "strings_ToLower w (fl_provider fl) = p"
    using assms(2) by simp
  have panic: "args = [] \<and> stdin w = StatFailed" if "getText w args = Inl (Panic, evs)" for evs
    using that by (auto simp add: getText_def split: if_splits stdin_state.splits option.splits)
  have main: "(fst ?r = Exit 0 \<or> fst ?r = Exit 1 \<or> fst ?r = Panic)
    \<and> (fst ?r = Panic \<longrightarrow> args = [] \<and> stdin w = StatFailed)
    \<and> (fst ?r = Exit 1
        \<longrightarrow> snd ?r \<noteq> [] \<and> isStderr (last (snd ?r)) \<and> (\<exists>e \<in> set (snd ?r). isErrorMsg e))
    \<and> (\<not> fl_all fl \<and> (\<exists>e \<in> set (snd ?r). isErrorMsg e) \<longrightarrow> fst ?r = Exit 1)"
  proof (cases rule: main_cases [of fl w args])
    case c_help
    then show ?thesis using assms(1) by simp
  next
    case (c_provider q)
    then show ?thesis by simp
  next
    case (c_key q)
    then show ?thesis by simp
  next
    case (c_speed q msg)
    then show ?thesis using validateSpeed_InlD [of q "fl_speed fl" msg] by auto
  next
    case (c_input q msgs' st evs)
    then show ?thesis
      using warning_not_error [of q "fl_speed fl" msgs'] getText_InlD [of w args st evs]
        panic [of evs]
      by auto
  next
    case (c_no_text q msgs')
    then show ?thesis by simp
  next
    case (c_run q msgs' t)
    have clean: "\<forall>e \<in> set msgs'. \<not> isErrorMsg e"
      using warning_not_error [OF c_run(5)] by blast
    show ?thesis
    proof (cases "fl_all fl")
      case False
      then have "?r = speakOnce w msgs' q (getAPIKey w q (fl_token fl))
                        (defaultModel q (fl_model fl)) (defaultVoice q (fl_voice fl)) t
                        (fl_speed fl) (fl_stability fl) (fl_similarityBoost fl) (fl_output fl)
                        (fl_speak fl)"
        using c_run(8) by (simp add: run_def)
      then show ?thesis
        using speakOnce_exit [OF clean, of w q "getAPIKey w q (fl_token fl)"
            "defaultModel q (fl_model fl)" "defaultVoice q (fl_voice fl)" t "fl_speed fl"
            "fl_stability fl" "fl_similarityBoost fl" "fl_output fl" "fl_speak fl"] False
        by auto
    next
      case True
      then show ?thesis
        using c_run(8) by (auto simp add: run_def)
    qed
  qed
  have c1: "(fst (main w fl args) = Exit 0 \<or> fst (main w fl args) = Exit 1
        \<or> fst (main w fl args) = Panic)"
    using main by blast
  have c2: "(fst (main w fl args) = Panic \<longrightarrow> args = [] \<and> stdin w = StatFailed)"
    using main by blast
  have c3: "(fst (main w fl args) = Exit 1
        \<longrightarrow> snd (main w fl args) \<noteq> [] \<and> isStderr (last (snd (main w fl args)))
            \<and> (\<exists>e \<in> set (snd (main w fl args)). isErrorMsg e))"
    using main by blast
  have c4: "(\<not> fl_all fl \<and> (\<exists>e \<in> set (snd (main w fl args)). isErrorMsg e)
        \<longrightarrow> fst (main w fl args) = Exit 1)"
    using main by blast
  have demo: "fst ?r = Exit 0"
    if "fl_all fl" "p = ''openai''" "k \<noteq> ''''"
       "validateSpeed p (fl_speed fl) = Inr msgs"
       "getText w args = Inr text" "text \<noteq> ''''"
    using main_run [OF assms(1) p _ assms(3) [symmetric] that(3-6)] that(1,2)
    by (simp add: run_def)
  have c5: "(fl_all fl \<and> p = ''openai'' \<and> k \<noteq> ''''
        \<and> validateSpeed p (fl_speed fl) = Inr msgs
        \<and> getText w args = Inr text \<and> text \<noteq> ''''
        \<longrightarrow> fst (main w fl args) = Exit 0)"
    using demo by blast
  have c6: "(\<not> (p = ''openai'' \<or> p = ''elevenlabs'' \<or> p = ''deepgram'')
        \<longrightarrow> main w fl args
              = (Exit 1,
                 [Fprintf ''Error: Invalid provider '%s'. Use 'openai', 'elevenlabs', or 'deepgram'\<newline>''
                    [S p]]))"
    using assms(1) p by (simp add: main_def Let_def)
  have c7: "((p = ''openai'' \<or> p = ''elevenlabs'' \<or> p = ''deepgram'') \<and> k = ''''
        \<longrightarrow> main w fl args
              = (Exit 1,
                 [Fprintf ''Error: %s environment variable not set and --token not provided\<newline>''
                    [S (envVars p)]]))"
    using assms(1) assms(3) [symmetric] p by (auto simp add: main_def Let_def)
  have c8: "((p = ''openai'' \<or> p = ''elevenlabs'' \<or> p = ''deepgram'') \<and> k \<noteq> ''''
        \<and> validateSpeed p (fl_speed fl) = Inl msg
        \<longrightarrow> main w fl args = (Exit 1, [msg]) \<and> isErrorMsg msg)"
    using assms(1) assms(3) [symmetric] p validateSpeed_InlD [of p "fl_speed fl" msg]
    by (auto simp add: main_def Let_def)
  have c9: "((p = ''openai'' \<or> p = ''elevenlabs'' \<or> p = ''deepgram'') \<and> k \<noteq> ''''
        \<and> validateSpeed p (fl_speed fl) = Inr msgs
        \<and> args = [] \<and> stdin w = Piped data (Some e1)
        \<longrightarrow> main w fl args
              = (Exit 1, msgs @ [Fprintf ''Error reading stdin: %v\<newline>'' [E (External e1)]]))"
    using assms(1) assms(3) [symmetric] p by (auto simp add: main_def Let_def getText_def)
  have c10: "((p = ''openai'' \<or> p = ''elevenlabs'' \<or> p = ''deepgram'') \<and> k \<noteq> ''''
        \<and> validateSpeed p (fl_speed fl) = Inr msgs
        \<and> getText w args = Inr ''''
        \<longrightarrow> main w fl args = (Exit 1, msgs @ [Fprintln ''Error: No text provided'', Usage]))"
    using assms(1) assms(3) [symmetric] p by (auto simp add: main_def Let_def)
  have once: "?r = speakOnce w msgs p k m v text (fl_speed fl) (fl_stability fl) (fl_similarityBoost fl)
                    (fl_output fl) (fl_speak fl)"
    if "\<not> fl_all fl" "p = ''openai'' \<or> p = ''elevenlabs'' \<or> p = ''deepgram''" "k \<noteq> ''''"
       "validateSpeed p (fl_speed fl) = Inr msgs" "getText w args = Inr text" "text \<noteq> ''''"
    using main_run [OF assms(1) p that(2) assms(3) [symmetric] that(3-6)] that(1) assms(4,5)
    by (simp add: run_def)
  have quiet: "filter isHttpPost msgs = []" "filter isPlayAudio msgs = []"
    if "validateSpeed p (fl_speed fl) = Inr msgs"
    using validateSpeed_Inr_msgs [OF that] by auto
  have x11: "?r = (Exit 1,
                 msgs @ [Fprintf ''Error: Invalid OpenAI voice '%s'. Valid voices: %s\<newline>''
                           [S v, S (join '', '' openAIVoices)]])"
    if "\<not> fl_all fl" "p = ''openai'' \<or> p = ''elevenlabs'' \<or> p = ''deepgram''" "k \<noteq> ''''"
       "validateSpeed p (fl_speed fl) = Inr msgs" "getText w args = Inr text" "text \<noteq> ''''"
       "p = ''openai''" "v \<notin> set openAIVoices"
    using once [OF that(1-6)] that(7,8)
    by (simp add: speakOnce_def dispatch_def isValidOpenAIVoice_def)
  have c11: "(\<not> fl_all fl
        \<and> (p = ''openai'' \<or> p = ''elevenlabs'' \<or> p = ''deepgram'') \<and> k \<noteq> ''''
        \<and> validateSpeed p (fl_speed fl) = Inr msgs
        \<and> getText w args = Inr text \<and> text \<noteq> ''''
        \<and> p = ''openai'' \<and> v \<notin> set openAIVoices
        \<longrightarrow> main w fl args
              = (Exit 1,
                 msgs @ [Fprintf ''Error: Invalid OpenAI voice '%s'. Valid voices: %s\<newline>''
                           [S v, S (join '', '' openAIVoices)]]))"
    using x11 by blast
  have x12: "?r = (Exit 1, tr1 @ [Fprintf ''Error synthesizing speech: %v\<newline>'' [E err]])"
    if "\<not> fl_all fl" "p = ''openai'' \<or> p = ''elevenlabs'' \<or> p = ''deepgram''" "k \<noteq> ''''"
       "validateSpeed p (fl_speed fl) = Inr msgs" "getText w args = Inr text" "text \<noteq> ''''"
       "dispatch w msgs p k m v text (fl_speed fl) (fl_stability fl)
              (fl_similarityBoost fl) = Inr (Inl err, tr1)"
    using once [OF that(1-6)] that(7) by (simp add: speakOnce_def)
  have c12: "(\<not> fl_all fl
        \<and> (p = ''openai'' \<or> p = ''elevenlabs'' \<or> p = ''deepgram'') \<and> k \<noteq> ''''
        \<and> validateSpeed p (fl_speed fl) = Inr msgs
        \<and> getText w args = Inr text \<and> text \<noteq> ''''
        \<and> dispatch w msgs p k m v text (fl_speed fl) (fl_stability fl)
              (fl_similarityBoost fl) = Inr (Inl err, tr1)
        \<longrightarrow> main w fl args
              = (Exit 1, tr1 @ [Fprintf ''Error synthesizing speech: %v\<newline>'' [E err]]))"
    using x12 by blast
  have x13: "?r = (Exit 1, tr1 @ [WriteFile (fl_output fl) a,
                               Fprintf ''Error saving file: %v\<newline>'' [E (External e2)]])"
    if "\<not> fl_all fl" "p = ''openai'' \<or> p = ''elevenlabs'' \<or> p = ''deepgram''" "k \<noteq> ''''"
       "validateSpeed p (fl_speed fl) = Inr msgs" "getText w args = Inr text" "text \<noteq> ''''"
       "dispatch w msgs p k m v text (fl_speed fl) (fl_stability fl)
              (fl_similarityBoost fl) = Inr (Inr a, tr1)"
       "fl_output fl \<noteq> ''''" "fileWrite w (fl_output fl) a = Some e2"
    using once [OF that(1-6)] that(7-9) by (simp add: speakOnce_def saveOutput_def)
  have c13: "(\<not> fl_all fl
        \<and> (p = ''openai'' \<or> p = ''elevenlabs'' \<or> p = ''deepgram'') \<and> k \<noteq> ''''
        \<and> validateSpeed p (fl_speed fl) = Inr msgs
        \<and> getText w args = Inr text \<and> text \<noteq> ''''
        \<and> dispatch w msgs p k m v text (fl_speed fl) (fl_stability fl)
              (fl_similarityBoost fl) = Inr (Inr a, tr1)
        \<and> fl_output fl \<noteq> '''' \<and> fileWrite w (fl_output fl) a = Some e2
        \<longrightarrow> main w fl args
              = (Exit 1, tr1 @ [WriteFile (fl_output fl) a,
                               Fprintf ''Error saving file: %v\<newline>'' [E (External e2)]]))"
    using x13 by blast
  have x14: "?r = (Exit 1, tr2 @ [PlayAudio a, Fprintf ''Error playing audio: %v\<newline>'' [E err]])"
    if "\<not> fl_all fl" "p = ''openai'' \<or> p = ''elevenlabs'' \<or> p = ''deepgram''" "k \<noteq> ''''"
       "validateSpeed p (fl_speed fl) = Inr msgs" "getText w args = Inr text" "text \<noteq> ''''"
       "dispatch w msgs p k m v text (fl_speed fl) (fl_stability fl)
              (fl_similarityBoost fl) = Inr (Inr a, tr1)"
       "saveOutput w tr1 (fl_output fl) a = Inr tr2"
       "fl_output fl = '''' \<or> fl_speak fl" "fst (playAudio w tr2 a) = Some err"
  proof -
    have "playAudio w tr2 a = (Some err, tr2 @ [PlayAudio a])"
      using that(10) playAudio_trace [of w tr2 a] by (cases "playAudio w tr2 a") simp
    then show ?thesis
      using once [OF that(1-6)] that(7-9) by (auto simp add: speakOnce_def playOutput_def)
  qed
  have c14: "(\<not> fl_all fl
        \<and> (p = ''openai'' \<or> p = ''elevenlabs'' \<or> p = ''deepgram'') \<and> k \<noteq> ''''
        \<and> validateSpeed p (fl_speed fl) = Inr msgs
        \<and> getText w args = Inr text \<and> text \<noteq> ''''
        \<and> dispatch w msgs p k m v text (fl_speed fl) (fl_stability fl)
              (fl_similarityBoost fl) = Inr (Inr a, tr1)
        \<and> saveOutput w tr1 (fl_output fl) a = Inr tr2
        \<and> (fl_output fl = '''' \<or> fl_speak fl) \<and> fst (playAudio w tr2 a) = Some err
        \<longrightarrow> main w fl args
              = (Exit 1, tr2 @ [PlayAudio a, Fprintf ''Error playing audio: %v\<newline>'' [E err]]))"
    using x14 by blast
  have x15: "fst ?r = Exit 1"
    if h: "\<not> fl_all fl" "p = ''openai'' \<or> p = ''elevenlabs'' \<or> p = ''deepgram''" "k \<noteq> ''''"
       "validateSpeed p (fl_speed fl) = Inr msgs" "getText w args = Inr text" "text \<noteq> ''''"
       "\<forall>q b. http w 0 q \<noteq> Response 200 b None"
  proof (cases "dispatch w msgs p k m v text (fl_speed fl) (fl_stability fl)
              (fl_similarityBoost fl)")
    case (Inl tr1)
    then show ?thesis
      using once [OF h(1-6)] by (simp add: speakOnce_def)
  next
    case (Inr x)
    obtain r tr1 where x: "x = (r, tr1)" by (cases x)
    have "\<forall>q b. http w (length (filter isHttpPost msgs)) q \<noteq> Response 200 b None"
      using h(7) quiet(1) [OF h(4)] by simp
    then obtain err where "r = Inl err"
      using dispatch_no_answer [of w msgs p k m v "text" "fl_speed fl" "fl_stability fl"
          "fl_similarityBoost fl" r tr1] Inr x h(2)
      by blast
    then show ?thesis
      using once [OF h(1-6)] Inr x by (simp add: speakOnce_def)
  qed
  have c15: "(\<not> fl_all fl
        \<and> (p = ''openai'' \<or> p = ''elevenlabs'' \<or> p = ''deepgram'') \<and> k \<noteq> ''''
        \<and> validateSpeed p (fl_speed fl) = Inr msgs
        \<and> getText w args = Inr text \<and> text \<noteq> ''''
        \<and> (\<forall>q b. http w 0 q \<noteq> Response 200 b None)
        \<longrightarrow> fst (main w fl args) = Exit 1)"
    using x15 by blast
  have x16: "fst ?r = Exit 1"
    if "\<not> fl_all fl" "p = ''openai'' \<or> p = ''elevenlabs'' \<or> p = ''deepgram''" "k \<noteq> ''''"
       "validateSpeed p (fl_speed fl) = Inr msgs" "getText w args = Inr text" "text \<noteq> ''''"
       "dispatch w msgs p k m v text (fl_speed fl) (fl_stability fl)
              (fl_similarityBoost fl) = Inr (Inr a, tr1)"
       "fl_output fl = '''' \<or> fl_speak fl" "audio w 0 a \<noteq> Played"
  proof -
    have f: "filter isPlayAudio tr1 = []"
      using dispatch_Inr_trace [OF that(7)] quiet(2) [OF that(4)] by simp
    show ?thesis
      using once [OF that(1-6)] that(7-9) f
      by (auto simp add: speakOnce_def saveOutput_def playOutput_def playAudio_def
            split: option.splits play_result.splits)
  qed
  have c16: "(\<not> fl_all fl
        \<and> (p = ''openai'' \<or> p = ''elevenlabs'' \<or> p = ''deepgram'') \<and> k \<noteq> ''''
        \<and> validateSpeed p (fl_speed fl) = Inr msgs
        \<and> getText w args = Inr text \<and> text \<noteq> ''''
        \<and> dispatch w msgs p k m v text (fl_speed fl) (fl_stability fl)
              (fl_similarityBoost fl) = Inr (Inr a, tr1)
        \<and> (fl_output fl = '''' \<or> fl_speak fl) \<and> audio w 0 a \<noteq> Played
        \<longrightarrow> fst (main w fl args) = Exit 1)"
    using x16 by blast
  have x17: "fst ?r = Exit 0"
    if "\<not> fl_all fl" "p = ''openai'' \<or> p = ''elevenlabs'' \<or> p = ''deepgram''" "k \<noteq> ''''"
       "validateSpeed p (fl_speed fl) = Inr msgs" "getText w args = Inr text" "text \<noteq> ''''"
       "dispatch w msgs p k m v text (fl_speed fl) (fl_stability fl)
              (fl_similarityBoost fl) = Inr (Inr a, tr1)"
       "fl_output fl \<noteq> '''' \<longrightarrow> fileWrite w (fl_output fl) a = None"
       "fl_output fl = '''' \<or> fl_speak fl \<longrightarrow> audio w 0 a = Played"
  proof -
    have f: "filter isPlayAudio tr1 = []"
      using dispatch_Inr_trace [OF that(7)] quiet(2) [OF that(4)] by simp
    show ?thesis
      using once [OF that(1-6)] that(7-9) f
      by (auto simp add: speakOnce_def saveOutput_def playOutput_def playAudio_def
            split: option.splits play_result.splits)
  qed
  have c17: "(\<not> fl_all fl
        \<and> (p = ''openai'' \<or> p = ''elevenlabs'' \<or> p = ''deepgram'') \<and> k \<noteq> ''''
        \<and> validateSpeed p (fl_speed fl) = Inr msgs
        \<and> getText w args = Inr text \<and> text \<noteq> ''''
        \<and> dispatch w msgs p k m v text (fl_speed fl) (fl_stability fl)
              (fl_similarityBoost fl) = Inr (Inr a, tr1)
        \<and> (fl_output fl \<noteq> '''' \<longrightarrow> fileWrite w (fl_output fl) a = None)
        \<and> (fl_output fl = '''' \<or> fl_speak fl \<longrightarrow> audio w 0 a = Played)
        \<longrightarrow> fst (main w fl args) = Exit 0)"
    using x17 by blast
  have c18: "((fst (roundTrip w tr q) = Inr a)
        = (http w (length (filter isHttpPost tr)) q = Response 200 a None))"
    by (auto simp add: roundTrip_def split: http_result.splits option.splits)
  have c19: "((fst (playAudio w tr a) = None)
        = (audio w (length (filter isPlayAudio tr)) a = Played))"
    by (simp add: playAudio_def split: play_result.splits)
  show ?thesis
    by (rule conjI [OF c1 conjI [OF c2 conjI [OF c3 conjI [OF c4 conjI [OF c5 conjI [OF c6
      conjI [OF c7 conjI [OF c8 conjI [OF c9 conjI [OF c10 conjI [OF c11 conjI
      [OF c12 conjI [OF c13 conjI [OF c14 conjI [OF c15 conjI [OF c16 conjI [OF
      c17 conjI [OF c18 c19]]]]]]]]]]]]]]]]]])
qed

text \<open>
  The theorem at one run for each way of failing, at a run where everything works, at the
  panic, and at the demo of all voices when the first request fails (status 0, although an
  error was printed).
\<close>

theorem exit_behaviour_witness:
  "main okWorld azureFlags [''Hi'']
     = (Exit 1,
        [Fprintf ''Error: Invalid provider '%s'. Use 'openai', 'elevenlabs', or 'deepgram'\<newline>''
           [S ''azure'']])
   \<and> main okWorld defaultFlags [''Hi'']
     = (Exit 1, [Fprintf ''Error: %s environment variable not set and --token not provided\<newline>''
                   [S ''OPENAI_API_KEY'']])
   \<and> main okWorld (tokenFlags\<lparr>fl_speed := Fin 4.5\<rparr>) [''Hi'']
     = (Exit 1, [Fprintln ''Error: Speed must be between 0.25 and 4.0 for OpenAI''])
   \<and> main brokenPipeWorld tokenFlags []
     = (Exit 1, [Fprintf ''Error reading stdin: %v\<newline>'' [E (External ''read error'')]])
   \<and> main okWorld tokenFlags [] = (Exit 1, [Fprintln ''Error: No text provided'', Usage])
   \<and> main okWorld shoutFlags [''Hi'']
     = (Exit 1, [Fprintf ''Error: Invalid OpenAI voice '%s'. Valid voices: %s\<newline>''
                   [S ''ALLOY'', S ''alloy, echo, fable, onyx, nova, shimmer'']])
   \<and> (\<forall>q b. http offlineWorld 0 q \<noteq> Response 200 b None)
   \<and> fst (main offlineWorld tokenFlags [''Hi'']) = Exit 1
   \<and> last (snd (main offlineWorld tokenFlags [''Hi'']))
     = Fprintf ''Error synthesizing speech: %v\<newline>''
         [E (Errorf ''failed to make request: %w'' [E (External ''no route to host'')])]
   \<and> isStderr (last (snd (main offlineWorld tokenFlags [''Hi''])))
   \<and> fileWrite diskFullWorld ''out.mp3'' ''mp3-data'' = Some ''no space left on device''
   \<and> fst (main diskFullWorld saveFlags [''Hi'']) = Exit 1
   \<and> last (snd (main diskFullWorld saveFlags [''Hi'']))
     = Fprintf ''Error saving file: %v\<newline>'' [E (External ''no space left on device'')]
   \<and> audio noDeviceWorld 0 ''mp3-data'' \<noteq> Played
   \<and> fst (main noDeviceWorld tokenFlags [''Hi'']) = Exit 1
   \<and> last (snd (main noDeviceWorld tokenFlags [''Hi'']))
     = Fprintf ''Error playing audio: %v\<newline>''
         [E (Errorf ''failed to create audio context: %w'' [E (External ''no audio device'')])]
   \<and> fst (main okWorld tokenFlags [''Hi'']) = Exit 0
   \<and> filter isErrorMsg (snd (main okWorld tokenFlags [''Hi''])) = []
   \<and> fst (main closedStdinWorld tokenFlags []) = Panic
   \<and> stdin closedStdinWorld = StatFailed
   \<and> fl_all demoFlags
   \<and> fst (main flakyWorld demoFlags [''Hi'']) = Exit 0
   \<and> filter isErrorMsg (snd (main flakyWorld demoFlags [''Hi'']))
       = [Fprintf ''Error synthesizing voice announcement: %v\<newline>''
            [E (Errorf ''failed to make request: %w'' [E (External ''connection reset'')])]]"
proof -
  have lo: "strings_ToLower W ''openai'' = ''openai''" "strings_ToLower W ''Azure'' = ''azure''"
    if "strings_ToLower W = asciiToLower" for W
    using that by (simp_all add: asciiToLower_def asciiLowerChar_def)
  have tok: "\<not> fl_help tokenFlags" "\<not> fl_all tokenFlags"
    "''tts-1-hd'' = defaultModel ''openai'' (fl_model tokenFlags)"
    "''alloy'' = defaultVoice ''openai'' (fl_voice tokenFlags)"
    "fl_speed tokenFlags = Fin 1" "fl_output tokenFlags = ''''"
    by (simp_all add: tokenFlags_def defaultFlags_def defaultModel_def defaultVoice_def
          defaultOpenAIModel_def defaultOpenAIVoice_def defaultSpeed_def)
  have tokp: "''openai'' = strings_ToLower W (fl_provider tokenFlags)"
    if "strings_ToLower W = asciiToLower" for W
    using lo(1) [OF that] by (simp add: tokenFlags_def defaultFlags_def defaultProvider_def)
  have tokk: "''sk-test'' = getAPIKey W ''openai'' (fl_token tokenFlags)" for W
    by (simp add: tokenFlags_def defaultFlags_def getAPIKey_def)
  have ne: "''sk-test'' \<noteq> ''''" "''Hi'' \<noteq> ''''"
    by simp_all
  have valid: "''openai'' = ''openai'' \<or> ''openai'' = ''elevenlabs'' \<or> ''openai'' = ''deepgram''"
    by simp
  have sp: "validateSpeed ''openai'' (fl_speed tokenFlags) = Inr []"
    by (simp add: tok(5) validateSpeed_def f64_gt_def)
  have tx: "getText W [''Hi''] = Inr ''Hi''" for W
    by (simp add: getText_def)
  have a0: "\<not> fl_help azureFlags"
    "''azure'' = strings_ToLower okWorld (fl_provider azureFlags)"
    using lo(2) [OF example_strings(1)]
    by (simp_all add: azureFlags_def tokenFlags_def defaultFlags_def)
  have a: "main okWorld azureFlags [''Hi'']
     = (Exit 1,
        [Fprintf ''Error: Invalid provider '%s'. Use 'openai', 'elevenlabs', or 'deepgram'\<newline>''
           [S ''azure'']])"
    using exit_behaviour [OF a0 refl refl refl, THEN conjunct2, THEN conjunct2, THEN conjunct2, THEN conjunct2,
        THEN conjunct2, THEN conjunct1, of "[''Hi'']"]
    by simp
  have b0: "\<not> fl_help defaultFlags"
    "''openai'' = strings_ToLower okWorld (fl_provider defaultFlags)"
    "'''' = getAPIKey okWorld ''openai'' (fl_token defaultFlags)"
    using lo(1) [OF example_strings(1)]
    by (simp_all add: defaultFlags_def defaultProvider_def getAPIKey_def okWorld_def)
  have b: "main okWorld defaultFlags [''Hi'']
     = (Exit 1, [Fprintf ''Error: %s environment variable not set and --token not provided\<newline>''
                   [S ''OPENAI_API_KEY'']])"
    using exit_behaviour [OF b0 refl refl, THEN conjunct2, THEN conjunct2, THEN conjunct2, THEN conjunct2,
        THEN conjunct2, THEN conjunct2, THEN conjunct1, of "[''Hi'']"]
    by (simp add: envVars_def)
  have c0: "\<not> fl_help (tokenFlags\<lparr>fl_speed := Fin 4.5\<rparr>)"
    "''openai'' = strings_ToLower okWorld (fl_provider (tokenFlags\<lparr>fl_speed := Fin 4.5\<rparr>))"
    "''sk-test'' = getAPIKey okWorld ''openai'' (fl_token (tokenFlags\<lparr>fl_speed := Fin 4.5\<rparr>))"
    using tok(1) tokp [OF example_strings(1)] tokk [of okWorld] by simp_all
  have c1: "validateSpeed ''openai'' (fl_speed (tokenFlags\<lparr>fl_speed := Fin 4.5\<rparr>))
              = Inl (Fprintln ''Error: Speed must be between 0.25 and 4.0 for OpenAI'')"
    by (simp add: validateSpeed_def f64_gt_def)
  have c: "main okWorld (tokenFlags\<lparr>fl_speed := Fin 4.5\<rparr>) [''Hi'']
     = (Exit 1, [Fprintln ''Error: Speed must be between 0.25 and 4.0 for OpenAI''])"
    using exit_behaviour [OF c0 refl refl, THEN conjunct2, THEN conjunct2, THEN conjunct2, THEN conjunct2,
        THEN conjunct2, THEN conjunct2, THEN conjunct2, THEN conjunct1,
        of "Fprintln ''Error: Speed must be between 0.25 and 4.0 for OpenAI''" "[''Hi'']"]
      valid ne(1) c1
    by blast
  have d0: "stdin brokenPipeWorld = Piped ''Hel'' (Some ''read error'')"
    by (simp add: brokenPipeWorld_def)
  have d: "main brokenPipeWorld tokenFlags []
     = (Exit 1, [Fprintf ''Error reading stdin: %v\<newline>'' [E (External ''read error'')]])"
    using exit_behaviour [OF tok(1) tokp [OF example_strings(7)] tokk tok(3,4), THEN conjunct2, THEN conjunct2, THEN conjunct2, THEN conjunct2,
        THEN conjunct2, THEN conjunct2, THEN conjunct2, THEN conjunct2,
        THEN conjunct1,
        of "[]" "[]" "''Hel''" "''read error''"]
      valid ne(1) sp d0
    by simp
  have e0: "getText okWorld [] = Inr ''''"
    by (simp add: getText_def okWorld_def)
  have e: "main okWorld tokenFlags [] = (Exit 1, [Fprintln ''Error: No text provided'', Usage])"
    using exit_behaviour [OF tok(1) tokp [OF example_strings(1)] tokk tok(3,4), THEN conjunct2, THEN conjunct2, THEN conjunct2, THEN conjunct2,
        THEN conjunct2, THEN conjunct2, THEN conjunct2, THEN conjunct2,
        THEN conjunct2, THEN conjunct1,
        of "[]" "[]"]
      valid ne(1) sp e0
    by simp
  have f0: "\<not> fl_help shoutFlags" "\<not> fl_all shoutFlags"
    "''openai'' = strings_ToLower okWorld (fl_provider shoutFlags)"
    "''sk-test'' = getAPIKey okWorld ''openai'' (fl_token shoutFlags)"
    "''ALLOY'' = defaultVoice ''openai'' (fl_voice shoutFlags)"
    "validateSpeed ''openai'' (fl_speed shoutFlags) = Inr []"
    "''ALLOY'' \<notin> set openAIVoices"
    "join '', '' openAIVoices = ''alloy, echo, fable, onyx, nova, shimmer''"
    using lo(1) [OF example_strings(1)]
    by (simp_all add: shoutFlags_def defaultFlags_def defaultProvider_def getAPIKey_def
          defaultVoice_def defaultSpeed_def validateSpeed_def f64_gt_def openAIVoices_def)
  have f: "main okWorld shoutFlags [''Hi'']
     = (Exit 1, [Fprintf ''Error: Invalid OpenAI voice '%s'. Valid voices: %s\<newline>''
                   [S ''ALLOY'', S ''alloy, echo, fable, onyx, nova, shimmer'']])"
    using exit_behaviour [where args = "[''Hi'']" and msgs = "[]" and ?text = "''Hi''",
        OF f0(1) f0(3) f0(4) refl f0(5), THEN conjunct2, THEN conjunct2, THEN conjunct2, THEN conjunct2,
        THEN conjunct2, THEN conjunct2, THEN conjunct2, THEN conjunct2,
        THEN conjunct2, THEN conjunct2, THEN conjunct1]
      f0(2) valid ne f0(6) tx [of okWorld] f0(7)
    by (simp add: f0(8))
  have g0: "\<forall>q b. http offlineWorld 0 q \<noteq> Response 200 b None"
    by (simp add: offlineWorld_def)
  have g1: "dispatch offlineWorld [] ''openai'' ''sk-test'' ''tts-1-hd'' ''alloy'' ''Hi''
              (fl_speed tokenFlags) (fl_stability tokenFlags) (fl_similarityBoost tokenFlags)
            = Inr (Inl (Errorf ''failed to make request: %w'' [E (External ''no route to host'')]),
                   snd (synthesizeOpenAI offlineWorld [] ''sk-test'' ''tts-1-hd'' ''alloy'' ''Hi''
                          (Fin 1)))"
    by code_simp
  note gt = exit_behaviour [OF tok(1) tokp [OF example_strings(5)] tokk tok(3,4),
      where args = "[''Hi'']" and msgs = "[]" and ?text = "''Hi''"]
  have g2: "fst (main offlineWorld tokenFlags [''Hi'']) = Exit 1"
    using gt [THEN conjunct2, THEN conjunct2, THEN conjunct2, THEN conjunct2,
        THEN conjunct2, THEN conjunct2, THEN conjunct2, THEN conjunct2,
        THEN conjunct2, THEN conjunct2, THEN conjunct2, THEN conjunct2,
        THEN conjunct2, THEN conjunct2, THEN conjunct1] tok(2) valid ne sp tx [of offlineWorld] g0
    by blast
  have "main offlineWorld tokenFlags [''Hi'']
          = (Exit 1,
             snd (synthesizeOpenAI offlineWorld [] ''sk-test'' ''tts-1-hd'' ''alloy'' ''Hi'' (Fin 1))
             @ [Fprintf ''Error synthesizing speech: %v\<newline>''
                  [E (Errorf ''failed to make request: %w''
                        [E (External ''no route to host'')])]])"
    using gt [THEN conjunct2, THEN conjunct2, THEN conjunct2, THEN conjunct2,
        THEN conjunct2, THEN conjunct2, THEN conjunct2, THEN conjunct2,
        THEN conjunct2, THEN conjunct2, THEN conjunct2, THEN conjunct1] tok(2) valid ne sp tx [of offlineWorld] g1
    by blast
  then have g3: "last (snd (main offlineWorld tokenFlags [''Hi'']))
     = Fprintf ''Error synthesizing speech: %v\<newline>''
         [E (Errorf ''failed to make request: %w'' [E (External ''no route to host'')])]"
    by simp
  have g4: "isStderr (last (snd (main offlineWorld tokenFlags [''Hi''])))"
    using gt [THEN conjunct2, THEN conjunct2, THEN conjunct1] g2 by blast
  have h0: "\<not> fl_help saveFlags" "\<not> fl_all saveFlags"
    "''openai'' = strings_ToLower diskFullWorld (fl_provider saveFlags)"
    "''sk-test'' = getAPIKey diskFullWorld ''openai'' (fl_token saveFlags)"
    "''tts-1-hd'' = defaultModel ''openai'' (fl_model saveFlags)"
    "''alloy'' = defaultVoice ''openai'' (fl_voice saveFlags)"
    "validateSpeed ''openai'' (fl_speed saveFlags) = Inr []"
    "fl_output saveFlags = ''out.mp3''"
    using tok(1-4) tokp [OF example_strings(8)] tokk [of diskFullWorld] sp
    by (simp_all add: saveFlags_def)
  have h1: "fileWrite diskFullWorld ''out.mp3'' ''mp3-data'' = Some ''no space left on device''"
    by (simp add: diskFullWorld_def)
  have h2: "dispatch diskFullWorld [] ''openai'' ''sk-test'' ''tts-1-hd'' ''alloy'' ''Hi''
              (fl_speed saveFlags) (fl_stability saveFlags) (fl_similarityBoost saveFlags)
            = Inr (Inr ''mp3-data'',
                   snd (synthesizeOpenAI diskFullWorld [] ''sk-test'' ''tts-1-hd'' ''alloy'' ''Hi''
                          (Fin 1)))"
    by code_simp
  have "main diskFullWorld saveFlags [''Hi'']
          = (Exit 1,
             snd (synthesizeOpenAI diskFullWorld [] ''sk-test'' ''tts-1-hd'' ''alloy'' ''Hi'' (Fin 1))
             @ [WriteFile (fl_output saveFlags) ''mp3-data'',
                Fprintf ''Error saving file: %v\<newline>''
                  [E (External ''no space left on device'')]])"
    using exit_behaviour [where args = "[''Hi'']" and msgs = "[]" and ?text = "''Hi''",
        OF h0(1) h0(3) h0(4) h0(5) h0(6), THEN conjunct2, THEN conjunct2, THEN conjunct2, THEN conjunct2,
        THEN conjunct2, THEN conjunct2, THEN conjunct2, THEN conjunct2,
        THEN conjunct2, THEN conjunct2, THEN conjunct2, THEN conjunct2,
        THEN conjunct1]
      h0(2) valid ne h0(7) tx [of diskFullWorld] h2 h0(8) h1
    by simp
  then have h: "fst (main diskFullWorld saveFlags [''Hi'']) = Exit 1"
    "last (snd (main diskFullWorld saveFlags [''Hi'']))
       = Fprintf ''Error saving file: %v\<newline>'' [E (External ''no space left on device'')]"
    by simp_all
  have i0: "audio noDeviceWorld 0 ''mp3-data'' \<noteq> Played"
    by (simp add: noDeviceWorld_def)
  have i1: "dispatch noDeviceWorld [] ''openai'' ''sk-test'' ''tts-1-hd'' ''alloy'' ''Hi''
              (fl_speed tokenFlags) (fl_stability tokenFlags) (fl_similarityBoost tokenFlags)
            = Inr (Inr ''mp3-data'',
                   snd (synthesizeOpenAI noDeviceWorld [] ''sk-test'' ''tts-1-hd'' ''alloy'' ''Hi''
                          (Fin 1)))"
    by code_simp
  have i2: "saveOutput noDeviceWorld
              (snd (synthesizeOpenAI noDeviceWorld [] ''sk-test'' ''tts-1-hd'' ''alloy'' ''Hi''
                      (Fin 1)))
              (fl_output tokenFlags) ''mp3-data''
            = Inr (snd (synthesizeOpenAI noDeviceWorld [] ''sk-test'' ''tts-1-hd'' ''alloy''
                          ''Hi'' (Fin 1)))"
    by (simp add: saveOutput_def tok(6))
  have i3: "fst (playAudio noDeviceWorld
                  (snd (synthesizeOpenAI noDeviceWorld [] ''sk-test'' ''tts-1-hd'' ''alloy''
                          ''Hi'' (Fin 1)))
                  ''mp3-data'')
            = Some (Errorf ''failed to create audio context: %w''
                      [E (External ''no audio device'')])"
    by (simp add: playAudio_def noDeviceWorld_def)
  note it = exit_behaviour [OF tok(1) tokp [OF example_strings(9)] tokk tok(3,4),
      where args = "[''Hi'']" and msgs = "[]" and ?text = "''Hi''"]
  have i4: "fst (main noDeviceWorld tokenFlags [''Hi'']) = Exit 1"
    using it [THEN conjunct2, THEN conjunct2, THEN conjunct2, THEN conjunct2,
        THEN conjunct2, THEN conjunct2, THEN conjunct2, THEN conjunct2,
        THEN conjunct2, THEN conjunct2, THEN conjunct2, THEN conjunct2,
        THEN conjunct2, THEN conjunct2, THEN conjunct2, THEN conjunct1] tok(2) valid ne sp tx [of noDeviceWorld] i1 tok(6) i0
    by blast
  have "main noDeviceWorld tokenFlags [''Hi'']
          = (Exit 1,
             snd (synthesizeOpenAI noDeviceWorld [] ''sk-test'' ''tts-1-hd'' ''alloy'' ''Hi'' (Fin 1))
             @ [PlayAudio ''mp3-data'',
                Fprintf ''Error playing audio: %v\<newline>''
                  [E (Errorf ''failed to create audio context: %w''
                        [E (External ''no audio device'')])]])"
    using it [THEN conjunct2, THEN conjunct2, THEN conjunct2, THEN conjunct2,
        THEN conjunct2, THEN conjunct2, THEN conjunct2, THEN conjunct2,
        THEN conjunct2, THEN conjunct2, THEN conjunct2, THEN conjunct2,
        THEN conjunct2, THEN conjunct1] tok(2) valid ne sp tx [of noDeviceWorld] i1 i2 tok(6) i3
    by blast
  then have i5: "last (snd (main noDeviceWorld tokenFlags [''Hi'']))
     = Fprintf ''Error playing audio: %v\<newline>''
         [E (Errorf ''failed to create audio context: %w'' [E (External ''no audio device'')])]"
    by simp
  have j0: "dispatch okWorld [] ''openai'' ''sk-test'' ''tts-1-hd'' ''alloy'' ''Hi''
              (fl_speed tokenFlags) (fl_stability tokenFlags) (fl_similarityBoost tokenFlags)
            = Inr (Inr ''mp3-data'',
                   snd (synthesizeOpenAI okWorld [] ''sk-test'' ''tts-1-hd'' ''alloy'' ''Hi''
                          (Fin 1)))"
    by code_simp
  have j1: "audio okWorld 0 ''mp3-data'' = Played"
    by (simp add: okWorld_def)
  note jt = exit_behaviour [OF tok(1) tokp [OF example_strings(1)] tokk tok(3,4),
      where args = "[''Hi'']" and msgs = "[]" and ?text = "''Hi''"]
  have j2: "fst (main okWorld tokenFlags [''Hi'']) = Exit 0"
    using jt [THEN conjunct2, THEN conjunct2, THEN conjunct2, THEN conjunct2,
        THEN conjunct2, THEN conjunct2, THEN conjunct2, THEN conjunct2,
        THEN conjunct2, THEN conjunct2, THEN conjunct2, THEN conjunct2,
        THEN conjunct2, THEN conjunct2, THEN conjunct2, THEN conjunct2,
        THEN conjunct1] tok(2) valid ne sp tx [of okWorld] j0 tok(6) j1
    by blast
  have "\<not> (\<exists>e \<in> set (snd (main okWorld tokenFlags [''Hi''])). isErrorMsg e)"
    using jt [THEN conjunct2, THEN conjunct2, THEN conjunct2, THEN conjunct1] tok(2) j2 by auto
  then have j3: "filter isErrorMsg (snd (main okWorld tokenFlags [''Hi''])) = []"
    by (simp add: filter_empty_conv)
  have k1: "fst (main closedStdinWorld tokenFlags []) = Panic"
    by code_simp
  have k2: "stdin closedStdinWorld = StatFailed"
    using exit_behaviour [OF tok(1) tokp [OF example_strings(6)] tokk tok(3,4), THEN conjunct2, THEN conjunct1,
        of "[]"] k1
    by blast
  have l0: "\<not> fl_help demoFlags" "fl_all demoFlags"
    "''openai'' = strings_ToLower flakyWorld (fl_provider demoFlags)"
    "''sk-test'' = getAPIKey flakyWorld ''openai'' (fl_token demoFlags)"
    "validateSpeed ''openai'' (fl_speed demoFlags) = Inr []"
    using lo(1) [OF example_strings(3)]
    by (simp_all add: demoFlags_def defaultFlags_def defaultProvider_def getAPIKey_def
          validateSpeed_def defaultSpeed_def f64_gt_def)
  have l1: "fst (main flakyWorld demoFlags [''Hi'']) = Exit 0"
    using exit_behaviour [where args = "[''Hi'']" and msgs = "[]" and ?text = "''Hi''",
        OF l0(1) l0(3) l0(4) refl refl, THEN conjunct2, THEN conjunct2, THEN conjunct2, THEN conjunct2,
        THEN conjunct1]
      l0(2) ne l0(5) tx [of flakyWorld]
    by blast
  have l2: "filter isErrorMsg (snd (main flakyWorld demoFlags [''Hi'']))
       = [Fprintf ''Error synthesizing voice announcement: %v\<newline>''
            [E (Errorf ''failed to make request: %w'' [E (External ''connection reset'')])]]"
    by code_simp
  show ?thesis
    using a b c d e f g0 g2 g3 g4 h1 h i0 i4 i5 j2 j3 k1 k2 l0(2) l1 l2
    by (simp only: simp_thms)
qed

subsection \<open>C10: the voice flag in the demo of all voices\<close>

text \<open>
  Claim C10. With \<^verbatim>\<open>--all\<close> the value of the voice flag has no effect at all: the run
  (exit status and trace) is the same for every value of the flag, and the message for an
  invalid OpenAI voice is never printed. With OpenAI, once credential, speed and text have
  passed their checks, the run ends with exit status 0 and every preset voice is announced,
  whatever the voice flag says.
\<close>

theorem all_ignores_voice:
  assumes "fl_all fl"
  shows "main w (fl\<lparr>fl_voice := v\<rparr>) args = main w fl args
    \<and> Fprintf ''Error: Invalid OpenAI voice '%s'. Valid voices: %s\<newline>'' xs
         \<notin> set (snd (main w fl args))
    \<and> (\<not> fl_help fl \<and> strings_ToLower w (fl_provider fl) = ''openai''
        \<and> getAPIKey w ''openai'' (fl_token fl) = k \<and> k \<noteq> ''''
        \<and> validateSpeed ''openai'' (fl_speed fl) = Inr msgs
        \<and> getText w args = Inr text \<and> text \<noteq> ''''
        \<longrightarrow> fst (main w (fl\<lparr>fl_voice := v\<rparr>) args) = Exit 0
            \<and> (\<forall>x \<in> set openAIVoices.
                  Call_synthesizeOpenAI k (defaultModel ''openai'' (fl_model fl)) x x (fl_speed fl)
                    \<in> set (snd (main w (fl\<lparr>fl_voice := v\<rparr>) args))))"
proof -
  let ?bad = "Fprintf ''Error: Invalid OpenAI voice '%s'. Valid voices: %s\<newline>'' xs"
  have a: "main w (fl\<lparr>fl_voice := v\<rparr>) args = main w fl args"
    using assms
    by (simp add: main_def run_def Let_def cong: prod.case_cong sum.case_cong if_cong)
  have b: "?bad \<notin> set (snd (main w fl args))"
  proof (cases rule: main_cases [of fl w args])
    case c_help
    then show ?thesis by simp
  next
    case (c_provider p)
    then show ?thesis by simp
  next
    case (c_key p)
    then show ?thesis by simp
  next
    case (c_speed p msg)
    then show ?thesis using validateSpeed_InlD [of p "fl_speed fl" msg] by auto
  next
    case (c_input p msgs st evs)
    then show ?thesis
      using validateSpeed_Inr_msgs [of p "fl_speed fl" msgs] getText_InlD [of w args st evs]
      by auto
  next
    case (c_no_text p msgs)
    then show ?thesis
      using validateSpeed_Inr_msgs [of p "fl_speed fl" msgs] by auto
  next
    case (c_run p msgs t)
    have m: "?bad \<notin> set msgs"
      using validateSpeed_Inr_msgs [of p "fl_speed fl" msgs] c_run(5) by auto
    have "\<not> loopEvent ?bad" by simp
    then have "?bad \<notin> set (speakAll w k' m' t' s' vs msgs)" for k' m' t' s' vs
      using speakAll_Fprintf m by blast
    then show ?thesis
      using c_run(8) assms m by (simp add: run_def)
  qed
  have c: "fst (main w (fl\<lparr>fl_voice := v\<rparr>) args) = Exit 0
            \<and> (\<forall>x \<in> set openAIVoices.
                  Call_synthesizeOpenAI k (defaultModel ''openai'' (fl_model fl)) x x (fl_speed fl)
                    \<in> set (snd (main w (fl\<lparr>fl_voice := v\<rparr>) args)))"
    if h: "\<not> fl_help fl" "strings_ToLower w (fl_provider fl) = ''openai''"
        "getAPIKey w ''openai'' (fl_token fl) = k" "k \<noteq> ''''"
        "validateSpeed ''openai'' (fl_speed fl) = Inr msgs"
        "getText w args = Inr text" "text \<noteq> ''''"
  proof -
    have "main w fl args
            = (Exit 0, speakAll w k (defaultModel ''openai'' (fl_model fl)) text (fl_speed fl)
                         openAIVoices msgs)"
      using main_run [OF h(1) h(2) _ h(3-7)] assms by (simp add: run_def)
    then show ?thesis
      unfolding a by (simp add: speakAll_announces)
  qed
  show ?thesis using a b c by blast
qed

text \<open>
  The theorem at \<^verbatim>\<open>--all\<close> with the voice \<open>no-such-voice\<close>, which the check for one
  utterance would refuse.
\<close>

theorem all_ignores_voice_witness:
  "fl_all demoVoiceFlags \<and> \<not> fl_help demoVoiceFlags
   \<and> strings_ToLower okWorld (fl_provider demoVoiceFlags) = ''openai''
   \<and> getAPIKey okWorld ''openai'' (fl_token demoVoiceFlags) = ''sk-test''
   \<and> validateSpeed ''openai'' (fl_speed demoVoiceFlags) = Inr []
   \<and> getText okWorld [''Hi''] = Inr ''Hi''
   \<and> \<not> isValidOpenAIVoice (fl_voice demoVoiceFlags)
   \<and> main okWorld (demoVoiceFlags\<lparr>fl_voice := ''alloy''\<rparr>) [''Hi'']
       = main okWorld demoVoiceFlags [''Hi'']
   \<and> fst (main okWorld (demoVoiceFlags\<lparr>fl_voice := ''alloy''\<rparr>) [''Hi'']) = Exit 0
   \<and> ''shimmer'' \<in> set openAIVoices
   \<and> Call_synthesizeOpenAI ''sk-test'' ''tts-1-hd'' ''shimmer'' ''shimmer'' (Fin 1)
        \<in> set (snd (main okWorld (demoVoiceFlags\<lparr>fl_voice := ''alloy''\<rparr>) [''Hi'']))"
proof -
  have h0: "fl_all demoVoiceFlags" and h1: "\<not> fl_help demoVoiceFlags"
    and h2: "strings_ToLower okWorld (fl_provider demoVoiceFlags) = ''openai''"
    by (simp_all add: demoVoiceFlags_def demoFlags_def defaultFlags_def defaultProvider_def
          example_strings asciiToLower_providers)
  have h3: "getAPIKey okWorld ''openai'' (fl_token demoVoiceFlags) = ''sk-test''"
    and h4: "''sk-test'' \<noteq> ''''"
    by (simp_all add: getAPIKey_def demoVoiceFlags_def demoFlags_def defaultFlags_def)
  have h5: "validateSpeed ''openai'' (fl_speed demoVoiceFlags) = Inr []"
    by (simp add: validateSpeed_def demoVoiceFlags_def demoFlags_def defaultFlags_def
          defaultSpeed_def f64_gt_def)
  have h6: "getText okWorld [''Hi''] = Inr ''Hi''" and h7: "''Hi'' \<noteq> ''''"
    by (simp_all add: getText_def)
  have h8: "''shimmer'' \<in> set openAIVoices"
    by (simp add: openAIVoices_def)
  have h9: "\<not> isValidOpenAIVoice (fl_voice demoVoiceFlags)"
    by (simp add: isValidOpenAIVoice_def openAIVoices_def demoVoiceFlags_def demoFlags_def
          defaultFlags_def)
  have m: "defaultModel ''openai'' (fl_model demoVoiceFlags) = ''tts-1-hd''"
    and sp: "fl_speed demoVoiceFlags = Fin 1"
    by (simp_all add: defaultModel_def defaultOpenAIModel_def demoVoiceFlags_def demoFlags_def
          defaultFlags_def defaultSpeed_def)
  note t = all_ignores_voice [OF h0, of okWorld "''alloy''" "[''Hi'']" "[]" "''sk-test''"
        "[]" "''Hi''"]
  have g1: "main okWorld (demoVoiceFlags\<lparr>fl_voice := ''alloy''\<rparr>) [''Hi'']
       = main okWorld demoVoiceFlags [''Hi'']"
    using t by (rule conjunct1)
  have g2: "fst (main okWorld (demoVoiceFlags\<lparr>fl_voice := ''alloy''\<rparr>) [''Hi'']) = Exit 0
     \<and> (\<forall>x \<in> set openAIVoices.
           Call_synthesizeOpenAI ''sk-test'' ''tts-1-hd'' x x (Fin 1)
             \<in> set (snd (main okWorld (demoVoiceFlags\<lparr>fl_voice := ''alloy''\<rparr>) [''Hi''])))"
    using t [THEN conjunct2, THEN conjunct2] h1 h2 h3 h4 h5 h6 h7
    unfolding m sp by blast
  have g3: "Call_synthesizeOpenAI ''sk-test'' ''tts-1-hd'' ''shimmer'' ''shimmer'' (Fin 1)
        \<in> set (snd (main okWorld (demoVoiceFlags\<lparr>fl_voice := ''alloy''\<rparr>) [''Hi'']))"
    using g2 h8 by blast
  show ?thesis
    using h0 h1 h2 h3 h5 h6 h8 h9 g1 g2 g3 by (simp only: simp_thms)
qed

end
